theory Spec2Isabelle
  imports Main "HOL-Library.AList" "HOL-Library.Char_ord"
begin

section \<open>Python values, dictionaries and exceptions\<close>

text \<open>
  The scraper (\<^verbatim>\<open>metrics_scraper.py\<close>) passes metric records around as Python dictionaries
  from string keys to dynamically typed values. The values that occur are \<^verbatim>\<open>None\<close>,
  booleans, integers and strings. A dictionary is an association list: \<open>map_of\<close> is the
  lookup, \<open>AList.update\<close> is item assignment (it overwrites in place when the key is
  present and appends otherwise, as a Python dictionary does).

  Strings are lists of 8-bit characters; the workload names, namespaces and kinds of a
  cluster are ASCII.
\<close>

datatype pyval = PNone | PBool bool | PInt int | PStr string

type_synonym pydict = "(string \<times> pyval) list"

datatype py_error =
    KeyError string
  | TypeError
  | ValueError
  | AttributeError
  | ApiException
  | ConnectionError
  | HTTPError nat

text \<open>Truthiness of a value,
    as \<^verbatim>\<open>if x:\<close> and \<^verbatim>\<open>x or d\<close> test it.\<close>

fun truthy :: "pyval \<Rightarrow> bool" where
  "truthy PNone = False"
| "truthy (PBool b) = b"
| "truthy (PInt i) = (i \<noteq> 0)"
| "truthy (PStr s) = (s \<noteq> [])"

text \<open>\<^verbatim>\<open>x or d\<close>\<close>

definition py_or :: "pyval \<Rightarrow> pyval \<Rightarrow> pyval" where
  "py_or x d = (if truthy x then x else d)"

text \<open>\<^verbatim>\<open>x == 0\<close>: an integer compares by value,
    \<^verbatim>\<open>False == 0\<close> holds, and
  \<^verbatim>\<open>None\<close> and strings are never equal to \<^verbatim>\<open>0\<close>.\<close>

fun eq_zero :: "pyval \<Rightarrow> bool" where
  "eq_zero (PInt i) = (i = 0)"
| "eq_zero (PBool b) = (\<not> b)"
| "eq_zero PNone = False"
| "eq_zero (PStr s) = False"

text \<open>\<^verbatim>\<open>d.get(k, 0)\<close>\<close>

definition dict_get0 :: "pydict \<Rightarrow> string \<Rightarrow> pyval" where
  "dict_get0 d k = (case map_of d k of None \<Rightarrow> PInt 0 | Some v \<Rightarrow> v)"

text \<open>\<^verbatim>\<open>d[k]\<close>,
    which raises \<^verbatim>\<open>KeyError\<close> on a missing key.\<close>

definition dict_item :: "pydict \<Rightarrow> string \<Rightarrow> py_error + pyval" where
  "dict_item d k = (case map_of d k of None \<Rightarrow> Inl (KeyError k) | Some v \<Rightarrow> Inr v)"

text \<open>\<^verbatim>\<open>str(x)\<close>, as an f-string renders a value.\<close>

definition digit_char :: "nat \<Rightarrow> char" where
  "digit_char d = ''0123456789'' ! d"

fun show_nat :: "nat \<Rightarrow> string" where
  "show_nat n = (if n < 10 then [digit_char n] else show_nat (n div 10) @ [digit_char (n mod 10)])"

declare show_nat.simps [simp del]

definition show_int :: "int \<Rightarrow> string" where
  "show_int i = (if i < 0 then CHR ''-'' # show_nat (nat (- i)) else show_nat (nat i))"

fun py_str :: "pyval \<Rightarrow> string" where
  "py_str PNone = ''None''"
| "py_str (PBool b) = (if b then ''True'' else ''False'')"
| "py_str (PInt i) = show_int i"
| "py_str (PStr s) = s"

section \<open>Name normalization\<close>

text \<open>
  \<^verbatim>\<open>remove_replicaset_hash\<close> tests the name with
  \<^verbatim>\<open>re.search(r'-[a-zA-Z0-9]+$', name)\<close> and, on a match, returns
  \<^verbatim>\<open>re.sub(r'-[a-zA-Z0-9]+$', '', name)\<close>.

  The character class is the three ASCII ranges. Without \<^verbatim>\<open>re.MULTILINE\<close> the anchor
  \<^verbatim>\<open>$\<close> matches at the end of the string and also just before a newline that is the
  last character of the string.
\<close>

definition is_alnum :: "char \<Rightarrow> bool" where
  "is_alnum c \<longleftrightarrow>
     (CHR ''a'' \<le> c \<and> c \<le> CHR ''z'') \<or> (CHR ''A'' \<le> c \<and> c \<le> CHR ''Z'') \<or>
     (CHR ''0'' \<le> c \<and> c \<le> CHR ''9'')"

definition newline :: char where
  "newline = CHR 0x0A"

text \<open>
  The pattern matched at the start of \<open>s\<close>: a hyphen, then the longest run of
  alphanumerics, which must be non-empty and must end where \<^verbatim>\<open>$\<close> matches. A shorter
  run is followed by an alphanumeric, where \<^verbatim>\<open>$\<close> cannot match, so backtracking adds
  no match. The result is the text left after the match.
\<close>

definition match_here :: "string \<Rightarrow> string option" where
  "match_here s =
     (case s of
        [] \<Rightarrow> None
      | c # cs \<Rightarrow>
          if c = CHR ''-'' \<and> takeWhile is_alnum cs \<noteq> [] \<and>
             (dropWhile is_alnum cs = [] \<or> dropWhile is_alnum cs = [newline])
          then Some (dropWhile is_alnum cs) else None)"

text \<open>\<^verbatim>\<open>re.search\<close>: is there a position where the pattern matches.\<close>

fun re_search :: "string \<Rightarrow> bool" where
  "re_search [] = False"
| "re_search (c # cs) = (match_here (c # cs) \<noteq> None \<or> re_search cs)"

text \<open>
  \<^verbatim>\<open>re.sub\<close> with the empty replacement: the text before the leftmost match is kept,
  the match is dropped. What follows a match is empty or one newline, where no further
  match starts.
\<close>

fun re_sub :: "string \<Rightarrow> string" where
  "re_sub [] = []"
| "re_sub (c # cs) =
     (case match_here (c # cs) of Some rest \<Rightarrow> rest | None \<Rightarrow> c # re_sub cs)"

definition remove_replicaset_hash :: "string \<Rightarrow> string" where
  "remove_replicaset_hash metric_name =
     (if re_search metric_name then re_sub metric_name else metric_name)"

text \<open>\<^verbatim>\<open>str.lower()\<close> on ASCII text.\<close>

definition lower_char :: "char \<Rightarrow> char" where
  "lower_char c =
     (case map_of (zip ''ABCDEFGHIJKLMNOPQRSTUVWXYZ'' ''abcdefghijklmnopqrstuvwxyz'') c of
        None \<Rightarrow> c
      | Some l \<Rightarrow> l)"

definition py_lower :: "string \<Rightarrow> string" where
  "py_lower s = map lower_char s"

section \<open>The watch filter\<close>

text \<open>
  An entry of \<^verbatim>\<open>WATCH_JSON\<close>. \<open>item_kind\<close> is \<^verbatim>\<open>item.get("kind")\<close>: \<open>None\<close> when the
  key is absent or null.
\<close>

record watch_item =
  item_kind :: "string option"
  item_namespace :: string
  item_name :: string

text \<open>The fields of \<^verbatim>\<open>MetricsScraper\<close> that the collectors and the dispatcher read.\<close>

record scraper =
  pagerduty_routing_key :: string
  watch_pairs_by_kind :: "string \<rightharpoonup> (string \<times> string) set"
  watched_namespaces :: "string set"

text \<open>\<^verbatim>\<open>(item.get("kind") or "Deployment").lower()\<close>\<close>

definition kind_of_item :: "watch_item \<Rightarrow> string" where
  "kind_of_item item =
     py_lower (case item_kind item of
                 None \<Rightarrow> ''Deployment''
               | Some k \<Rightarrow> if k = [] then ''Deployment'' else k)"

text \<open>\<^verbatim>\<open>d.setdefault(kind, set()).add(pair)\<close>\<close>

definition setdefault_add ::
  "(string \<rightharpoonup> (string \<times> string) set) \<Rightarrow> string \<Rightarrow> string \<times> string \<Rightarrow>
   (string \<rightharpoonup> (string \<times> string) set)" where
  "setdefault_add d kind pair =
     d(kind \<mapsto> insert pair (case d kind of None \<Rightarrow> {} | Some ps \<Rightarrow> ps))"

fun build_watch_pairs ::
  "watch_item list \<Rightarrow> (string \<rightharpoonup> (string \<times> string) set) \<Rightarrow>
   (string \<rightharpoonup> (string \<times> string) set)" where
  "build_watch_pairs [] d = d"
| "build_watch_pairs (item # items) d =
     build_watch_pairs items
       (setdefault_add d (kind_of_item item) (item_namespace item, item_name item))"

text \<open>
  The part of \<^verbatim>\<open>__init__\<close> that builds the lookup sets from the watch list. The
  credentials check and the client setup come before it and only decide whether the
  process starts.
\<close>

definition init_scraper :: "string \<Rightarrow> watch_item list \<Rightarrow> scraper" where
  "init_scraper routing_key watch_json =
     \<lparr> pagerduty_routing_key = routing_key,
       watch_pairs_by_kind = build_watch_pairs watch_json Map.empty,
       watched_namespaces = item_namespace ` set watch_json \<rparr>"

text \<open>\<^verbatim>\<open>_is_watched\<close>: \<^verbatim>\<open>if pairs:\<close> holds for a set that is present and non-empty.\<close>

definition is_watched :: "scraper \<Rightarrow> string \<Rightarrow> string \<Rightarrow> string \<Rightarrow> bool" where
  "is_watched self kind namespace name =
     (case watch_pairs_by_kind self (py_lower kind) of
        Some pairs \<Rightarrow>
          if pairs \<noteq> {} then (namespace, name) \<in> pairs
          else namespace \<in> watched_namespaces self
      | None \<Rightarrow> namespace \<in> watched_namespaces self)"

section \<open>Cluster objects\<close>

text \<open>
  The objects of the Kubernetes client, with the attributes the scraper reads. An
  attribute that the client may leave unset is an \<open>option\<close>; reading an attribute of
  \<^verbatim>\<open>None\<close> raises \<^verbatim>\<open>AttributeError\<close>. Objects listed by the API server carry a name
  and a namespace.
\<close>

record owner_reference =
  ref_kind :: string
  ref_name :: string

record object_meta =
  meta_name :: string
  meta_namespace :: string
  owner_references :: "owner_reference list option"
  labels :: "(string \<times> string) list option"

record replica_spec =
  replicas :: "int option"

record replica_status =
  available_replicas :: "int option"
  ready_replicas :: "int option"
  current_replicas :: "int option"
  updated_replicas :: "int option"

text \<open>A Deployment, ReplicaSet or StatefulSet.\<close>

record workload =
  w_metadata :: "object_meta option"
  w_spec :: "replica_spec option"
  w_status :: "replica_status option"

record daemon_set_status =
  desired_number_scheduled :: "int option"
  current_number_scheduled :: "int option"
  number_ready :: "int option"
  updated_number_scheduled :: "int option"
  number_misscheduled :: "int option"

record daemon_set =
  ds_metadata :: "object_meta option"
  ds_status :: "daemon_set_status option"

record cron_job_spec =
  suspend :: "bool option"

text \<open>\<open>last_successful_time\<close> holds the ISO rendering of the recorded time.\<close>

record cron_job_status =
  last_successful_time :: "string option"

record cron_job =
  cj_metadata :: "object_meta option"
  cj_spec :: "cron_job_spec option"
  cj_status :: "cron_job_status option"

record job_status =
  failed :: "int option"

record job =
  job_metadata :: "object_meta option"
  job_status :: "job_status option"

record pod_status =
  phase :: "string option"

record pod =
  pod_metadata :: "object_meta option"
  pod_status :: "pod_status option"

text \<open>
  The cluster as one run sees it: the answer of each list call (an exception or the
  items), and the clock reading that stamps the metrics.
\<close>

record cluster =
  list_deployment_for_all_namespaces :: "py_error + workload list"
  list_replica_set_for_all_namespaces :: "py_error + workload list"
  list_daemon_set_for_all_namespaces :: "py_error + daemon_set list"
  list_stateful_set_for_all_namespaces :: "py_error + workload list"
  list_cron_job_for_all_namespaces :: "py_error + cron_job list"
  list_namespaced_job :: "string \<Rightarrow> py_error + job list"
  list_namespaced_pod :: "string \<Rightarrow> py_error + pod list"
  now_isoformat :: string

text \<open>\<^verbatim>\<open>x or 0\<close> on an optional integer.\<close>

definition or0 :: "int option \<Rightarrow> int" where
  "or0 x = (case x of None \<Rightarrow> 0 | Some i \<Rightarrow> i)"

section \<open>Resource collectors\<close>

text \<open>
  Every collector has the shape
  \<^verbatim>\<open>metrics = []; try: items = list(); for x in items: ... metrics.append(..) except Exception: log; return metrics\<close>.
  The body of the loop for one item either raises, skips the item (\<^verbatim>\<open>continue\<close>) or
  appends one metric. \<open>collect_loop\<close> runs the loop: it returns the list \<^verbatim>\<open>metrics\<close>
  as it stands when the loop ends, and the exception that ended it, if any.
\<close>

fun collect_loop ::
  "('a \<Rightarrow> py_error + pydict option) \<Rightarrow> 'a list \<Rightarrow> pydict list \<Rightarrow> pydict list \<times> py_error option" where
  "collect_loop body [] metrics = (metrics, None)"
| "collect_loop body (x # xs) metrics =
     (case body x of
        Inl e \<Rightarrow> (metrics, Some e)
      | Inr None \<Rightarrow> collect_loop body xs metrics
      | Inr (Some m) \<Rightarrow> collect_loop body xs (metrics @ [m]))"

text \<open>The \<^verbatim>\<open>try\<close> block of a collector: the list call, then the loop.\<close>

definition try_collect ::
  "py_error + 'a list \<Rightarrow> ('a \<Rightarrow> py_error + pydict option) \<Rightarrow> pydict list \<times> py_error option" where
  "try_collect listing body =
     (case listing of
        Inl e \<Rightarrow> ([], Some e)
      | Inr items \<Rightarrow> collect_loop body items [])"

text \<open>The \<^verbatim>\<open>except Exception\<close> clause logs the exception; the collector returns \<^verbatim>\<open>metrics\<close>.\<close>

definition collect :: "py_error + 'a list \<Rightarrow> ('a \<Rightarrow> py_error + pydict option) \<Rightarrow> py_error + pydict list" where
  "collect listing body = (case try_collect listing body of (metrics, _) \<Rightarrow> Inr metrics)"

subsection \<open>Deployments\<close>

definition deployment_body :: "scraper \<Rightarrow> string \<Rightarrow> workload \<Rightarrow> py_error + pydict option" where
  "deployment_body self now deployment =
     (case w_metadata deployment of
        None \<Rightarrow> Inl AttributeError
      | Some md \<Rightarrow>
          if \<not> is_watched self ''deployment'' (meta_namespace md) (meta_name md) then Inr None
          else
            (case w_spec deployment of
               None \<Rightarrow> Inl AttributeError
             | Some sp \<Rightarrow>
                 (case w_status deployment of
                    None \<Rightarrow> Inl AttributeError
                  | Some st \<Rightarrow>
                      Inr (Some
                        [(''name'', PStr (meta_name md)),
                         (''namespace'', PStr (meta_namespace md)),
                         (''type'', PStr ''deployment''),
                         (''desired_replicas'', PInt (or0 (replicas sp))),
                         (''available_replicas'', PInt (or0 (available_replicas st))),
                         (''ready_replicas'', PInt (or0 (ready_replicas st))),
                         (''timestamp'', PStr now)]))))"

definition get_deployment_metrics :: "scraper \<Rightarrow> cluster \<Rightarrow> py_error + pydict list" where
  "get_deployment_metrics self k8s =
     collect (list_deployment_for_all_namespaces k8s) (deployment_body self (now_isoformat k8s))"

subsection \<open>ReplicaSets\<close>

definition replicaset_body :: "scraper \<Rightarrow> string \<Rightarrow> workload \<Rightarrow> py_error + pydict option" where
  "replicaset_body self now rs =
     (case w_metadata rs of
        None \<Rightarrow> Inl AttributeError
      | Some md \<Rightarrow>
          if \<not> is_watched self ''replicaset'' (meta_namespace md) (meta_name md) \<and>
             meta_namespace md \<notin> watched_namespaces self
          then Inr None
          else
            (case w_spec rs of
               None \<Rightarrow> Inl AttributeError
             | Some sp \<Rightarrow>
                 (case w_status rs of
                    None \<Rightarrow> Inl AttributeError
                  | Some st \<Rightarrow>
                      if or0 (replicas sp) = 0 then Inr None
                      else
                        Inr (Some
                          [(''name'', PStr (meta_name md)),
                           (''namespace'', PStr (meta_namespace md)),
                           (''type'', PStr ''replicaset''),
                           (''desired_replicas'', PInt (or0 (replicas sp))),
                           (''available_replicas'', PInt (or0 (available_replicas st))),
                           (''ready_replicas'', PInt (or0 (ready_replicas st))),
                           (''timestamp'', PStr now)]))))"

definition get_replicaset_metrics :: "scraper \<Rightarrow> cluster \<Rightarrow> py_error + pydict list" where
  "get_replicaset_metrics self k8s =
     collect (list_replica_set_for_all_namespaces k8s) (replicaset_body self (now_isoformat k8s))"

subsection \<open>DaemonSets\<close>

text \<open>
  \<^verbatim>\<open>client.V1DaemonSetStatus()\<close>: the constructor is called without arguments, and
  the client refuses an unset value for the four required counts
  (\<^verbatim>\<open>current_number_scheduled\<close>,
      \<^verbatim>\<open>desired_number_scheduled\<close>,
      \<^verbatim>\<open>number_misscheduled\<close>,
  \<^verbatim>\<open>number_ready\<close>) with a \<^verbatim>\<open>ValueError\<close>.
\<close>

definition V1DaemonSetStatus :: "py_error + daemon_set_status" where
  "V1DaemonSetStatus = Inl ValueError"

definition daemonset_body :: "scraper \<Rightarrow> string \<Rightarrow> daemon_set \<Rightarrow> py_error + pydict option" where
  "daemonset_body self now ds =
     (case ds_metadata ds of
        None \<Rightarrow> Inl AttributeError
      | Some md \<Rightarrow>
          if \<not> is_watched self ''daemonset'' (meta_namespace md) (meta_name md) then Inr None
          else
            (case (case ds_status ds of None \<Rightarrow> V1DaemonSetStatus | Some st \<Rightarrow> Inr st) of
               Inl e \<Rightarrow> Inl e
             | Inr status \<Rightarrow>
                 (let desired = or0 (desired_number_scheduled status);
                      current = or0 (current_number_scheduled status);
                      ready = or0 (number_ready status);
                      updated = or0 (updated_number_scheduled status);
                      available = ready;
                      misscheduled = or0 (number_misscheduled status)
                  in Inr (Some
                       [(''name'', PStr (meta_name md)),
                        (''namespace'', PStr (meta_namespace md)),
                        (''type'', PStr ''daemonset''),
                        (''desired_replicas'', PInt desired),
                        (''available_replicas'', PInt available),
                        (''ready_replicas'', PInt ready),
                        (''current_number_scheduled'', PInt current),
                        (''updated_number_scheduled'', PInt updated),
                        (''number_misscheduled'', PInt misscheduled),
                        (''timestamp'', PStr now)]))))"

definition get_daemonset_metrics :: "scraper \<Rightarrow> cluster \<Rightarrow> py_error + pydict list" where
  "get_daemonset_metrics self k8s =
     collect (list_daemon_set_for_all_namespaces k8s) (daemonset_body self (now_isoformat k8s))"

subsection \<open>StatefulSets\<close>

definition statefulset_body :: "scraper \<Rightarrow> string \<Rightarrow> workload \<Rightarrow> py_error + pydict option" where
  "statefulset_body self now ss =
     (case w_metadata ss of
        None \<Rightarrow> Inl AttributeError
      | Some md \<Rightarrow>
          if \<not> is_watched self ''statefulset'' (meta_namespace md) (meta_name md) then Inr None
          else
            (case w_spec ss of
               None \<Rightarrow> Inl AttributeError
             | Some sp \<Rightarrow>
                 (case w_status ss of
                    None \<Rightarrow> Inl AttributeError
                  | Some st \<Rightarrow>
                      Inr (Some
                        [(''name'', PStr (meta_name md)),
                         (''namespace'', PStr (meta_namespace md)),
                         (''type'', PStr ''statefulset''),
                         (''desired_replicas'', PInt (or0 (replicas sp))),
                         (''available_replicas'', PInt (or0 (ready_replicas st))),
                         (''ready_replicas'', PInt (or0 (ready_replicas st))),
                         (''current_replicas'', PInt (or0 (current_replicas st))),
                         (''updated_replicas'', PInt (or0 (updated_replicas st))),
                         (''timestamp'', PStr now)]))))"

definition get_statefulset_metrics :: "scraper \<Rightarrow> cluster \<Rightarrow> py_error + pydict list" where
  "get_statefulset_metrics self k8s =
     collect (list_stateful_set_for_all_namespaces k8s) (statefulset_body self (now_isoformat k8s))"

subsection \<open>CronJobs\<close>

text \<open>
  The loop over the owner references of one Job: each reference of kind \<^verbatim>\<open>CronJob\<close>
  with the schedule's name appends the Job's name to \<^verbatim>\<open>job_names\<close> and, when the Job
  reports failures,
      increments \<^verbatim>\<open>failed_jobs\<close>. The state is \<open>(failed_jobs,
      job_names)\<close>.
\<close>

fun owner_refs_loop ::
  "string \<Rightarrow> string \<Rightarrow> bool \<Rightarrow> owner_reference list \<Rightarrow> int \<times> string list \<Rightarrow> int \<times> string list" where
  "owner_refs_loop name job_name job_failed [] acc = acc"
| "owner_refs_loop name job_name job_failed (ref # refs) (failed_jobs, job_names) =
     (if ref_kind ref = ''CronJob'' \<and> ref_name ref = name
      then owner_refs_loop name job_name job_failed refs
             (if job_failed then failed_jobs + 1 else failed_jobs, job_names @ [job_name])
      else owner_refs_loop name job_name job_failed refs (failed_jobs, job_names))"

text \<open>\<^verbatim>\<open>job.status and (job.status.failed or 0) > 0\<close>\<close>

definition job_has_failed :: "job \<Rightarrow> bool" where
  "job_has_failed j = (case job_status j of None \<Rightarrow> False | Some st \<Rightarrow> or0 (failed st) > 0)"

text \<open>The loop over the Jobs of the namespace; \<^verbatim>\<open>job.metadata and job.metadata.owner_references\<close>
  holds when the metadata is set and the reference list is set and non-empty.\<close>

fun jobs_loop :: "string \<Rightarrow> job list \<Rightarrow> int \<times> string list \<Rightarrow> int \<times> string list" where
  "jobs_loop name [] acc = acc"
| "jobs_loop name (j # js) acc =
     (case job_metadata j of
        None \<Rightarrow> jobs_loop name js acc
      | Some md \<Rightarrow>
          (case owner_references md of
             None \<Rightarrow> jobs_loop name js acc
           | Some refs \<Rightarrow>
               jobs_loop name js (owner_refs_loop name (meta_name md) (job_has_failed j) refs acc)))"

text \<open>The first inner \<^verbatim>\<open>try\<close>: an exception of the list call leaves both variables as
  initialised.\<close>

definition check_jobs :: "cluster \<Rightarrow> string \<Rightarrow> string \<Rightarrow> int \<times> string list" where
  "check_jobs k8s namespace name =
     (case list_namespaced_job k8s namespace of
        Inl je \<Rightarrow> (0, [])
      | Inr jobs \<Rightarrow> jobs_loop name jobs (0, []))"

text \<open>
  The loop over the Pods of the namespace, with \<^verbatim>\<open>failed_pods\<close> as state. Reading
  \<^verbatim>\<open>pod.metadata.labels\<close> or \<^verbatim>\<open>pod.status.phase\<close> of an unset attribute raises and ends
  the loop with the count reached so far.
\<close>

fun pods_loop :: "string list \<Rightarrow> pod list \<Rightarrow> int \<Rightarrow> int \<times> py_error option" where
  "pods_loop job_names [] failed_pods = (failed_pods, None)"
| "pods_loop job_names (p # ps) failed_pods =
     (case pod_metadata p of
        None \<Rightarrow> (failed_pods, Some AttributeError)
      | Some md \<Rightarrow>
          (case map_of (case labels md of None \<Rightarrow> [] | Some ls \<Rightarrow> ls) ''job-name'' of
             None \<Rightarrow> pods_loop job_names ps failed_pods
           | Some job_name \<Rightarrow>
               if job_name \<in> set job_names then
                 (case pod_status p of
                    None \<Rightarrow> (failed_pods, Some AttributeError)
                  | Some st \<Rightarrow>
                      if py_lower (case phase st of None \<Rightarrow> [] | Some ph \<Rightarrow> ph) \<in> {''failed'',
                          ''unknown''}
                      then pods_loop job_names ps (failed_pods + 1)
                      else pods_loop job_names ps failed_pods)
               else pods_loop job_names ps failed_pods))"

text \<open>The second inner \<^verbatim>\<open>try\<close>,
    entered only when \<^verbatim>\<open>job_names\<close> is non-empty.\<close>

definition check_pods :: "cluster \<Rightarrow> string \<Rightarrow> string list \<Rightarrow> int" where
  "check_pods k8s namespace job_names =
     (if job_names \<noteq> [] then
        (case list_namespaced_pod k8s namespace of
           Inl pe \<Rightarrow> 0
         | Inr pods \<Rightarrow> fst (pods_loop job_names pods 0))
      else 0)"

text \<open>
  \<^verbatim>\<open>client.V1CronJobSpec()\<close>: the constructor is called without arguments, and the
  client refuses an unset \<^verbatim>\<open>job_template\<close> and \<^verbatim>\<open>schedule\<close> with a \<^verbatim>\<open>ValueError\<close>.
  \<^verbatim>\<open>client.V1CronJobStatus()\<close> has no required attribute.
\<close>

definition V1CronJobSpec :: "py_error + cron_job_spec" where
  "V1CronJobSpec = Inl ValueError"

definition V1CronJobStatus :: cron_job_status where
  "V1CronJobStatus = \<lparr> last_successful_time = None \<rparr>"

definition cronjob_body :: "scraper \<Rightarrow> cluster \<Rightarrow> cron_job \<Rightarrow> py_error + pydict option" where
  "cronjob_body self k8s cj =
     (case cj_metadata cj of
        None \<Rightarrow> Inl AttributeError
      | Some md \<Rightarrow>
          if \<not> is_watched self ''cronjob'' (meta_namespace md) (meta_name md) then Inr None
          else
            (case (case cj_spec cj of None \<Rightarrow> V1CronJobSpec | Some sp \<Rightarrow> Inr sp) of
               Inl e \<Rightarrow> Inl e
             | Inr spec \<Rightarrow>
                 (let name = meta_name md;
                      namespace = meta_namespace md;
                      status = (case cj_status cj of None \<Rightarrow> V1CronJobStatus | Some st \<Rightarrow> st);
                      suspended = (case suspend spec of None \<Rightarrow> False | Some b \<Rightarrow> b);
                      desired = (if suspended then 0 else 1);
                      last_success_iso = last_successful_time status;
                      (failed_jobs, job_names) = check_jobs k8s namespace name;
                      failed_pods = check_pods k8s namespace job_names;
                      healthy = (\<not> suspended \<and> last_success_iso \<noteq> None \<and>
                                 failed_jobs = 0 \<and> failed_pods = 0);
                      available = (if healthy then 1 else 0)
                  in Inr (Some
                       [(''name'', PStr name),
                        (''namespace'', PStr namespace),
                        (''type'', PStr ''cronjob''),
                        (''desired_replicas'', PInt desired),
                        (''available_replicas'', PInt available),
                        (''ready_replicas'', PInt available),
                        (''suspended'', PBool suspended),
                        (''last_successful_time'',
                           (case last_success_iso of None \<Rightarrow> PNone | Some t \<Rightarrow> PStr t)),
                        (''failed_jobs'', PInt failed_jobs),
                        (''failed_pods'', PInt failed_pods),
                        (''timestamp'', PStr (now_isoformat k8s))]))))"

definition get_cronjob_metrics :: "scraper \<Rightarrow> cluster \<Rightarrow> py_error + pydict list" where
  "get_cronjob_metrics self k8s =
     collect (list_cron_job_for_all_namespaces k8s) (cronjob_body self k8s)"

section \<open>Alert dispatch\<close>

text \<open>The JSON body of a call to the events endpoint; a resolve has no \<open>payload\<close>.\<close>

record pd_payload =
  pd_summary :: string
  pd_severity :: string
  pd_source :: string
  pd_component :: string
  pd_group :: string
  pd_class :: string
  custom_details :: pydict

record pd_request =
  routing_key :: string
  event_action :: string
  dedup_key :: string
  payload :: "pd_payload option"

text \<open>The dictionary \<^verbatim>\<open>alert\<close> that the evaluator hands to \<^verbatim>\<open>send_pagerduty_alert\<close>.\<close>

record alert =
  alert_resource :: string
  alert_type :: pyval
  alert_duration :: string
  alert_metric :: pydict

text \<open>
  What \<^verbatim>\<open>requests.post\<close> does with a request: it raises (no connection, timeout) or
  returns a response with a status code. The endpoint is a parameter: the answer to the
  \<open>n\<close>-th call of the run with a given body.
\<close>

datatype http_result = Raises py_error | Status nat

type_synonym endpoint = "nat \<Rightarrow> pd_request \<Rightarrow> http_result"

text \<open>
  The \<^verbatim>\<open>try\<close> block of both senders: \<^verbatim>\<open>requests.post\<close>, then
  \<^verbatim>\<open>response.raise_for_status()\<close>, which raises on a 4xx or 5xx status.
\<close>

definition post_and_check :: "http_result \<Rightarrow> py_error + unit" where
  "post_and_check r =
     (case r of
        Raises e \<Rightarrow> Inl e
      | Status code \<Rightarrow> if 400 \<le> code \<and> code < 600 then Inl (HTTPError code) else Inr ())"

text \<open>\<^verbatim>\<open>try: ...; return True  except Exception: log; return False\<close>\<close>

definition try_send :: "http_result \<Rightarrow> py_error + bool" where
  "try_send r = (case post_and_check r of Inl e \<Rightarrow> Inr False | Inr _ \<Rightarrow> Inr True)"

text \<open>A sender yields the request it posts and the value it returns.\<close>

definition send_pagerduty_alert ::
  "scraper \<Rightarrow> (pd_request \<Rightarrow> http_result) \<Rightarrow> alert \<Rightarrow> pd_request \<times> (py_error + bool)" where
  "send_pagerduty_alert self post alert =
     (let request =
        \<lparr> routing_key = pagerduty_routing_key self,
          event_action = ''trigger'',
          dedup_key = ''k8s-zero-replicas-'' @ alert_resource alert,
          payload = Some
            \<lparr> pd_summary = ''Kubernetes '' @ py_str (alert_type alert) @ '' '' @ alert_resource alert @
                            '' has 0 available replicas'',
              pd_severity = ''critical'',
              pd_source = ''k8s-metrics-scraper'',
              pd_component = alert_resource alert,
              pd_group = ''kubernetes'',
              pd_class = ''replica_failure'',
              custom_details = alert_metric alert \<rparr> \<rparr>
      in (request, try_send (post request)))"

definition send_pagerduty_resolve ::
  "scraper \<Rightarrow> (pd_request \<Rightarrow> http_result) \<Rightarrow> string \<Rightarrow> pyval \<Rightarrow> pydict \<Rightarrow> pd_request \<times> (py_error + bool)" where
  "send_pagerduty_resolve self post resource_key resource_type metric =
     (let request =
        \<lparr> routing_key = pagerduty_routing_key self,
          event_action = ''resolve'',
          dedup_key = ''k8s-zero-replicas-'' @ resource_key,
          payload = None \<rparr>
      in (request, try_send (post request)))"

section \<open>Stateless evaluation\<close>

text \<open>
  What \<^verbatim>\<open>evaluate_and_notify\<close> has done so far: the requests posted, in order, and
  the two counters.
\<close>

record notify_state =
  outbox :: "pd_request list"
  triggers :: int
  resolves :: int

text \<open>
  The body of the loop for one metric. It yields the metric dictionary as the iteration
  leaves it (the dictionary is the caller's object, assigned to in place), the new state,
  and the exception that escaped, if any. The alert refers to the same dictionary, so the
  request carries it as it is when the request is posted.
\<close>

definition notify_body ::
  "scraper \<Rightarrow> endpoint \<Rightarrow> notify_state \<Rightarrow> pydict \<Rightarrow> pydict \<times> notify_state \<times> py_error option" where
  "notify_body self post st metric =
     (let desired = py_or (dict_get0 metric ''desired_replicas'') (PInt 0);
          available = py_or (dict_get0 metric ''available_replicas'') (PInt 0)
      in
        if eq_zero desired then (metric, st, None)
        else
          (case dict_item metric ''name'' of
             Inl e \<Rightarrow> (metric, st, Some e)
           | Inr (PStr n) \<Rightarrow>
               (let metric' = AList.update ''name'' (PStr (remove_replicaset_hash n)) metric
                in
                  (case dict_item metric' ''namespace'' of
                     Inl e \<Rightarrow> (metric', st, Some e)
                   | Inr ns \<Rightarrow>
                       (let resource_key = py_str ns @ ''/'' @ remove_replicaset_hash n;
                            unhealthy = eq_zero available
                        in
                          (case dict_item metric' ''type'' of
                             Inl e \<Rightarrow> (metric', st, Some e)
                           | Inr ty \<Rightarrow>
                               if unhealthy then
                                 (case send_pagerduty_alert self (post (length (outbox st)))
                                         \<lparr> alert_resource = resource_key, alert_type = ty,
                                           alert_duration = ''unknown'', alert_metric = metric' \<rparr> of
                                    (request, Inl e) \<Rightarrow>
                                      (metric', st\<lparr>outbox := outbox st @ [request]\<rparr>, Some e)
                                  | (request, Inr sent) \<Rightarrow>
                                      (metric',
                                       st\<lparr>outbox := outbox st @ [request],
                                          triggers := (if sent then triggers st + 1 else triggers st)\<rparr>,
                                       None))
                               else
                                 (case send_pagerduty_resolve self (post (length (outbox st)))
                                         resource_key ty metric' of
                                    (request, Inl e) \<Rightarrow>
                                      (metric', st\<lparr>outbox := outbox st @ [request]\<rparr>, Some e)
                                  | (request, Inr sent) \<Rightarrow>
                                      (metric',
                                       st\<lparr>outbox := outbox st @ [request],
                                          resolves := (if sent then resolves st + 1 else resolves st)\<rparr>,
                                       None))))))
           | Inr _ \<Rightarrow> (metric, st, Some TypeError)))"

text \<open>The loop: an exception ends it and leaves the remaining metrics untouched.\<close>

fun notify_loop ::
  "scraper \<Rightarrow> endpoint \<Rightarrow> pydict list \<Rightarrow> notify_state \<Rightarrow> pydict list \<times> notify_state \<times> py_error option" where
  "notify_loop self post [] st = ([], st, None)"
| "notify_loop self post (metric # metrics) st =
     (case notify_body self post st metric of
        (metric', st', Some e) \<Rightarrow> (metric' # metrics, st', Some e)
      | (metric', st', None) \<Rightarrow>
          (case notify_loop self post metrics st' of
             (metrics', st'', r) \<Rightarrow> (metric' # metrics', st'', r)))"

definition evaluate_and_notify ::
  "scraper \<Rightarrow> endpoint \<Rightarrow> pydict list \<Rightarrow> pydict list \<times> notify_state \<times> py_error option" where
  "evaluate_and_notify self post metrics =
     notify_loop self post metrics \<lparr> outbox = [], triggers = 0, resolves = 0 \<rparr>"

section \<open>The run\<close>

definition then_do :: "py_error + 'a \<Rightarrow> ('a \<Rightarrow> py_error + 'b) \<Rightarrow> py_error + 'b" where
  "then_do r f = (case r of Inl e \<Rightarrow> Inl e | Inr x \<Rightarrow> f x)"

text \<open>\<^verbatim>\<open>all_metrics\<close> after the five \<^verbatim>\<open>extend\<close> calls.\<close>

definition collect_all :: "scraper \<Rightarrow> cluster \<Rightarrow> py_error + pydict list" where
  "collect_all self k8s =
     then_do (get_deployment_metrics self k8s) (\<lambda>deployments.
     then_do (get_replicaset_metrics self k8s) (\<lambda>replicasets.
     then_do (get_daemonset_metrics self k8s) (\<lambda>daemonsets.
     then_do (get_statefulset_metrics self k8s) (\<lambda>statefulsets.
     then_do (get_cronjob_metrics self k8s) (\<lambda>cronjobs.
       Inr (deployments @ replicasets @ daemonsets @ statefulsets @ cronjobs))))))"

text \<open>
  \<^verbatim>\<open>run\<close>: the metrics list as the evaluator leaves it, the evaluator's state, and the
  exception that escapes the run, if any.
\<close>

definition run ::
  "scraper \<Rightarrow> cluster \<Rightarrow> endpoint \<Rightarrow> pydict list \<times> notify_state \<times> py_error option" where
  "run self k8s post =
     (case collect_all self k8s of
        Inl e \<Rightarrow> ([], \<lparr> outbox = [], triggers = 0, resolves = 0 \<rparr>, Some e)
      | Inr all_metrics \<Rightarrow> evaluate_and_notify self post all_metrics)"

section \<open>Vocabulary of the specification\<close>

text \<open>
  The evaluator's view of one metric, taken from \<open>notify_body\<close> itself with an endpoint
  that accepts every request: the dictionary after the iteration, the requests the
  iteration posts, and the exception it raises.
\<close>

definition accepting :: endpoint where
  "accepting n request = Status 202"

definition no_requests :: notify_state where
  "no_requests = \<lparr> outbox = [], triggers = 0, resolves = 0 \<rparr>"

definition metric_after :: "scraper \<Rightarrow> pydict \<Rightarrow> pydict" where
  "metric_after self metric = fst (notify_body self accepting no_requests metric)"

definition requests_for :: "scraper \<Rightarrow> pydict \<Rightarrow> pd_request list" where
  "requests_for self metric = outbox (fst (snd (notify_body self accepting no_requests metric)))"

definition exception_of :: "scraper \<Rightarrow> pydict \<Rightarrow> py_error option" where
  "exception_of self metric = snd (snd (notify_body self accepting no_requests metric))"

text \<open>
  The Metric record of the data model: a name, a namespace and a type that are strings,
  and desired and available replica counts that are non-negative integers.
\<close>

definition is_str :: "pyval option \<Rightarrow> bool" where
  "is_str v = (case v of Some (PStr s) \<Rightarrow> True | _ \<Rightarrow> False)"

definition is_count :: "pyval option \<Rightarrow> bool" where
  "is_count v = (case v of Some (PInt i) \<Rightarrow> 0 \<le> i | _ \<Rightarrow> False)"

definition is_metric :: "pydict \<Rightarrow> bool" where
  "is_metric m \<longleftrightarrow>
     is_str (map_of m ''name'') \<and> is_str (map_of m ''namespace'') \<and> is_str (map_of m ''type'') \<and>
     is_count (map_of m ''desired_replicas'') \<and> is_count (map_of m ''available_replicas'')"

definition field_str :: "pydict \<Rightarrow> string \<Rightarrow> string" where
  "field_str m k = (case map_of m k of Some (PStr s) \<Rightarrow> s | _ \<Rightarrow> [])"

definition field_int :: "pydict \<Rightarrow> string \<Rightarrow> int" where
  "field_int m k = (case map_of m k of Some (PInt i) \<Rightarrow> i | _ \<Rightarrow> 0)"

text \<open>The deduplication key in the specification's words:
  \<open>"k8s-zero-replicas-" + namespace + "/" + normalized name\<close>.\<close>

definition spec_dedup_key :: "pydict \<Rightarrow> string" where
  "spec_dedup_key m =
     ''k8s-zero-replicas-'' @ field_str m ''namespace'' @ ''/'' @
       remove_replicaset_hash (field_str m ''name'')"

text \<open>
  The events of one metric in the specification's words, as (action, key) pairs. The three
  cases are those of the specification; they cover every Metric record, whose counts are
  not negative.
\<close>

definition spec_events :: "pydict \<Rightarrow> (string \<times> string) list" where
  "spec_events m =
     (if field_int m ''desired_replicas'' = 0 then []
      else if field_int m ''desired_replicas'' > 0 \<and> field_int m ''available_replicas'' = 0
        then [(''trigger'', spec_dedup_key m)]
      else if field_int m ''desired_replicas'' > 0 \<and> field_int m ''available_replicas'' > 0
        then [(''resolve'', spec_dedup_key m)]
      else [])"

text \<open>A count that is missing from the dictionary or is \<^verbatim>\<open>None\<close>.\<close>

definition is_unset :: "pyval option \<Rightarrow> bool" where
  "is_unset v = (case v of None \<Rightarrow> True | Some PNone \<Rightarrow> True | _ \<Rightarrow> False)"

text \<open>A Metric record whose two replica counts may be missing or \<^verbatim>\<open>None\<close>.\<close>

definition is_metric_with_gaps :: "pydict \<Rightarrow> bool" where
  "is_metric_with_gaps m \<longleftrightarrow>
     is_str (map_of m ''name'') \<and> is_str (map_of m ''namespace'') \<and> is_str (map_of m ''type'') \<and>
     (is_unset (map_of m ''desired_replicas'') \<or> is_count (map_of m ''desired_replicas'')) \<and>
     (is_unset (map_of m ''available_replicas'') \<or> is_count (map_of m ''available_replicas''))"

text \<open>The (action, key) pairs and the structured details of a list of requests.\<close>

definition events_of :: "pd_request list \<Rightarrow> (string \<times> string) list" where
  "events_of rs = map (\<lambda>r. (event_action r, dedup_key r)) rs"

definition details_of :: "pd_request list \<Rightarrow> pydict option list" where
  "details_of rs = map (\<lambda>r. map_option custom_details (payload r)) rs"

text \<open>The name field overwritten with its normalized value.\<close>

definition spec_normalized :: "pydict \<Rightarrow> pydict" where
  "spec_normalized m =
     AList.update ''name'' (PStr (remove_replicaset_hash (field_str m ''name''))) m"

text \<open>The metrics that one pass of a collector's loop body contributes.\<close>

definition produced :: "py_error + pydict option \<Rightarrow> pydict list" where
  "produced r = (case r of Inr (Some m) \<Rightarrow> [m] | _ \<Rightarrow> [])"

text \<open>A Deployment, ReplicaSet or StatefulSet with metadata, spec and status set.\<close>

definition complete_workload :: "workload \<Rightarrow> bool" where
  "complete_workload w \<longleftrightarrow> w_metadata w \<noteq> None \<and> w_spec w \<noteq> None \<and> w_status w \<noteq> None"

definition workload_name :: "workload \<Rightarrow> string" where
  "workload_name w = (case w_metadata w of None \<Rightarrow> [] | Some md \<Rightarrow> meta_name md)"

definition workload_namespace :: "workload \<Rightarrow> string" where
  "workload_namespace w = (case w_metadata w of None \<Rightarrow> [] | Some md \<Rightarrow> meta_namespace md)"

text \<open>The desired replica count of a workload: \<^verbatim>\<open>spec.replicas\<close>,
    \<open>0\<close> when unset.\<close>

definition workload_desired :: "workload \<Rightarrow> int" where
  "workload_desired w = (case w_spec w of None \<Rightarrow> 0 | Some sp \<Rightarrow> or0 (replicas sp))"

text \<open>
  The health rule of a schedule in the specification's words. An execution is owned by
  the schedule when one of its owner references has kind \<^verbatim>\<open>CronJob\<close> and the schedule's
  name; a pod belongs to an execution when its \<^verbatim>\<open>job-name\<close> label is the execution's
  name.
\<close>

definition owned_by :: "string \<Rightarrow> job \<Rightarrow> bool" where
  "owned_by name j =
     (case job_metadata j of
        None \<Rightarrow> False
      | Some md \<Rightarrow>
          (case owner_references md of
             None \<Rightarrow> False
           | Some refs \<Rightarrow> \<exists>ref \<in> set refs. ref_kind ref = ''CronJob'' \<and> ref_name ref = name))"

definition job_name_of :: "job \<Rightarrow> string" where
  "job_name_of j = (case job_metadata j of None \<Rightarrow> [] | Some md \<Rightarrow> meta_name md)"

definition failure_count :: "job \<Rightarrow> int" where
  "failure_count j = (case job_status j of None \<Rightarrow> 0 | Some st \<Rightarrow> or0 (failed st))"

definition failed_executions :: "string \<Rightarrow> job list \<Rightarrow> job list" where
  "failed_executions name jobs = filter (\<lambda>j. owned_by name j \<and> failure_count j > 0) jobs"

definition pod_job_name :: "pod \<Rightarrow> string option" where
  "pod_job_name p =
     (case pod_metadata p of
        None \<Rightarrow> None
      | Some md \<Rightarrow> map_of (case labels md of None \<Rightarrow> [] | Some ls \<Rightarrow> ls) ''job-name'')"

definition pod_failed_or_unknown :: "pod \<Rightarrow> bool" where
  "pod_failed_or_unknown p =
     (case pod_status p of
        None \<Rightarrow> False
      | Some st \<Rightarrow> py_lower (case phase st of None \<Rightarrow> [] | Some ph \<Rightarrow> ph) \<in> {''failed'',
          ''unknown''})"

definition belongs_to :: "string \<Rightarrow> job list \<Rightarrow> pod \<Rightarrow> bool" where
  "belongs_to name jobs p \<longleftrightarrow>
     (\<exists>j \<in> set jobs. owned_by name j \<and> pod_job_name p = Some (job_name_of j))"

definition failed_pods_of :: "string \<Rightarrow> job list \<Rightarrow> pod list \<Rightarrow> pod list" where
  "failed_pods_of name jobs pods =
     filter (\<lambda>p. belongs_to name jobs p \<and> pod_failed_or_unknown p) pods"

text \<open>
  A pod that the pod loop cannot read: its metadata is unset, or it belongs to an owned
  execution and its status is unset.
\<close>

definition pod_unreadable :: "string \<Rightarrow> job list \<Rightarrow> pod \<Rightarrow> bool" where
  "pod_unreadable name jobs p \<longleftrightarrow>
     pod_metadata p = None \<or> (belongs_to name jobs p \<and> pod_status p = None)"

text \<open>Suspended: the spec's flag is set and true. Has succeeded: the status records a
  last successful time.\<close>

definition spec_suspended :: "cron_job \<Rightarrow> bool" where
  "spec_suspended cj = (case cj_spec cj of None \<Rightarrow> False | Some sp \<Rightarrow> suspend sp = Some True)"

definition spec_has_succeeded :: "cron_job \<Rightarrow> bool" where
  "spec_has_succeeded cj =
     (case cj_status cj of None \<Rightarrow> False | Some st \<Rightarrow> last_successful_time st \<noteq> None)"

definition spec_healthy :: "cron_job \<Rightarrow> string \<Rightarrow> job list \<Rightarrow> pod list \<Rightarrow> bool" where
  "spec_healthy cj name jobs pods \<longleftrightarrow>
     \<not> spec_suspended cj \<and> spec_has_succeeded cj \<and>
     failed_executions name jobs = [] \<and> failed_pods_of name jobs pods = []"

text \<open>
  The characters of a hash segment in the specification's words: the letters and the
  digits.
\<close>

definition alphanumerics :: string where
  "alphanumerics = ''abcdefghijklmnopqrstuvwxyzABCDEFGHIJKLMNOPQRSTUVWXYZ0123456789''"

text \<open>
  Kinds compared without regard to case. Two characters are the same letter when they are
  equal or one is a capital letter \<open>A\<close> to \<open>Z\<close> (codes 65 to 90) and the other is the small
  letter 32 codes above it.
\<close>

definition same_letter :: "char \<Rightarrow> char \<Rightarrow> bool" where
  "same_letter c d \<longleftrightarrow>
     c = d \<or>
     (65 \<le> (of_char c :: nat) \<and> (of_char c :: nat) \<le> 90 \<and> (of_char d :: nat) = of_char c + 32) \<or>
     (65 \<le> (of_char d :: nat) \<and> (of_char d :: nat) \<le> 90 \<and> (of_char c :: nat) = of_char d + 32)"

definition equal_ignoring_case :: "string \<Rightarrow> string \<Rightarrow> bool" where
  "equal_ignoring_case a b = list_all2 same_letter a b"

text \<open>The kind that a watch entry configures: its kind string, and \<open>Deployment\<close> when
  the entry has none (the key is absent, null or empty).\<close>

definition configured_kind :: "watch_item \<Rightarrow> string" where
  "configured_kind item =
     (case item_kind item of None \<Rightarrow> ''Deployment'' | Some k \<Rightarrow> if k = [] then ''Deployment'' else k)"

section \<open>Normalization strips one segment\<close>

lemma char_in_range:
  assumes "map char_of [i..<j::nat] = s" "of_char c1 = i" "of_char c2 + 1 = j" "c1 \<le> c" "c \<le> c2"
  shows "c \<in> set s"
proof -
  from assms have "i \<le> (of_char c :: nat) \<and> (of_char c :: nat) < j"
    by (auto simp add: less_eq_char_def)
  then have "(of_char c :: nat) \<in> set [i..<j]"
    by (simp only: set_upt atLeastLessThan_iff)
  then have "char_of (of_char c :: nat) \<in> char_of ` set [i..<j]"
    by (rule imageI)
  then show ?thesis
    using assms(1) by (simp only: set_map [symmetric] char_of_char)
qed

lemma small_letters: "map char_of [97..<123::nat] = ''abcdefghijklmnopqrstuvwxyz''"
  by code_simp

lemma capital_letters: "map char_of [65..<91::nat] = ''ABCDEFGHIJKLMNOPQRSTUVWXYZ''"
  by code_simp

lemma digits: "map char_of [48..<58::nat] = ''0123456789''"
  by code_simp

lemma alphanumerics_split:
  "alphanumerics = ''abcdefghijklmnopqrstuvwxyz'' @ ''ABCDEFGHIJKLMNOPQRSTUVWXYZ'' @ ''0123456789''"
  by (simp add: alphanumerics_def)

lemma is_alnum_iff: "is_alnum c \<longleftrightarrow> c \<in> set alphanumerics"
proof
  assume "is_alnum c"
  then consider "CHR ''a'' \<le> c \<and> c \<le> CHR ''z''" | "CHR ''A'' \<le> c \<and> c \<le> CHR ''Z''"
    | "CHR ''0'' \<le> c \<and> c \<le> CHR ''9''"
    unfolding is_alnum_def by blast
  then show "c \<in> set alphanumerics"
  proof cases
    case 1
    then have "c \<in> set ''abcdefghijklmnopqrstuvwxyz''"
      by (intro char_in_range [OF small_letters, of "CHR ''a''" "CHR ''z''"]) simp_all
    then show ?thesis by (simp only: alphanumerics_split set_append Un_iff simp_thms)
  next
    case 2
    then have "c \<in> set ''ABCDEFGHIJKLMNOPQRSTUVWXYZ''"
      by (intro char_in_range [OF capital_letters, of "CHR ''A''" "CHR ''Z''"]) simp_all
    then show ?thesis by (simp only: alphanumerics_split set_append Un_iff simp_thms)
  next
    case 3
    then have "c \<in> set ''0123456789''"
      by (intro char_in_range [OF digits, of "CHR ''0''" "CHR ''9''"]) simp_all
    then show ?thesis by (simp only: alphanumerics_split set_append Un_iff simp_thms)
  qed
next
  assume "c \<in> set alphanumerics"
  then show "is_alnum c"
    unfolding alphanumerics_def is_alnum_def by auto
qed

lemma not_alnum_marks: "\<not> is_alnum (CHR ''-'')" "\<not> is_alnum newline"
  by (simp_all add: is_alnum_def newline_def)

lemma dropWhile_keeps:
  "\<not> P y \<Longrightarrow> \<exists>pre. dropWhile P (xs @ y # ys) = pre @ y # ys"
  by (induction xs) auto

lemma no_match_before_hyphen: "match_here (c # xs @ CHR ''-'' # ys) = None"
proof -
  define rest where "rest = dropWhile is_alnum (xs @ CHR ''-'' # ys)"
  obtain pre where "rest = pre @ CHR ''-'' # ys"
    unfolding rest_def
    using dropWhile_keeps [of is_alnum "CHR ''-''" xs ys, OF not_alnum_marks(1)] by blast
  then have m: "CHR ''-'' \<in> set rest"
    by simp
  have "rest \<noteq> []"
    using m by auto
  moreover have "rest \<noteq> [newline]"
    using m by (auto simp: newline_def)
  ultimately have "(rest = [] \<or> rest = [newline]) = False"
    by blast
  then show ?thesis
    unfolding match_here_def list.case rest_def [symmetric]
    by (simp only: simp_thms if_False)
qed

lemma match_at_segment:
  assumes "seg \<noteq> []" "\<forall>c \<in> set seg. is_alnum c" "t = [] \<or> t = [newline]"
  shows "match_here (CHR ''-'' # seg @ t) = Some t"
proof -
  from assms(2,3) have "takeWhile is_alnum (seg @ t) = seg" "dropWhile is_alnum (seg @ t) = t"
    using not_alnum_marks(2) by (auto simp: takeWhile_append dropWhile_append)
  with assms(1,3) show ?thesis
    by (auto simp: match_here_def)
qed

lemma strip_segment:
  assumes "seg \<noteq> []" "\<forall>c \<in> set seg. is_alnum c" "t = [] \<or> t = [newline]"
  shows "re_search (p @ CHR ''-'' # seg @ t) \<and> re_sub (p @ CHR ''-'' # seg @ t) = p @ t"
proof (induction p)
  case Nil
  show ?case
    using match_at_segment [OF assms] by simp
next
  case (Cons c p)
  have "match_here (c # p @ CHR ''-'' # seg @ t) = None"
    by (rule no_match_before_hyphen)
  with Cons show ?case by simp
qed

lemma search_finds_segment:
  "re_search n \<Longrightarrow>
   \<exists>p seg t. n = p @ CHR ''-'' # seg @ t \<and> seg \<noteq> [] \<and> (\<forall>c \<in> set seg. is_alnum c) \<and>
     (t = [] \<or> t = [newline])"
proof (induction n)
  case Nil
  then show ?case by simp
next
  case (Cons c cs)
  show ?case
  proof (cases "match_here (c # cs)")
    case None
    with Cons obtain p seg t where
      "cs = p @ CHR ''-'' # seg @ t" "seg \<noteq> []" "\<forall>c \<in> set seg. is_alnum c" "t = [] \<or> t = [newline]"
      by auto
    then have "c # cs = (c # p) @ CHR ''-'' # seg @ t" by simp
    with \<open>seg \<noteq> []\<close> \<open>\<forall>c \<in> set seg. is_alnum c\<close> \<open>t = [] \<or> t = [newline]\<close>
    show ?thesis by blast
  next
    case (Some rest)
    then have c: "c = CHR ''-''" and r: "takeWhile is_alnum cs \<noteq> []"
      and d: "dropWhile is_alnum cs = [] \<or> dropWhile is_alnum cs = [newline]"
      by (auto simp: match_here_def split: if_splits)
    have "c # cs = [] @ CHR ''-'' # takeWhile is_alnum cs @ dropWhile is_alnum cs"
      using c by simp
    moreover have "\<forall>x \<in> set (takeWhile is_alnum cs). is_alnum x"
      by (auto dest: set_takeWhileD)
    ultimately show ?thesis
      using r d by blast
  qed
qed

lemma remove_replicaset_hash_fixed_iff:
  "remove_replicaset_hash n = n \<longleftrightarrow>
     (\<nexists>p seg. seg \<noteq> [] \<and> set seg \<subseteq> set alphanumerics \<and>
        (n = p @ CHR ''-'' # seg \<or> n = p @ CHR ''-'' # seg @ [CHR 0x0A]))"
proof
  assume fixed: "remove_replicaset_hash n = n"
  show "\<nexists>p seg. seg \<noteq> [] \<and> set seg \<subseteq> set alphanumerics \<and>
        (n = p @ CHR ''-'' # seg \<or> n = p @ CHR ''-'' # seg @ [CHR 0x0A])"
  proof
    assume "\<exists>p seg. seg \<noteq> [] \<and> set seg \<subseteq> set alphanumerics \<and>
        (n = p @ CHR ''-'' # seg \<or> n = p @ CHR ''-'' # seg @ [CHR 0x0A])"
    then obtain p seg where s: "seg \<noteq> []" and sub: "set seg \<subseteq> set alphanumerics"
      and d: "n = p @ CHR ''-'' # seg \<or> n = p @ CHR ''-'' # seg @ [CHR 0x0A]"
      by blast
    from sub have a: "\<forall>c \<in> set seg. is_alnum c"
      by (auto simp: is_alnum_iff)
    from d obtain t where n: "n = p @ CHR ''-'' # seg @ t" and t: "t = [] \<or> t = [newline]"
      by (auto simp: newline_def)
    from strip_segment [OF s a t, of p] n have "remove_replicaset_hash n = p @ t"
      by (simp add: remove_replicaset_hash_def)
    with fixed n s show False by simp
  qed
next
  assume none: "\<nexists>p seg. seg \<noteq> [] \<and> set seg \<subseteq> set alphanumerics \<and>
        (n = p @ CHR ''-'' # seg \<or> n = p @ CHR ''-'' # seg @ [CHR 0x0A])"
  have "\<not> re_search n"
  proof
    assume "re_search n"
    from search_finds_segment [OF this] obtain p seg t where
      "n = p @ CHR ''-'' # seg @ t" "seg \<noteq> []" "\<forall>c \<in> set seg. is_alnum c" "t = [] \<or> t = [newline]"
      by blast
    then have "seg \<noteq> [] \<and> set seg \<subseteq> set alphanumerics \<and>
        (n = p @ CHR ''-'' # seg \<or> n = p @ CHR ''-'' # seg @ [CHR 0x0A])"
      by (auto simp: is_alnum_iff newline_def)
    with none show False by blast
  qed
  then show "remove_replicaset_hash n = n"
    by (simp add: remove_replicaset_hash_def)
qed

lemmas normalize_eval = remove_replicaset_hash_def match_here_def is_alnum_def newline_def

text \<open>
  C4, as the code has it. Normalization removes one trailing \<open>-<alphanumerics>\<close> segment,
  so a name with two such segments still has one after normalization and a second
  normalization changes it again:
  \<open>''web-frontend-7f8b9c''\<close> becomes \<open>''web-frontend''\<close> and then \<open>''web''\<close>.
\<close>

theorem normalize_not_idempotent:
  "remove_replicaset_hash (remove_replicaset_hash ''web-frontend-7f8b9c'')
     \<noteq> remove_replicaset_hash ''web-frontend-7f8b9c''"
  by (simp add: normalize_eval)

text \<open>
  C4, amended. Normalization strips exactly one trailing segment: a hyphen followed by
  one or more letters or digits, at the end of the name or before one final newline,
  and what precedes the hyphen is the result. A name that does not end in such a segment
  is left unchanged. Hence normalizing a normalized name yields the same name exactly
  when the normalized name does not itself end in such a segment. \<open>''api-7f8b9c''\<close> yields
  \<open>''api''\<close> and \<open>''api''\<close> yields \<open>''api''\<close>.
\<close>

theorem normalize_strips_one_segment:
  "(seg \<noteq> [] \<and> set seg \<subseteq> set alphanumerics \<longrightarrow>
      remove_replicaset_hash (p @ CHR ''-'' # seg) = p \<and>
      remove_replicaset_hash (p @ CHR ''-'' # seg @ [CHR 0x0A]) = p @ [CHR 0x0A]) \<and>
   ((\<nexists>p seg. seg \<noteq> [] \<and> set seg \<subseteq> set alphanumerics \<and>
        (n = p @ CHR ''-'' # seg \<or> n = p @ CHR ''-'' # seg @ [CHR 0x0A])) \<longrightarrow>
      remove_replicaset_hash n = n) \<and>
   (remove_replicaset_hash (remove_replicaset_hash n) = remove_replicaset_hash n) =
     (\<nexists>p seg. seg \<noteq> [] \<and> set seg \<subseteq> set alphanumerics \<and>
        (remove_replicaset_hash n = p @ CHR ''-'' # seg \<or>
         remove_replicaset_hash n = p @ CHR ''-'' # seg @ [CHR 0x0A])) \<and>
   remove_replicaset_hash ''api-7f8b9c'' = ''api'' \<and>
   remove_replicaset_hash ''api'' = ''api''"
proof -
  have 1: "remove_replicaset_hash (p @ CHR ''-'' # seg) = p \<and>
      remove_replicaset_hash (p @ CHR ''-'' # seg @ [CHR 0x0A]) = p @ [CHR 0x0A]"
    if "seg \<noteq> [] \<and> set seg \<subseteq> set alphanumerics"
  proof -
    from that have s: "seg \<noteq> []" and a: "\<forall>c \<in> set seg. is_alnum c"
      by (auto simp: is_alnum_iff)
    from strip_segment [OF s a, of "[]" p] strip_segment [OF s a, of "[newline]" p]
    show ?thesis
      by (simp add: remove_replicaset_hash_def newline_def)
  qed
  have 2: "remove_replicaset_hash ''api-7f8b9c'' = ''api''"
    by (simp add: normalize_eval)
  have 3: "remove_replicaset_hash ''api'' = ''api''"
    by (simp add: normalize_eval)
  from 1 2 3 remove_replicaset_hash_fixed_iff [of n]
    remove_replicaset_hash_fixed_iff [of "remove_replicaset_hash n"]
  show ?thesis by blast
qed

theorem normalize_strips_one_segment_witness:
  "remove_replicaset_hash (''web-frontend'' @ CHR ''-'' # ''7F8b9c'') = ''web-frontend'' \<and>
   remove_replicaset_hash (''web-frontend'' @ CHR ''-'' # ''7F8b9c'' @ [CHR 0x0A]) =
     ''web-frontend'' @ [CHR 0x0A] \<and>
   remove_replicaset_hash (remove_replicaset_hash ''api-7f8b9c'') = remove_replicaset_hash ''api-7f8b9c''"
proof -
  have s: "''7F8b9c'' \<noteq> [] \<and> set ''7F8b9c'' \<subseteq> set alphanumerics"
    by (simp add: alphanumerics_def)
  note t = normalize_strips_one_segment [of "''7F8b9c''" "''web-frontend''" "''api-7f8b9c''"]
  note a = t [THEN conjunct1, THEN mp, OF s]
  note b = t [THEN conjunct2, THEN conjunct2, THEN conjunct2, THEN conjunct1]
  from b have "remove_replicaset_hash ''api-7f8b9c'' = ''api''" .
  then have "remove_replicaset_hash (remove_replicaset_hash ''api-7f8b9c'') = remove_replicaset_hash ''api-7f8b9c''"
    by (simp add: normalize_eval)
  with a show ?thesis by simp
qed

section \<open>The watch index\<close>

lemma capital_iff:
  "c \<in> set ''ABCDEFGHIJKLMNOPQRSTUVWXYZ'' \<longleftrightarrow>
     65 \<le> (of_char c :: nat) \<and> (of_char c :: nat) \<le> 90"
proof
  assume "c \<in> set ''ABCDEFGHIJKLMNOPQRSTUVWXYZ''"
  then show "65 \<le> (of_char c :: nat) \<and> (of_char c :: nat) \<le> 90" by auto
next
  assume "65 \<le> (of_char c :: nat) \<and> (of_char c :: nat) \<le> 90"
  then have "CHR ''A'' \<le> c" "c \<le> CHR ''Z''" by (simp_all add: less_eq_char_def)
  then show "c \<in> set ''ABCDEFGHIJKLMNOPQRSTUVWXYZ''"
    by (intro char_in_range [OF capital_letters, of "CHR ''A''" "CHR ''Z''"]) simp_all
qed

lemma lower_char_code:
  "(of_char (lower_char c) :: nat) =
     (if 65 \<le> (of_char c :: nat) \<and> (of_char c :: nat) \<le> 90 then of_char c + 32 else of_char c)"
proof (cases "c \<in> set ''ABCDEFGHIJKLMNOPQRSTUVWXYZ''")
  case True
  then show ?thesis
    by (auto simp: lower_char_def)
next
  case False
  then have "lower_char c = c"
    by (simp add: lower_char_def)
  with False show ?thesis
    unfolding capital_iff by simp
qed

lemma lower_char_eq_iff: "lower_char c = lower_char d \<longleftrightarrow> same_letter c d"
proof -
  have "lower_char c = lower_char d \<longleftrightarrow>
          (of_char (lower_char c) :: nat) = of_char (lower_char d)"
    by simp
  also have "\<dots> \<longleftrightarrow> same_letter c d"
  proof -
    have e: "c = d \<longleftrightarrow> (of_char c :: nat) = of_char d" by simp
    show ?thesis
      unfolding lower_char_code same_letter_def e by auto
  qed
  finally show ?thesis .
qed

lemma py_lower_eq_iff: "py_lower a = py_lower b \<longleftrightarrow> equal_ignoring_case a b"
proof (induction a arbitrary: b)
  case Nil
  then show ?case by (auto simp: py_lower_def equal_ignoring_case_def)
next
  case (Cons x xs)
  then show ?case
    by (cases b) (auto simp: py_lower_def equal_ignoring_case_def lower_char_eq_iff)
qed

lemma kind_of_item_configured: "kind_of_item item = py_lower (configured_kind item)"
  by (simp add: kind_of_item_def configured_kind_def)

lemma build_watch_pairs_lookup:
  "build_watch_pairs items d k =
     (if \<exists>it \<in> set items. kind_of_item it = k
      then Some ({(item_namespace it, item_name it) | it. it \<in> set items \<and> kind_of_item it = k}
                 \<union> (case d k of None \<Rightarrow> {} | Some ps \<Rightarrow> ps))
      else d k)"
proof (induction items arbitrary: d)
  case Nil
  then show ?case by simp
next
  case (Cons it items)
  show ?case
    unfolding build_watch_pairs.simps Cons.IH
    by (auto simp: setdefault_add_def split: option.splits)
qed

lemma init_pairs_lookup:
  "watch_pairs_by_kind (init_scraper rk ws) k =
     (if \<exists>it \<in> set ws. kind_of_item it = k
      then Some {(item_namespace it, item_name it) | it. it \<in> set ws \<and> kind_of_item it = k}
      else None)"
  by (simp add: init_scraper_def build_watch_pairs_lookup)

text \<open>
  C2. \<open>is_watched\<close> looks the lowercased kind up in the per-kind pair sets. With a
  non-empty set for the kind the answer is membership of \<open>(namespace, name)\<close> in it;
  with no set for the kind the answer is membership of the namespace in the watched
  namespaces. For the index built from a watch list, kinds are matched without regard
  to case: if some entry configures the kind, the resource is watched exactly when an
  entry of that kind names it, and otherwise exactly when some entry of any kind
  mentions its namespace.
\<close>

theorem is_watched_exact_or_namespace:
  "(\<forall>pairs. watch_pairs_by_kind self (py_lower kind) = Some pairs \<and> pairs \<noteq> {} \<longrightarrow>
      is_watched self kind namespace name = ((namespace, name) \<in> pairs)) \<and>
   (watch_pairs_by_kind self (py_lower kind) = None \<longrightarrow>
      is_watched self kind namespace name = (namespace \<in> watched_namespaces self)) \<and>
   is_watched (init_scraper rk ws) kind namespace name =
     (if \<exists>it \<in> set ws. equal_ignoring_case (configured_kind it) kind
      then \<exists>it \<in> set ws. equal_ignoring_case (configured_kind it) kind \<and>
             item_namespace it = namespace \<and> item_name it = name
      else namespace \<in> item_namespace ` set ws)"
proof -
  have k: "(kind_of_item it = py_lower kind) = equal_ignoring_case (configured_kind it) kind" for it
    by (simp add: kind_of_item_configured py_lower_eq_iff)
  have "is_watched (init_scraper rk ws) kind namespace name =
     (if \<exists>it \<in> set ws. kind_of_item it = py_lower kind
      then \<exists>it \<in> set ws. kind_of_item it = py_lower kind \<and>
             item_namespace it = namespace \<and> item_name it = name
      else namespace \<in> item_namespace ` set ws)"
    unfolding is_watched_def init_pairs_lookup
    by (auto simp: init_scraper_def)
  then have "is_watched (init_scraper rk ws) kind namespace name =
     (if \<exists>it \<in> set ws. equal_ignoring_case (configured_kind it) kind
      then \<exists>it \<in> set ws. equal_ignoring_case (configured_kind it) kind \<and>
             item_namespace it = namespace \<and> item_name it = name
      else namespace \<in> item_namespace ` set ws)"
    unfolding k .
  then show ?thesis
    by (simp add: is_watched_def)
qed

theorem is_watched_exact_or_namespace_witness:
  "is_watched (init_scraper ''key''
      [\<lparr>item_kind = Some ''DaemonSet'', item_namespace = ''ns1'', item_name = ''foo''\<rparr>,
       \<lparr>item_kind = None, item_namespace = ''ns2'', item_name = ''web''\<rparr>])
      ''daemonset'' ''ns1'' ''foo'' \<and>
   \<not> is_watched (init_scraper ''key''
      [\<lparr>item_kind = Some ''DaemonSet'', item_namespace = ''ns1'', item_name = ''foo''\<rparr>,
       \<lparr>item_kind = None, item_namespace = ''ns2'', item_name = ''web''\<rparr>])
      ''DAEMONSET'' ''ns1'' ''bar'' \<and>
   \<not> is_watched (init_scraper ''key''
      [\<lparr>item_kind = Some ''DaemonSet'', item_namespace = ''ns1'', item_name = ''foo''\<rparr>,
       \<lparr>item_kind = None, item_namespace = ''ns2'', item_name = ''web''\<rparr>])
      ''deployment'' ''ns2'' ''api'' \<and>
   is_watched (init_scraper ''key''
      [\<lparr>item_kind = Some ''DaemonSet'', item_namespace = ''ns1'', item_name = ''foo''\<rparr>,
       \<lparr>item_kind = None, item_namespace = ''ns2'', item_name = ''web''\<rparr>])
      ''statefulset'' ''ns1'' ''anything''"
proof -
  let ?ws = "[\<lparr>item_kind = Some ''DaemonSet'', item_namespace = ''ns1'', item_name = ''foo''\<rparr>,
       \<lparr>item_kind = None, item_namespace = ''ns2'', item_name = ''web''\<rparr>]"
  have e1: "equal_ignoring_case ''DaemonSet'' ''daemonset''"
    and e2: "equal_ignoring_case ''DaemonSet'' ''DAEMONSET''"
    and e3: "equal_ignoring_case ''Deployment'' ''deployment''"
    and n1: "\<not> equal_ignoring_case ''Deployment'' ''daemonset''"
    and n2: "\<not> equal_ignoring_case ''Deployment'' ''DAEMONSET''"
    and n3: "\<not> equal_ignoring_case ''DaemonSet'' ''deployment''"
    and n4: "\<not> equal_ignoring_case ''DaemonSet'' ''statefulset''"
    and n5: "\<not> equal_ignoring_case ''Deployment'' ''statefulset''"
    by (simp_all add: equal_ignoring_case_def same_letter_def)
  note w = is_watched_exact_or_namespace [THEN conjunct2, THEN conjunct2, of "''key''" ?ws]
  have "is_watched (init_scraper ''key'' ?ws) ''daemonset'' ''ns1'' ''foo''"
    unfolding w by (simp add: configured_kind_def e1 n1)
  moreover have "\<not> is_watched (init_scraper ''key'' ?ws) ''DAEMONSET'' ''ns1'' ''bar''"
    unfolding w by (simp add: configured_kind_def e2 n2)
  moreover have "\<not> is_watched (init_scraper ''key'' ?ws) ''deployment'' ''ns2'' ''api''"
    unfolding w by (simp add: configured_kind_def e3 n3)
  moreover have "is_watched (init_scraper ''key'' ?ws) ''statefulset'' ''ns1'' ''anything''"
    unfolding w by (simp add: configured_kind_def n4 n5)
  ultimately show ?thesis by (intro conjI)
qed

section \<open>The evaluator, metric by metric\<close>

lemma map_of_update_other: "k \<noteq> k' \<Longrightarrow> map_of (AList.update k v al) k' = map_of al k'"
  by (simp add: update_conv')

lemma try_send_cases: "try_send r = Inr (post_and_check r = Inr ())"
  by (cases "post_and_check r") (auto simp: try_send_def)

lemma send_alert_request:
  "fst (send_pagerduty_alert self p a) = fst (send_pagerduty_alert self q a)"
  by (simp add: send_pagerduty_alert_def Let_def)

lemma send_resolve_request:
  "fst (send_pagerduty_resolve self p k t m) = fst (send_pagerduty_resolve self q k t m)"
  by (simp add: send_pagerduty_resolve_def Let_def)

lemma notify_body_parts:
  "fst (notify_body self post st m) = metric_after self m \<and>
   snd (snd (notify_body self post st m)) = exception_of self m \<and>
   outbox (fst (snd (notify_body self post st m))) = outbox st @ requests_for self m"
  unfolding metric_after_def exception_of_def requests_for_def notify_body_def no_requests_def
  by (simp add: Let_def send_pagerduty_alert_def send_pagerduty_resolve_def try_send_cases
      split: sum.splits pyval.splits)

lemma notify_loop_parts:
  "\<forall>m \<in> set ms. exception_of self m = None \<Longrightarrow>
   fst (notify_loop self post ms st) = map (metric_after self) ms \<and>
   snd (snd (notify_loop self post ms st)) = None \<and>
   outbox (fst (snd (notify_loop self post ms st))) = outbox st @ concat (map (requests_for self) ms)"
proof (induction ms arbitrary: st)
  case Nil
  then show ?case by simp
next
  case (Cons m ms)
  obtain m' st' r where b: "notify_body self post st m = (m', st', r)"
    by (cases "notify_body self post st m") auto
  from notify_body_parts [of self post st m] b Cons.prems
  have p: "m' = metric_after self m" "r = None" "outbox st' = outbox st @ requests_for self m"
    by auto
  from Cons.IH [of st'] Cons.prems
  have ih: "fst (notify_loop self post ms st') = map (metric_after self) ms"
    "snd (snd (notify_loop self post ms st')) = None"
    "outbox (fst (snd (notify_loop self post ms st'))) = outbox st' @ concat (map (requests_for self) ms)"
    by auto
  show ?case
    using b p ih by (auto split: prod.splits)
qed

lemma notify_loop_observable:
  "outbox st = outbox st2 \<Longrightarrow>
   fst (notify_loop self post ms st) = fst (notify_loop self post2 ms st2) \<and>
   snd (snd (notify_loop self post ms st)) = snd (snd (notify_loop self post2 ms st2)) \<and>
   outbox (fst (snd (notify_loop self post ms st))) = outbox (fst (snd (notify_loop self post2 ms st2)))"
proof (induction ms arbitrary: st st2)
  case Nil
  then show ?case by simp
next
  case (Cons m ms)
  obtain m' st' r where b: "notify_body self post st m = (m', st', r)"
    by (cases "notify_body self post st m") auto
  obtain m2 st2' r2 where b2: "notify_body self post2 st2 m = (m2, st2', r2)"
    by (cases "notify_body self post2 st2 m") auto
  from notify_body_parts [of self post st m] notify_body_parts [of self post2 st2 m] b b2 Cons.prems
  have p: "m2 = m'" "r2 = r" "outbox st' = outbox st2'"
    by auto
  show ?case
  proof (cases r)
    case None
    with Cons.IH [OF p(3)] b b2 p show ?thesis
      by (auto split: prod.splits)
  next
    case (Some e)
    with b b2 p show ?thesis by simp
  qed
qed


lemma notify_body_skip:
  "eq_zero (py_or (dict_get0 m ''desired_replicas'') (PInt 0)) \<Longrightarrow>
   notify_body self post st m = (m, st, None)"
  by (simp add: notify_body_def)

lemma is_strD: "is_str v \<Longrightarrow> \<exists>s. v = Some (PStr s)"
  by (auto simp: is_str_def split: option.splits pyval.splits)

lemma is_countD: "is_count v \<Longrightarrow> \<exists>i. v = Some (PInt i) \<and> 0 \<le> i"
  by (auto simp: is_count_def split: option.splits pyval.splits)

lemma is_unsetD: "is_unset v \<Longrightarrow> v = None \<or> v = Some PNone"
  by (auto simp: is_unset_def split: option.splits pyval.splits)

lemma count_zero_iff:
  "is_unset (map_of m k) \<or> is_count (map_of m k) \<Longrightarrow>
   eq_zero (py_or (dict_get0 m k) (PInt 0)) = (field_int m k = 0)"
  by (auto dest!: is_unsetD is_countD simp: py_or_def dict_get0_def field_int_def)

lemma metric_view:
  assumes "is_str (map_of m ''name'')" "is_str (map_of m ''namespace'')" "is_str (map_of m ''type'')"
  shows "exception_of self m = None"
    and "metric_after self m =
           (if eq_zero (py_or (dict_get0 m ''desired_replicas'') (PInt 0)) then m else spec_normalized m)"
    and "events_of (requests_for self m) =
           (if eq_zero (py_or (dict_get0 m ''desired_replicas'') (PInt 0)) then []
            else [(if eq_zero (py_or (dict_get0 m ''available_replicas'') (PInt 0))
                   then ''trigger'' else ''resolve'', spec_dedup_key m)])"
    and "details_of (requests_for self m) =
           (if eq_zero (py_or (dict_get0 m ''desired_replicas'') (PInt 0)) then []
            else [if eq_zero (py_or (dict_get0 m ''available_replicas'') (PInt 0))
                  then Some (spec_normalized m) else None])"
proof -
  from assms obtain n ns t where
    f: "map_of m ''name'' = Some (PStr n)" "map_of m ''namespace'' = Some (PStr ns)"
       "map_of m ''type'' = Some (PStr t)"
    by (auto dest!: is_strD)
  have u: "map_of (AList.update ''name'' v m) ''namespace'' = Some (PStr ns)"
          "map_of (AList.update ''name'' v m) ''type'' = Some (PStr t)" for v
    using f by (simp_all add: update_conv')
  show "exception_of self m = None"
    unfolding exception_of_def notify_body_def
    by (simp add: f u dict_item_def Let_def send_pagerduty_alert_def send_pagerduty_resolve_def
        try_send_cases)
  show "metric_after self m =
           (if eq_zero (py_or (dict_get0 m ''desired_replicas'') (PInt 0)) then m else spec_normalized m)"
    unfolding metric_after_def notify_body_def spec_normalized_def field_str_def
    by (simp add: f u dict_item_def Let_def send_pagerduty_alert_def send_pagerduty_resolve_def
        try_send_cases)
  show "events_of (requests_for self m) =
           (if eq_zero (py_or (dict_get0 m ''desired_replicas'') (PInt 0)) then []
            else [(if eq_zero (py_or (dict_get0 m ''available_replicas'') (PInt 0))
                   then ''trigger'' else ''resolve'', spec_dedup_key m)])"
    unfolding requests_for_def notify_body_def spec_dedup_key_def field_str_def events_of_def
    by (simp add: f u dict_item_def Let_def send_pagerduty_alert_def send_pagerduty_resolve_def
        try_send_cases no_requests_def)
  show "details_of (requests_for self m) =
           (if eq_zero (py_or (dict_get0 m ''desired_replicas'') (PInt 0)) then []
            else [if eq_zero (py_or (dict_get0 m ''available_replicas'') (PInt 0))
                  then Some (spec_normalized m) else None])"
    unfolding requests_for_def notify_body_def spec_normalized_def field_str_def details_of_def
    by (simp add: f u dict_item_def Let_def send_pagerduty_alert_def send_pagerduty_resolve_def
        try_send_cases no_requests_def)
qed


lemma events_of_concat: "events_of (concat xss) = concat (map events_of xss)"
  by (induction xss) (simp_all add: events_of_def)

lemma details_of_concat: "details_of (concat xss) = concat (map details_of xss)"
  by (induction xss) (simp_all add: details_of_def)

lemma is_metric_gaps: "is_metric m \<Longrightarrow> is_metric_with_gaps m"
  by (simp add: is_metric_def is_metric_with_gaps_def)

lemma gaps_view:
  assumes "is_metric_with_gaps m"
  shows "exception_of self m = None"
    and "metric_after self m = (if field_int m ''desired_replicas'' = 0 then m else spec_normalized m)"
    and "events_of (requests_for self m) = spec_events m"
    and "details_of (requests_for self m) =
           (if field_int m ''desired_replicas'' = 0 then []
            else if field_int m ''available_replicas'' = 0 then [Some (spec_normalized m)]
            else [None])"
proof -
  from assms have s: "is_str (map_of m ''name'')" "is_str (map_of m ''namespace'')"
      "is_str (map_of m ''type'')"
    and d: "is_unset (map_of m ''desired_replicas'') \<or> is_count (map_of m ''desired_replicas'')"
    and a: "is_unset (map_of m ''available_replicas'') \<or> is_count (map_of m ''available_replicas'')"
    by (simp_all add: is_metric_with_gaps_def)
  have d0: "0 \<le> field_int m ''desired_replicas''"
    using d by (auto dest!: is_unsetD is_countD simp: field_int_def)
  have a0: "0 \<le> field_int m ''available_replicas''"
    using a by (auto dest!: is_unsetD is_countD simp: field_int_def)
  show "exception_of self m = None"
    by (rule metric_view(1) [OF s])
  show "metric_after self m = (if field_int m ''desired_replicas'' = 0 then m else spec_normalized m)"
    by (simp add: metric_view(2) [OF s] count_zero_iff [OF d])
  show "events_of (requests_for self m) = spec_events m"
    using d0 a0
    by (auto simp add: metric_view(3) [OF s] count_zero_iff [OF d] count_zero_iff [OF a] spec_events_def)
  show "details_of (requests_for self m) =
           (if field_int m ''desired_replicas'' = 0 then []
            else if field_int m ''available_replicas'' = 0 then [Some (spec_normalized m)]
            else [None])"
    by (simp add: metric_view(4) [OF s] count_zero_iff [OF d] count_zero_iff [OF a])
qed

lemma evaluate_gaps:
  assumes "\<forall>m \<in> set metrics. is_metric_with_gaps m"
  shows "snd (snd (evaluate_and_notify self post metrics)) = None"
    and "fst (evaluate_and_notify self post metrics) =
           map (\<lambda>m. if field_int m ''desired_replicas'' = 0 then m else spec_normalized m) metrics"
    and "events_of (outbox (fst (snd (evaluate_and_notify self post metrics)))) =
           concat (map spec_events metrics)"
    and "details_of (outbox (fst (snd (evaluate_and_notify self post metrics)))) =
           concat (map (\<lambda>m. if field_int m ''desired_replicas'' = 0 then []
                            else if field_int m ''available_replicas'' = 0 then [Some (spec_normalized m)]
                            else [None]) metrics)"
proof -
  have e: "\<forall>m \<in> set metrics. exception_of self m = None"
    using assms gaps_view(1) by blast
  note p = notify_loop_parts [OF e, of post no_requests,
      folded evaluate_and_notify_def [unfolded no_requests_def [symmetric]]]
  show "snd (snd (evaluate_and_notify self post metrics)) = None"
    using p by simp
  show "fst (evaluate_and_notify self post metrics) =
           map (\<lambda>m. if field_int m ''desired_replicas'' = 0 then m else spec_normalized m) metrics"
    using p assms by (simp add: gaps_view(2))
  show "events_of (outbox (fst (snd (evaluate_and_notify self post metrics)))) =
           concat (map spec_events metrics)"
    using p assms by (simp add: events_of_concat no_requests_def comp_def gaps_view(3) cong: map_cong)
  show "details_of (outbox (fst (snd (evaluate_and_notify self post metrics)))) =
           concat (map (\<lambda>m. if field_int m ''desired_replicas'' = 0 then []
                            else if field_int m ''available_replicas'' = 0 then [Some (spec_normalized m)]
                            else [None]) metrics)"
    using p assms by (simp add: details_of_concat no_requests_def comp_def gaps_view(4) cong: map_cong)
qed

section \<open>Classification of metrics\<close>

text \<open>
  C1. For a list of Metric records the evaluator raises nothing and posts, metric by
  metric and in order: nothing for a record with \<open>desired_replicas = 0\<close>; one trigger for
  a record with \<open>desired_replicas > 0\<close> and \<open>available_replicas = 0\<close>; one resolve for a
  record with \<open>desired_replicas > 0\<close> and \<open>available_replicas > 0\<close>. Trigger and resolve
  carry the same key \<open>k8s-zero-replicas-<namespace>/<normalized name>\<close>.
\<close>

theorem evaluate_events_per_metric:
  assumes "\<forall>m \<in> set metrics. is_metric m"
  shows "snd (snd (evaluate_and_notify self post metrics)) = None \<and>
         events_of (outbox (fst (snd (evaluate_and_notify self post metrics)))) =
           concat (map spec_events metrics)"
proof -
  from assms have g: "\<forall>m \<in> set metrics. is_metric_with_gaps m"
    by (simp add: is_metric_gaps)
  show ?thesis
    using evaluate_gaps(1) [OF g] evaluate_gaps(3) [OF g] by simp
qed

lemmas metric_eval =
  is_metric_def is_str_def is_count_def is_unset_def is_metric_with_gaps_def field_int_def field_str_def
  spec_events_def spec_dedup_key_def

theorem evaluate_events_per_metric_witness:
  "list_all is_metric
      [[(''name'', PStr ''web''), (''namespace'', PStr ''prod''), (''type'', PStr ''deployment''),
        (''desired_replicas'', PInt 3), (''available_replicas'', PInt 0)],
       [(''name'', PStr ''api-7f8b9c''), (''namespace'', PStr ''prod''), (''type'', PStr ''replicaset''),
        (''desired_replicas'', PInt 2), (''available_replicas'', PInt 2)],
       [(''name'', PStr ''nightly''), (''namespace'', PStr ''prod''), (''type'', PStr ''cronjob''),
        (''desired_replicas'', PInt 0), (''available_replicas'', PInt 0)]] \<and>
   events_of (outbox (fst (snd (evaluate_and_notify (init_scraper ''key'' []) accepting
      [[(''name'', PStr ''web''), (''namespace'', PStr ''prod''), (''type'', PStr ''deployment''),
        (''desired_replicas'', PInt 3), (''available_replicas'', PInt 0)],
       [(''name'', PStr ''api-7f8b9c''), (''namespace'', PStr ''prod''), (''type'', PStr ''replicaset''),
        (''desired_replicas'', PInt 2), (''available_replicas'', PInt 2)],
       [(''name'', PStr ''nightly''), (''namespace'', PStr ''prod''), (''type'', PStr ''cronjob''),
        (''desired_replicas'', PInt 0), (''available_replicas'', PInt 0)]])))) =
     [(''trigger'', ''k8s-zero-replicas-prod/web''), (''resolve'', ''k8s-zero-replicas-prod/api'')]"
proof -
  let ?ms = "[[(''name'', PStr ''web''), (''namespace'', PStr ''prod''), (''type'', PStr ''deployment''),
        (''desired_replicas'', PInt 3), (''available_replicas'', PInt 0)],
       [(''name'', PStr ''api-7f8b9c''), (''namespace'', PStr ''prod''), (''type'', PStr ''replicaset''),
        (''desired_replicas'', PInt 2), (''available_replicas'', PInt 2)],
       [(''name'', PStr ''nightly''), (''namespace'', PStr ''prod''), (''type'', PStr ''cronjob''),
        (''desired_replicas'', PInt 0), (''available_replicas'', PInt 0)]]"
  have h: "\<forall>m \<in> set ?ms. is_metric m"
    by (simp add: metric_eval)
  have n1: "remove_replicaset_hash ''web'' = ''web''"
    and n2: "remove_replicaset_hash ''api-7f8b9c'' = ''api''"
    by (simp_all add: normalize_eval)
  have "concat (map spec_events ?ms) =
     [(''trigger'', ''k8s-zero-replicas-prod/web''), (''resolve'', ''k8s-zero-replicas-prod/api'')]"
    by (simp add: metric_eval n1 n2)
  moreover have "list_all is_metric ?ms"
    using h by (simp only: list_all_iff)
  ultimately show ?thesis
    using evaluate_events_per_metric [OF h, of "init_scraper ''key'' []" accepting] by simp
qed

text \<open>
  C9. For a list of Metric records, the list as the evaluator leaves it has the name of
  every record with \<open>desired_replicas > 0\<close> overwritten by its normalized value and every
  record with \<open>desired_replicas = 0\<close> as it was; the structured detail of each trigger is
  the record after the overwrite, so it carries the normalized name; a resolve has no
  detail. The overwrite changes the name field only.
\<close>

theorem evaluate_overwrites_name:
  assumes "\<forall>m \<in> set metrics. is_metric m"
  shows "fst (evaluate_and_notify self post metrics) =
           map (\<lambda>m. if field_int m ''desired_replicas'' = 0 then m else spec_normalized m) metrics \<and>
         details_of (outbox (fst (snd (evaluate_and_notify self post metrics)))) =
           concat (map (\<lambda>m. if field_int m ''desired_replicas'' = 0 then []
                            else if field_int m ''available_replicas'' = 0 then [Some (spec_normalized m)]
                            else [None]) metrics) \<and>
         (\<forall>m k. map_of (spec_normalized m) k =
            (if k = ''name'' then Some (PStr (remove_replicaset_hash (field_str m ''name'')))
             else map_of m k))"
proof -
  from assms have g: "\<forall>m \<in> set metrics. is_metric_with_gaps m"
    by (simp add: is_metric_gaps)
  have "map_of (spec_normalized m) k =
            (if k = ''name'' then Some (PStr (remove_replicaset_hash (field_str m ''name'')))
             else map_of m k)" for m k
    by (simp add: spec_normalized_def update_conv')
  then show ?thesis
    using evaluate_gaps(2) [OF g] evaluate_gaps(4) [OF g] by simp
qed

theorem evaluate_overwrites_name_witness:
  "list_all is_metric
      [[(''name'', PStr ''api-7f8b9c''), (''namespace'', PStr ''prod''), (''type'', PStr ''replicaset''),
        (''desired_replicas'', PInt 2), (''available_replicas'', PInt 0)],
       [(''name'', PStr ''job-x1''), (''namespace'', PStr ''prod''), (''type'', PStr ''cronjob''),
        (''desired_replicas'', PInt 0), (''available_replicas'', PInt 0)]] \<and>
   fst (evaluate_and_notify (init_scraper ''key'' []) accepting
      [[(''name'', PStr ''api-7f8b9c''), (''namespace'', PStr ''prod''), (''type'', PStr ''replicaset''),
        (''desired_replicas'', PInt 2), (''available_replicas'', PInt 0)],
       [(''name'', PStr ''job-x1''), (''namespace'', PStr ''prod''), (''type'', PStr ''cronjob''),
        (''desired_replicas'', PInt 0), (''available_replicas'', PInt 0)]]) =
      [[(''name'', PStr ''api''), (''namespace'', PStr ''prod''), (''type'', PStr ''replicaset''),
        (''desired_replicas'', PInt 2), (''available_replicas'', PInt 0)],
       [(''name'', PStr ''job-x1''), (''namespace'', PStr ''prod''), (''type'', PStr ''cronjob''),
        (''desired_replicas'', PInt 0), (''available_replicas'', PInt 0)]] \<and>
   details_of (outbox (fst (snd (evaluate_and_notify (init_scraper ''key'' []) accepting
      [[(''name'', PStr ''api-7f8b9c''), (''namespace'', PStr ''prod''), (''type'', PStr ''replicaset''),
        (''desired_replicas'', PInt 2), (''available_replicas'', PInt 0)],
       [(''name'', PStr ''job-x1''), (''namespace'', PStr ''prod''), (''type'', PStr ''cronjob''),
        (''desired_replicas'', PInt 0), (''available_replicas'', PInt 0)]])))) =
      [Some [(''name'', PStr ''api''), (''namespace'', PStr ''prod''), (''type'', PStr ''replicaset''),
        (''desired_replicas'', PInt 2), (''available_replicas'', PInt 0)]]"
proof -
  let ?ms = "[[(''name'', PStr ''api-7f8b9c''), (''namespace'', PStr ''prod''), (''type'',
      PStr ''replicaset''),
        (''desired_replicas'', PInt 2), (''available_replicas'', PInt 0)],
       [(''name'', PStr ''job-x1''), (''namespace'', PStr ''prod''), (''type'', PStr ''cronjob''),
        (''desired_replicas'', PInt 0), (''available_replicas'', PInt 0)]]"
  have h: "\<forall>m \<in> set ?ms. is_metric m"
    by (simp add: metric_eval)
  have n: "remove_replicaset_hash ''api-7f8b9c'' = ''api''"
    by (simp add: normalize_eval)
  note t = evaluate_overwrites_name [OF h, of "init_scraper ''key'' []" accepting]
  have a: "fst (evaluate_and_notify (init_scraper ''key'' []) accepting ?ms) =
      [[(''name'', PStr ''api''), (''namespace'', PStr ''prod''), (''type'', PStr ''replicaset''),
        (''desired_replicas'', PInt 2), (''available_replicas'', PInt 0)],
       [(''name'', PStr ''job-x1''), (''namespace'', PStr ''prod''), (''type'', PStr ''cronjob''),
        (''desired_replicas'', PInt 0), (''available_replicas'', PInt 0)]]"
    unfolding t [THEN conjunct1]
    by (simp add: field_int_def field_str_def spec_normalized_def n)
  have b: "details_of (outbox (fst (snd (evaluate_and_notify (init_scraper ''key'' []) accepting ?ms)))) =
      [Some [(''name'', PStr ''api''), (''namespace'', PStr ''prod''), (''type'', PStr ''replicaset''),
        (''desired_replicas'', PInt 2), (''available_replicas'', PInt 0)]]"
    unfolding t [THEN conjunct2, THEN conjunct1]
    by (simp add: field_int_def field_str_def spec_normalized_def n)
  have "list_all is_metric ?ms"
    using h by (simp only: list_all_iff)
  with a b show ?thesis by blast
qed

text \<open>
  C10. A replica count that is missing or \<^verbatim>\<open>None\<close> is read as \<open>0\<close>. A record whose
  \<open>desired_replicas\<close> is missing or \<^verbatim>\<open>None\<close> is passed over: nothing is posted,
      nothing
  is changed, nothing is raised, whatever else the record holds. For a list of Metric
  records in which either count may be missing or \<^verbatim>\<open>None\<close> the evaluator raises nothing,
  and a record with a positive \<open>desired_replicas\<close> whose \<open>available_replicas\<close> is missing
  or \<^verbatim>\<open>None\<close> yields one trigger.
\<close>

theorem evaluate_missing_counts:
  assumes "\<forall>m \<in> set metrics. is_metric_with_gaps m"
  shows "(\<forall>m k. is_unset (map_of m k) \<longrightarrow> py_or (dict_get0 m k) (PInt 0) = PInt 0) \<and>
         (\<forall>m st. is_unset (map_of m ''desired_replicas'') \<longrightarrow>
            notify_body self post st m = (m, st, None)) \<and>
         snd (snd (evaluate_and_notify self post metrics)) = None \<and>
         events_of (outbox (fst (snd (evaluate_and_notify self post metrics)))) =
           concat (map (\<lambda>m.
             if is_unset (map_of m ''desired_replicas'') then []
             else if is_unset (map_of m ''available_replicas'') \<and> 0 < field_int m ''desired_replicas''
               then [(''trigger'', spec_dedup_key m)]
             else spec_events m) metrics)"
proof -
  have z: "py_or (dict_get0 m k) (PInt 0) = PInt 0" if "is_unset (map_of m k)" for m k
    using that by (auto dest!: is_unsetD simp: py_or_def dict_get0_def)
  have s: "notify_body self post st m = (m, st, None)"
    if "is_unset (map_of m ''desired_replicas'')" for m st
    using z [OF that] by (simp add: notify_body_skip)
  have e: "spec_events m =
             (if is_unset (map_of m ''desired_replicas'') then []
              else if is_unset (map_of m ''available_replicas'') \<and> 0 < field_int m ''desired_replicas''
                then [(''trigger'', spec_dedup_key m)]
              else spec_events m)" for m
    by (auto dest!: is_unsetD simp: spec_events_def field_int_def)
  have "concat (map spec_events metrics) =
           concat (map (\<lambda>m.
             if is_unset (map_of m ''desired_replicas'') then []
             else if is_unset (map_of m ''available_replicas'') \<and> 0 < field_int m ''desired_replicas''
               then [(''trigger'', spec_dedup_key m)]
             else spec_events m) metrics)"
    using e by (rule arg_cong [where f = "\<lambda>f. concat (map f metrics)", OF ext])
  with evaluate_gaps(1) [OF assms] evaluate_gaps(3) [OF assms] z s
  show ?thesis by simp
qed

theorem evaluate_missing_counts_witness:
  "list_all is_metric_with_gaps
      [[(''name'', PStr ''web''), (''namespace'', PStr ''prod''), (''type'', PStr ''deployment''),
        (''available_replicas'', PInt 0)],
       [(''name'', PStr ''db-0''), (''namespace'', PStr ''prod''), (''type'', PStr ''statefulset''),
        (''desired_replicas'', PInt 1), (''available_replicas'', PNone)],
       [(''name'', PStr ''api''), (''namespace'', PStr ''prod''), (''type'', PStr ''deployment''),
        (''desired_replicas'', PInt 2)]] \<and>
   is_unset (map_of [(''name'', PStr ''web''), (''namespace'', PStr ''prod''), (''type'',
       PStr ''deployment''),
        (''available_replicas'', PInt 0)] ''desired_replicas'') \<and>
   snd (snd (evaluate_and_notify (init_scraper ''key'' []) accepting
      [[(''name'', PStr ''web''), (''namespace'', PStr ''prod''), (''type'', PStr ''deployment''),
        (''available_replicas'', PInt 0)],
       [(''name'', PStr ''db-0''), (''namespace'', PStr ''prod''), (''type'', PStr ''statefulset''),
        (''desired_replicas'', PInt 1), (''available_replicas'', PNone)],
       [(''name'', PStr ''api''), (''namespace'', PStr ''prod''), (''type'', PStr ''deployment''),
        (''desired_replicas'', PInt 2)]])) = None \<and>
   events_of (outbox (fst (snd (evaluate_and_notify (init_scraper ''key'' []) accepting
      [[(''name'', PStr ''web''), (''namespace'', PStr ''prod''), (''type'', PStr ''deployment''),
        (''available_replicas'', PInt 0)],
       [(''name'', PStr ''db-0''), (''namespace'', PStr ''prod''), (''type'', PStr ''statefulset''),
        (''desired_replicas'', PInt 1), (''available_replicas'', PNone)],
       [(''name'', PStr ''api''), (''namespace'', PStr ''prod''), (''type'', PStr ''deployment''),
        (''desired_replicas'', PInt 2)]])))) =
     [(''trigger'', ''k8s-zero-replicas-prod/db''), (''trigger'', ''k8s-zero-replicas-prod/api'')]"
proof -
  let ?ms = "[[(''name'', PStr ''web''), (''namespace'', PStr ''prod''), (''type'', PStr ''deployment''),
        (''available_replicas'', PInt 0)],
       [(''name'', PStr ''db-0''), (''namespace'', PStr ''prod''), (''type'', PStr ''statefulset''),
        (''desired_replicas'', PInt 1), (''available_replicas'', PNone)],
       [(''name'', PStr ''api''), (''namespace'', PStr ''prod''), (''type'', PStr ''deployment''),
        (''desired_replicas'', PInt 2)]]"
  have h: "\<forall>m \<in> set ?ms. is_metric_with_gaps m"
    by (simp add: metric_eval)
  have u: "is_unset (map_of [(''name'', PStr ''web''), (''namespace'', PStr ''prod''),
        (''type'', PStr ''deployment''), (''available_replicas'', PInt 0)] ''desired_replicas'')"
    by (simp add: is_unset_def)
  have n1: "remove_replicaset_hash ''db-0'' = ''db''"
    and n2: "remove_replicaset_hash ''api'' = ''api''"
    by (simp_all add: normalize_eval)
  note t = evaluate_missing_counts [OF h, of "init_scraper ''key'' []" accepting]
  have a: "snd (snd (evaluate_and_notify (init_scraper ''key'' []) accepting ?ms)) = None"
    using t by blast
  have b: "events_of (outbox (fst (snd (evaluate_and_notify (init_scraper ''key'' []) accepting ?ms)))) =
     [(''trigger'', ''k8s-zero-replicas-prod/db''), (''trigger'', ''k8s-zero-replicas-prod/api'')]"
    unfolding t [THEN conjunct2, THEN conjunct2, THEN conjunct2]
    by (simp add: metric_eval n1 n2)
  have "list_all is_metric_with_gaps ?ms"
    using h by (simp only: list_all_iff)
  with u a b show ?thesis by blast
qed

text \<open>
  C8. The \<^verbatim>\<open>try\<close> block of a sender turns every outcome of the outbound call into a
  boolean: \<open>False\<close> for a transport error or a 4xx/5xx response,
      \<open>True\<close> otherwise, and
  that boolean is what a sender returns. The outcomes of the calls change neither the
  requests that the evaluator posts, nor the exception it may raise, nor the metrics
  list it leaves: a failed call does not stop the remaining events.
\<close>

theorem dispatch_failure_contained:
  "try_send r = Inr (case r of Raises e \<Rightarrow> False | Status code \<Rightarrow> \<not> (400 \<le> code \<and> code < 600)) \<and>
   snd (send_pagerduty_alert self p a) = try_send (p (fst (send_pagerduty_alert self p a))) \<and>
   snd (send_pagerduty_resolve self p k t m) =
     try_send (p (fst (send_pagerduty_resolve self p k t m))) \<and>
   fst (evaluate_and_notify self post metrics) = fst (evaluate_and_notify self post2 metrics) \<and>
   snd (snd (evaluate_and_notify self post metrics)) =
     snd (snd (evaluate_and_notify self post2 metrics)) \<and>
   outbox (fst (snd (evaluate_and_notify self post metrics))) =
     outbox (fst (snd (evaluate_and_notify self post2 metrics)))"
proof -
  have 1: "try_send r = Inr (case r of Raises e \<Rightarrow> False | Status code \<Rightarrow> \<not> (400 \<le> code \<and> code < 600))"
    by (simp add: try_send_def post_and_check_def split: http_result.splits)
  have 2: "snd (send_pagerduty_alert self p a) = try_send (p (fst (send_pagerduty_alert self p a)))"
    by (simp add: send_pagerduty_alert_def Let_def)
  have 3: "snd (send_pagerduty_resolve self p k t m) =
     try_send (p (fst (send_pagerduty_resolve self p k t m)))"
    by (simp add: send_pagerduty_resolve_def Let_def)
  note 4 = notify_loop_observable [of no_requests no_requests self post metrics post2,
      unfolded no_requests_def, folded evaluate_and_notify_def]
  from 1 2 3 4 show ?thesis by simp
qed

theorem dispatch_failure_contained_witness:
  "events_of (outbox (fst (snd (evaluate_and_notify (init_scraper ''key'' [])
      (\<lambda>n request. if n = 0 then Raises ConnectionError else Status 500)
      [[(''name'', PStr ''web''), (''namespace'', PStr ''prod''), (''type'', PStr ''deployment''),
        (''desired_replicas'', PInt 3), (''available_replicas'', PInt 0)],
       [(''name'', PStr ''api-7f8b9c''), (''namespace'', PStr ''prod''), (''type'', PStr ''replicaset''),
        (''desired_replicas'', PInt 2), (''available_replicas'', PInt 2)]])))) =
     [(''trigger'', ''k8s-zero-replicas-prod/web''), (''resolve'', ''k8s-zero-replicas-prod/api'')] \<and>
   try_send (Raises ConnectionError) = Inr False \<and> try_send (Status 500) = Inr False \<and>
   try_send (Status 202) = Inr True"
proof -
  let ?ms = "[[(''name'', PStr ''web''), (''namespace'', PStr ''prod''), (''type'', PStr ''deployment''),
        (''desired_replicas'', PInt 3), (''available_replicas'', PInt 0)],
       [(''name'', PStr ''api-7f8b9c''), (''namespace'', PStr ''prod''), (''type'', PStr ''replicaset''),
        (''desired_replicas'', PInt 2), (''available_replicas'', PInt 2)]]"
  let ?failing = "\<lambda>(n::nat) (request::pd_request). if n = 0 then Raises ConnectionError else Status 500"
  have h: "\<forall>m \<in> set ?ms. is_metric_with_gaps m"
    by (simp add: metric_eval)
  have n1: "remove_replicaset_hash ''web'' = ''web''"
    and n2: "remove_replicaset_hash ''api-7f8b9c'' = ''api''"
    by (simp_all add: normalize_eval)
  have "events_of (outbox (fst (snd (evaluate_and_notify (init_scraper ''key'' []) accepting ?ms)))) =
     [(''trigger'', ''k8s-zero-replicas-prod/web''), (''resolve'', ''k8s-zero-replicas-prod/api'')]"
    unfolding evaluate_gaps(3) [OF h] by (simp add: metric_eval n1 n2)
  moreover note dispatch_failure_contained [of _ "init_scraper ''key'' []" _ _ _ _ _ ?failing ?ms accepting]
  moreover have "try_send (Raises ConnectionError) = Inr False"
    using dispatch_failure_contained [of "Raises ConnectionError"] by simp
  moreover have "try_send (Status 500) = Inr False"
    using dispatch_failure_contained [of "Status 500"] by simp
  moreover have "try_send (Status 202) = Inr True"
    using dispatch_failure_contained [of "Status 202"] by simp
  ultimately show ?thesis by simp
qed

section \<open>Scheduled jobs\<close>

lemma owner_refs_loop_eq:
  "owner_refs_loop name jn jf refs (f, ns) =
     (f + (if jf then int (length (filter (\<lambda>ref. ref_kind ref = ''CronJob'' \<and> ref_name ref = name) refs)) else 0),
      ns @ replicate (length (filter (\<lambda>ref. ref_kind ref = ''CronJob'' \<and> ref_name ref = name) refs)) jn)"
  by (induction refs arbitrary: f ns) (auto simp: replicate_app_Cons_same)

lemma job_has_failed_count: "job_has_failed j = (failure_count j > 0)"
  by (simp add: job_has_failed_def failure_count_def split: option.splits)

lemma jobs_loop_inv:
  "fst (jobs_loop name jobs (f, ns)) \<ge> f \<and>
   (fst (jobs_loop name jobs (f, ns)) = f \<longleftrightarrow> failed_executions name jobs = []) \<and>
   set (snd (jobs_loop name jobs (f,
       ns))) = set ns \<union> job_name_of ` {j \<in> set jobs. owned_by name j}"
proof (induction jobs arbitrary: f ns)
  case Nil
  then show ?case by (simp add: failed_executions_def)
next
  case (Cons j js)
  show ?case
  proof (cases "job_metadata j")
    case None
    then have "\<not> owned_by name j" by (simp add: owned_by_def)
    with None Cons.IH [of f ns] show ?thesis
      by (auto simp: failed_executions_def)
  next
    case (Some md)
    show ?thesis
    proof (cases "owner_references md")
      case None
      with Some have "\<not> owned_by name j" by (simp add: owned_by_def)
      with Some None Cons.IH [of f ns] show ?thesis
        by (auto simp: failed_executions_def)
    next
      case (Some refs)
      let ?k = "length (filter (\<lambda>ref. ref_kind ref = ''CronJob'' \<and> ref_name ref = name) refs)"
      have o: "owned_by name j \<longleftrightarrow> ?k > 0"
        using \<open>job_metadata j = Some md\<close> Some
        by (auto simp: owned_by_def filter_empty_conv)
      have n: "job_name_of j = meta_name md"
        using \<open>job_metadata j = Some md\<close> by (simp add: job_name_of_def)
      let ?f = "f + (if job_has_failed j then int ?k else 0)"
      let ?ns = "ns @ replicate ?k (meta_name md)"
      have step: "jobs_loop name (j # js) (f, ns) = jobs_loop name js (?f, ?ns)"
        using \<open>job_metadata j = Some md\<close> Some by (simp add: owner_refs_loop_eq)
      from Cons.IH [of ?f ?ns]
      have ih: "?f \<le> fst (jobs_loop name js (?f, ?ns))"
        "(fst (jobs_loop name js (?f, ?ns)) = ?f) = (failed_executions name js = [])"
        "set (snd (jobs_loop name js (?f,
            ?ns))) = set ?ns \<union> job_name_of ` {j \<in> set js. owned_by name j}"
        by auto
      have f1: "f \<le> ?f" by simp
      have f2: "?f = f \<longleftrightarrow> \<not> (owned_by name j \<and> failure_count j > 0)"
        by (auto simp: o job_has_failed_count)
      have a: "f \<le> fst (jobs_loop name (j # js) (f, ns))"
        unfolding step using ih(1) f1 by linarith
      have b: "(fst (jobs_loop name (j # js) (f, ns)) = f) = (failed_executions name (j # js) = [])"
      proof -
        have "(fst (jobs_loop name js (?f, ?ns)) = f) = (fst (jobs_loop name js (?f,
            ?ns)) = ?f \<and> ?f = f)"
          using ih(1) f1 by linarith
        also have "\<dots> = (failed_executions name js = [] \<and> \<not> (owned_by name j \<and> failure_count j > 0))"
          using ih(2) f2 by simp
        also have "\<dots> = (failed_executions name (j # js) = [])"
          by (auto simp: failed_executions_def)
        finally show ?thesis unfolding step .
      qed
      have c: "set (snd (jobs_loop name (j # js) (f, ns))) =
                 set ns \<union> job_name_of ` {j' \<in> set (j # js). owned_by name j'}"
      proof (cases "owned_by name j")
        case True
        then have "set ?ns = insert (job_name_of j) (set ns)"
          using o n by (simp add: set_replicate_conv_if)
        moreover have "{j' \<in> set (j # js). owned_by name j'} = insert j {j' \<in> set js. owned_by name j'}"
          using True by auto
        ultimately show ?thesis
          unfolding step ih(3) by auto
      next
        case False
        then have "?k = 0" using o by simp
        moreover have "{j' \<in> set (j # js). owned_by name j'} = {j' \<in> set js. owned_by name j'}"
          using False by auto
        ultimately show ?thesis
          unfolding step ih(3) by simp
      qed
      from a b c show ?thesis by blast
    qed
  qed
qed

lemma pods_loop_pass:
  "pod_metadata p = Some md \<Longrightarrow> \<not> (\<exists>jn \<in> set names. pod_job_name p = Some jn) \<Longrightarrow>
   pods_loop names (p # ps) n = pods_loop names ps n"
  by (auto simp: pod_job_name_def split: option.splits)

lemma pods_loop_count:
  "pod_metadata p = Some md \<Longrightarrow> \<exists>jn \<in> set names. pod_job_name p = Some jn \<Longrightarrow>
   pod_status p = Some s \<Longrightarrow>
   pods_loop names (p # ps) n = pods_loop names ps (if pod_failed_or_unknown p then n + 1 else n)"
  by (auto simp: pod_job_name_def pod_failed_or_unknown_def split: option.splits)

lemma pods_loop_readable:
  assumes "\<forall>p \<in> set ps. pod_metadata p \<noteq> None \<and>
             ((\<exists>jn \<in> set names. pod_job_name p = Some jn) \<longrightarrow> pod_status p \<noteq> None)"
  shows "pods_loop names (ps @ rest) n =
           pods_loop names rest
             (n + int (length (filter (\<lambda>p. (\<exists>jn \<in> set names. pod_job_name p = Some jn) \<and>
                                           pod_failed_or_unknown p) ps)))"
proof -
  define hit where "hit = (\<lambda>p. (\<exists>jn \<in> set names. pod_job_name p = Some jn) \<and> pod_failed_or_unknown p)"
  have "pods_loop names (ps @ rest) n = pods_loop names rest (n + int (length (filter hit ps)))"
    using assms
  proof (induction ps arbitrary: n)
    case Nil
    then show ?case by simp
  next
    case (Cons p ps)
    from Cons.prems obtain md where md: "pod_metadata p = Some md"
      by auto
    from Cons.prems have
      "\<forall>p \<in> set ps. pod_metadata p \<noteq> None \<and>
         ((\<exists>jn \<in> set names. pod_job_name p = Some jn) \<longrightarrow> pod_status p \<noteq> None)"
      by simp
    note ih = Cons.IH [OF this]
    show ?case
    proof (cases "\<exists>jn \<in> set names. pod_job_name p = Some jn")
      case True
      with Cons.prems obtain s where s: "pod_status p = Some s" by auto
      have h: "hit p = pod_failed_or_unknown p"
        using True by (simp add: hit_def)
      have "pods_loop names ((p # ps) @ rest) n =
              pods_loop names (ps @ rest) (if pod_failed_or_unknown p then n + 1 else n)"
        using pods_loop_count [OF md True s] by simp
      also have "\<dots> = pods_loop names rest (n + int (length (filter hit (p # ps))))"
        unfolding ih by (simp add: h add.assoc)
      finally show ?thesis .
    next
      case False
      have h: "\<not> hit p"
        using False by (simp add: hit_def)
      have "pods_loop names ((p # ps) @ rest) n = pods_loop names (ps @ rest) n"
        using pods_loop_pass [OF md False] by simp
      also have "\<dots> = pods_loop names rest (n + int (length (filter hit (p # ps))))"
        unfolding ih by (simp add: h)
      finally show ?thesis .
    qed
  qed
  then show ?thesis
    unfolding hit_def .
qed

lemma pods_loop_raises:
  assumes "pod_metadata bad = None \<or>
             ((\<exists>jn \<in> set names. pod_job_name bad = Some jn) \<and> pod_status bad = None)"
  shows "pods_loop names (bad # rest) n = (n, Some AttributeError)"
  using assms by (auto simp: pod_job_name_def split: option.splits)

lemma check_jobs_ok:
  assumes "list_namespaced_job k8s ns = Inr jobs"
  shows "(fst (check_jobs k8s ns name) = 0) = (failed_executions name jobs = [])"
    and "set (snd (check_jobs k8s ns name)) = job_name_of ` {j \<in> set jobs. owned_by name j}"
  using jobs_loop_inv [of 0 name jobs "[]"] assms by (simp_all add: check_jobs_def)

lemma check_jobs_error:
  "list_namespaced_job k8s ns = Inl e \<Longrightarrow> check_jobs k8s ns name = (0, [])"
  by (simp add: check_jobs_def)

lemma belongs_to_names:
  "set names = job_name_of ` {j \<in> set jobs. owned_by name j} \<Longrightarrow>
   (\<exists>jn \<in> set names. pod_job_name p = Some jn) = belongs_to name jobs p"
  by (auto simp: belongs_to_def)

lemma check_pods_stops:
  assumes "list_namespaced_pod k8s ns = Inr (ps @ rest)"
    and "\<forall>p \<in> set ps. \<not> pod_unreadable name jobs p"
    and "rest = [] \<or> pod_unreadable name jobs (hd rest)"
    and "set names = job_name_of ` {j \<in> set jobs. owned_by name j}"
  shows "(check_pods k8s ns names = 0) = (failed_pods_of name jobs ps = [])"
proof (cases "names = []")
  case True
  with assms(4) have "\<not> belongs_to name jobs p" for p
    by (auto simp: belongs_to_def)
  with True show ?thesis
    by (simp add: check_pods_def failed_pods_of_def)
next
  case False
  note b = belongs_to_names [OF assms(4)]
  have r: "\<forall>p \<in> set ps. pod_metadata p \<noteq> None \<and>
             ((\<exists>jn \<in> set names. pod_job_name p = Some jn) \<longrightarrow> pod_status p \<noteq> None)"
    using assms(2) by (auto simp: b pod_unreadable_def)
  have "fst (pods_loop names rest n) = n" for n
  proof (cases rest)
    case Nil
    then show ?thesis by simp
  next
    case (Cons bad tl)
    with assms(3) have "pod_metadata bad = None \<or>
             ((\<exists>jn \<in> set names. pod_job_name bad = Some jn) \<and> pod_status bad = None)"
      unfolding b pod_unreadable_def by simp
    from pods_loop_raises [OF this] Cons show ?thesis by simp
  qed
  then have "fst (pods_loop names (ps @ rest) 0) =
      int (length (filter (\<lambda>p. belongs_to name jobs p \<and> pod_failed_or_unknown p) ps))"
    unfolding pods_loop_readable [OF r] b by simp
  with False assms(1) show ?thesis
    by (simp add: check_pods_def failed_pods_of_def)
qed

lemma check_pods_ok:
  assumes "list_namespaced_pod k8s ns = Inr pods"
    and "\<forall>p \<in> set pods. \<not> pod_unreadable name jobs p"
    and "set names = job_name_of ` {j \<in> set jobs. owned_by name j}"
  shows "(check_pods k8s ns names = 0) = (failed_pods_of name jobs pods = [])"
  using check_pods_stops [of k8s ns pods "[]" name jobs names] assms by simp

lemma check_pods_error:
  "list_namespaced_pod k8s ns = Inl e \<Longrightarrow> check_pods k8s ns names = 0"
  by (simp add: check_pods_def)

lemma cronjob_body_unset_spec:
  assumes "cj_metadata cj = Some md"
    and "is_watched self ''cronjob'' (meta_namespace md) (meta_name md)"
    and "cj_spec cj = None"
  shows "cronjob_body self k8s cj = Inl ValueError"
  using assms by (simp add: cronjob_body_def V1CronJobSpec_def)

lemma cronjob_body_watched:
  assumes "cj_metadata cj = Some md"
    and "is_watched self ''cronjob'' (meta_namespace md) (meta_name md)"
    and "cj_spec cj = Some sp"
  shows "\<exists>m. cronjob_body self k8s cj = Inr (Some m) \<and>
           map_of m ''desired_replicas'' = Some (PInt (if spec_suspended cj then 0 else 1)) \<and>
           map_of m ''failed_jobs'' = Some (PInt (fst (check_jobs k8s (meta_namespace md) (meta_name md)))) \<and>
           map_of m ''failed_pods'' =
             Some (PInt (check_pods k8s (meta_namespace md)
                      (snd (check_jobs k8s (meta_namespace md) (meta_name md))))) \<and>
           map_of m ''available_replicas'' =
             Some (PInt (if \<not> spec_suspended cj \<and> spec_has_succeeded cj \<and>
                            fst (check_jobs k8s (meta_namespace md) (meta_name md)) = 0 \<and>
                            check_pods k8s (meta_namespace md)
                              (snd (check_jobs k8s (meta_namespace md) (meta_name md))) = 0
                         then 1 else 0))"
proof -
  have s: "spec_suspended cj = (case suspend sp of None \<Rightarrow> False | Some b \<Rightarrow> b)"
    using assms(3) by (simp add: spec_suspended_def split: option.splits)
  have h: "spec_has_succeeded cj =
      (last_successful_time (case cj_status cj of None \<Rightarrow> V1CronJobStatus | Some st \<Rightarrow> st) \<noteq> None)"
    by (simp add: spec_has_succeeded_def V1CronJobStatus_def split: option.splits)
  show ?thesis
    using assms unfolding s h
    by (cases "check_jobs k8s (meta_namespace md) (meta_name md)")
       (simp add: cronjob_body_def Let_def)
qed

lemmas cron_eval =
  spec_healthy_def spec_suspended_def spec_has_succeeded_def failed_executions_def owned_by_def
  failure_count_def or0_def failed_pods_of_def belongs_to_def pod_job_name_def job_name_of_def
  pod_failed_or_unknown_def pod_unreadable_def

lemma example_watched:
  "is_watched (init_scraper key [\<lparr>item_kind = Some ''CronJob'', item_namespace = ''batch'',
      item_name = ''nightly''\<rparr>])
     ''cronjob'' ''batch'' ''nightly''"
proof -
  have k: "kind_of_item \<lparr>item_kind = Some ''CronJob'', item_namespace = ''batch'',
      item_name = ''nightly''\<rparr>
             = ''cronjob''"
    by (simp add: kind_of_item_def py_lower_def lower_char_def)
  have l: "py_lower ''cronjob'' = ''cronjob''"
    by (simp add: py_lower_def lower_char_def)
  show ?thesis
    by (simp add: is_watched_def init_pairs_lookup k l)
qed

lemma example_phases:
  "py_lower ''Succeeded'' = ''succeeded''" "py_lower ''Failed'' = ''failed''"
  by (simp_all add: py_lower_def lower_char_def)

text \<open>
  C3, as the code has it. When the pod loop raises, the pods after the raising one are
  not examined. Here the second pod of an owned execution has no status, so reading its
  phase raises, and the third pod, which is in the failed phase, is never counted: the
  metric has \<open>available_replicas = 1\<close> although a pod of an owned execution has failed.
\<close>

theorem cronjob_ignores_pods_after_error:
  "(\<exists>m. cronjob_body (init_scraper ''key'' [\<lparr>item_kind = Some ''CronJob'',
      item_namespace = ''batch'', item_name = ''nightly''\<rparr>])
          \<lparr>list_deployment_for_all_namespaces = Inr [],
              list_replica_set_for_all_namespaces = Inr [],
              list_daemon_set_for_all_namespaces = Inr [],
              list_stateful_set_for_all_namespaces = Inr [],
              list_cron_job_for_all_namespaces = Inr [\<lparr>cj_metadata = Some \<lparr>meta_name = ''nightly'',
              meta_namespace = ''batch'', owner_references = None, labels = None\<rparr>,
              cj_spec = Some \<lparr>suspend = Some False\<rparr>,
              cj_status = Some \<lparr>last_successful_time = Some ''2024-05-01T02:00:00''\<rparr>\<rparr>],
              list_namespaced_job = (\<lambda>ns. Inr [\<lparr>job_metadata = Some \<lparr>meta_name = ''nightly-1'',
              meta_namespace = ''batch'', owner_references = Some [\<lparr>ref_kind = ''CronJob'',
              ref_name = ''nightly''\<rparr>], labels = None\<rparr>,
              job_status = Some \<lparr>failed = None\<rparr>\<rparr>]),
              list_namespaced_pod = (\<lambda>ns. Inr [\<lparr>pod_metadata = Some \<lparr>meta_name = ''nightly-1-abcde'',
              meta_namespace = ''batch'', owner_references = None, labels = Some [(''job-name'',
              ''nightly-1'')]\<rparr>,
              pod_status = Some \<lparr>phase = Some ''Succeeded''\<rparr>\<rparr>,
              \<lparr>pod_metadata = Some \<lparr>meta_name = ''nightly-1-klmno'',
              meta_namespace = ''batch'', owner_references = None, labels = Some [(''job-name'',
              ''nightly-1'')]\<rparr>, pod_status = None\<rparr>,
              \<lparr>pod_metadata = Some \<lparr>meta_name = ''nightly-1-fghij'',
              meta_namespace = ''batch'', owner_references = None, labels = Some [(''job-name'',
              ''nightly-1'')]\<rparr>,
              pod_status = Some \<lparr>phase = Some ''Failed''\<rparr>\<rparr>]),
              now_isoformat = ''2024-05-01T03:00:00''\<rparr>
          \<lparr>cj_metadata = Some \<lparr>meta_name = ''nightly'', meta_namespace = ''batch'',
              owner_references = None, labels = None\<rparr>,
              cj_spec = Some \<lparr>suspend = Some False\<rparr>,
              cj_status = Some \<lparr>last_successful_time = Some ''2024-05-01T02:00:00''\<rparr>\<rparr> = Inr (Some m) \<and>
       map_of m ''available_replicas'' = Some (PInt 1)) \<and>
   failed_pods_of ''nightly'' [\<lparr>job_metadata = Some \<lparr>meta_name = ''nightly-1'',
       meta_namespace = ''batch'', owner_references = Some [\<lparr>ref_kind = ''CronJob'',
       ref_name = ''nightly''\<rparr>], labels = None\<rparr>,
       job_status = Some \<lparr>failed = None\<rparr>\<rparr>]
     [\<lparr>pod_metadata = Some \<lparr>meta_name = ''nightly-1-abcde'',
         meta_namespace = ''batch'', owner_references = None, labels = Some [(''job-name'',
         ''nightly-1'')]\<rparr>,
         pod_status = Some \<lparr>phase = Some ''Succeeded''\<rparr>\<rparr>,
      \<lparr>pod_metadata = Some \<lparr>meta_name = ''nightly-1-klmno'',
          meta_namespace = ''batch'', owner_references = None, labels = Some [(''job-name'',
          ''nightly-1'')]\<rparr>, pod_status = None\<rparr>,
      \<lparr>pod_metadata = Some \<lparr>meta_name = ''nightly-1-fghij'',
          meta_namespace = ''batch'', owner_references = None, labels = Some [(''job-name'',
          ''nightly-1'')]\<rparr>,
          pod_status = Some \<lparr>phase = Some ''Failed''\<rparr>\<rparr>] \<noteq> []"
proof -
  let ?md = "\<lparr>meta_name = ''nightly'', meta_namespace = ''batch'', owner_references = None,
      labels = None\<rparr>"
  let ?cj = "\<lparr>cj_metadata = Some \<lparr>meta_name = ''nightly'',
      meta_namespace = ''batch'', owner_references = None, labels = None\<rparr>,
      cj_spec = Some \<lparr>suspend = Some False\<rparr>,
      cj_status = Some \<lparr>last_successful_time = Some ''2024-05-01T02:00:00''\<rparr>\<rparr>"
  let ?k = "\<lparr>list_deployment_for_all_namespaces = Inr [],
      list_replica_set_for_all_namespaces = Inr [], list_daemon_set_for_all_namespaces = Inr [],
      list_stateful_set_for_all_namespaces = Inr [],
      list_cron_job_for_all_namespaces = Inr [\<lparr>cj_metadata = Some \<lparr>meta_name = ''nightly'',
      meta_namespace = ''batch'', owner_references = None, labels = None\<rparr>,
      cj_spec = Some \<lparr>suspend = Some False\<rparr>,
      cj_status = Some \<lparr>last_successful_time = Some ''2024-05-01T02:00:00''\<rparr>\<rparr>],
      list_namespaced_job = (\<lambda>ns. Inr [\<lparr>job_metadata = Some \<lparr>meta_name = ''nightly-1'',
      meta_namespace = ''batch'', owner_references = Some [\<lparr>ref_kind = ''CronJob'',
      ref_name = ''nightly''\<rparr>], labels = None\<rparr>,
      job_status = Some \<lparr>failed = None\<rparr>\<rparr>]),
      list_namespaced_pod = (\<lambda>ns. Inr [\<lparr>pod_metadata = Some \<lparr>meta_name = ''nightly-1-abcde'',
      meta_namespace = ''batch'', owner_references = None, labels = Some [(''job-name'',
      ''nightly-1'')]\<rparr>,
      pod_status = Some \<lparr>phase = Some ''Succeeded''\<rparr>\<rparr>,
      \<lparr>pod_metadata = Some \<lparr>meta_name = ''nightly-1-klmno'',
      meta_namespace = ''batch'', owner_references = None, labels = Some [(''job-name'',
      ''nightly-1'')]\<rparr>, pod_status = None\<rparr>,
      \<lparr>pod_metadata = Some \<lparr>meta_name = ''nightly-1-fghij'',
      meta_namespace = ''batch'', owner_references = None, labels = Some [(''job-name'',
      ''nightly-1'')]\<rparr>, pod_status = Some \<lparr>phase = Some ''Failed''\<rparr>\<rparr>]),
      now_isoformat = ''2024-05-01T03:00:00''\<rparr>"
  let ?jobs = "[\<lparr>job_metadata = Some \<lparr>meta_name = ''nightly-1'',
      meta_namespace = ''batch'', owner_references = Some [\<lparr>ref_kind = ''CronJob'',
      ref_name = ''nightly''\<rparr>], labels = None\<rparr>,
      job_status = Some \<lparr>failed = None\<rparr>\<rparr>]"
  let ?ps = "[\<lparr>pod_metadata = Some \<lparr>meta_name = ''nightly-1-abcde'',
      meta_namespace = ''batch'', owner_references = None, labels = Some [(''job-name'',
      ''nightly-1'')]\<rparr>,
      pod_status = Some \<lparr>phase = Some ''Succeeded''\<rparr>\<rparr>]"
  let ?rest = "[\<lparr>pod_metadata = Some \<lparr>meta_name = ''nightly-1-klmno'',
      meta_namespace = ''batch'', owner_references = None, labels = Some [(''job-name'',
      ''nightly-1'')]\<rparr>, pod_status = None\<rparr>,
      \<lparr>pod_metadata = Some \<lparr>meta_name = ''nightly-1-fghij'',
      meta_namespace = ''batch'', owner_references = None, labels = Some [(''job-name'',
      ''nightly-1'')]\<rparr>, pod_status = Some \<lparr>phase = Some ''Failed''\<rparr>\<rparr>]"
  have 1: "cj_metadata ?cj = Some ?md" by simp
  have 2: "is_watched (init_scraper ''key'' [\<lparr>item_kind = Some ''CronJob'',
      item_namespace = ''batch'',
      item_name = ''nightly''\<rparr>]) ''cronjob'' (meta_namespace ?md) (meta_name ?md)"
    using example_watched by simp
  have 3: "cj_spec ?cj = Some \<lparr>suspend = Some False\<rparr>" by simp
  have j: "list_namespaced_job ?k (meta_namespace ?md) = Inr ?jobs" by simp
  have p: "list_namespaced_pod ?k (meta_namespace ?md) = Inr (?ps @ ?rest)" by simp
  have r: "\<forall>p \<in> set ?ps. \<not> pod_unreadable (meta_name ?md) ?jobs p"
    by (simp add: cron_eval)
  have u: "?rest = [] \<or> pod_unreadable (meta_name ?md) ?jobs (hd ?rest)"
    by (simp add: cron_eval)
  note cj = check_jobs_ok [OF j, of "meta_name ?md"]
  note cp = check_pods_stops [OF p r u cj(2)]
  have h: "\<not> spec_suspended ?cj \<and> spec_has_succeeded ?cj \<and>
      failed_executions (meta_name ?md) ?jobs = [] \<and> failed_pods_of (meta_name ?md) ?jobs ?ps = []"
    by (simp add: cron_eval example_phases)
  from cronjob_body_watched [OF 1 2 3, of ?k]
  have a: "\<exists>m. cronjob_body (init_scraper ''key'' [\<lparr>item_kind = Some ''CronJob'',
      item_namespace = ''batch'', item_name = ''nightly''\<rparr>]) ?k ?cj = Inr (Some m) \<and>
       map_of m ''available_replicas'' = Some (PInt 1)"
    unfolding cj(1) cp using h by auto
  have b: "failed_pods_of ''nightly'' ?jobs (?ps @ ?rest) \<noteq> []"
    by (simp add: cron_eval example_phases)
  from a b show ?thesis by simp
qed

text \<open>
  C3, amended. For a watched schedule whose spec is set, whose executions and pods were
  listed and none of whose listed pods makes the pod loop raise, the metric has
  \<open>desired_replicas = 1\<close> when the schedule is not suspended and \<open>0\<close> when it is, and
  \<open>available_replicas = 1\<close> exactly when the schedule is not suspended, has a last
  successful time, has no owned execution with a failure count above zero and has no pod
  of an owned execution in a failed or unknown phase; otherwise \<open>available_replicas = 0\<close>.
\<close>

theorem cronjob_health_rule:
  assumes "cj_metadata cj = Some md"
    and "is_watched self ''cronjob'' (meta_namespace md) (meta_name md)"
    and "cj_spec cj = Some sp"
    and "list_namespaced_job k8s (meta_namespace md) = Inr jobs"
    and "list_namespaced_pod k8s (meta_namespace md) = Inr pods"
    and "\<forall>p \<in> set pods. \<not> pod_unreadable (meta_name md) jobs p"
  shows "\<exists>m. cronjob_body self k8s cj = Inr (Some m) \<and>
           map_of m ''desired_replicas'' = Some (PInt (if spec_suspended cj then 0 else 1)) \<and>
           map_of m ''available_replicas'' =
             Some (PInt (if spec_healthy cj (meta_name md) jobs pods then 1 else 0))"
proof -
  note j = check_jobs_ok [OF assms(4), of "meta_name md"]
  note p = check_pods_ok [OF assms(5) assms(6) j(2)]
  from cronjob_body_watched [OF assms(1) assms(2) assms(3), of k8s]
  show ?thesis
    unfolding j(1) p spec_healthy_def by blast
qed

theorem cronjob_health_rule_witness:
  "(\<exists>m. cronjob_body (init_scraper ''key'' [\<lparr>item_kind = Some ''CronJob'',
      item_namespace = ''batch'', item_name = ''nightly''\<rparr>])
          \<lparr>list_deployment_for_all_namespaces = Inr [],
              list_replica_set_for_all_namespaces = Inr [],
              list_daemon_set_for_all_namespaces = Inr [],
              list_stateful_set_for_all_namespaces = Inr [],
              list_cron_job_for_all_namespaces = Inr [\<lparr>cj_metadata = Some \<lparr>meta_name = ''nightly'',
              meta_namespace = ''batch'', owner_references = None, labels = None\<rparr>,
              cj_spec = Some \<lparr>suspend = Some False\<rparr>,
              cj_status = Some \<lparr>last_successful_time = Some ''2024-05-01T02:00:00''\<rparr>\<rparr>],
              list_namespaced_job = (\<lambda>ns. Inr [\<lparr>job_metadata = Some \<lparr>meta_name = ''nightly-1'',
              meta_namespace = ''batch'', owner_references = Some [\<lparr>ref_kind = ''CronJob'',
              ref_name = ''nightly''\<rparr>], labels = None\<rparr>,
              job_status = Some \<lparr>failed = None\<rparr>\<rparr>]),
              list_namespaced_pod = (\<lambda>ns. Inr [\<lparr>pod_metadata = Some \<lparr>meta_name = ''nightly-1-abcde'',
              meta_namespace = ''batch'', owner_references = None, labels = Some [(''job-name'',
              ''nightly-1'')]\<rparr>,
              pod_status = Some \<lparr>phase = Some ''Succeeded''\<rparr>\<rparr>]),
              now_isoformat = ''2024-05-01T03:00:00''\<rparr>
          \<lparr>cj_metadata = Some \<lparr>meta_name = ''nightly'', meta_namespace = ''batch'',
              owner_references = None, labels = None\<rparr>,
              cj_spec = Some \<lparr>suspend = Some False\<rparr>,
              cj_status = Some \<lparr>last_successful_time = Some ''2024-05-01T02:00:00''\<rparr>\<rparr> = Inr (Some m) \<and>
       map_of m ''desired_replicas'' = Some (PInt 1) \<and>
       map_of m ''available_replicas'' = Some (PInt 1)) \<and>
   (\<exists>m. cronjob_body (init_scraper ''key'' [\<lparr>item_kind = Some ''CronJob'',
       item_namespace = ''batch'', item_name = ''nightly''\<rparr>])
          \<lparr>list_deployment_for_all_namespaces = Inr [],
              list_replica_set_for_all_namespaces = Inr [],
              list_daemon_set_for_all_namespaces = Inr [],
              list_stateful_set_for_all_namespaces = Inr [],
              list_cron_job_for_all_namespaces = Inr [\<lparr>cj_metadata = Some \<lparr>meta_name = ''nightly'',
              meta_namespace = ''batch'', owner_references = None, labels = None\<rparr>,
              cj_spec = Some \<lparr>suspend = Some True\<rparr>,
              cj_status = Some \<lparr>last_successful_time = Some ''2024-05-01T02:00:00''\<rparr>\<rparr>],
              list_namespaced_job = (\<lambda>ns. Inr [\<lparr>job_metadata = Some \<lparr>meta_name = ''nightly-1'',
              meta_namespace = ''batch'', owner_references = Some [\<lparr>ref_kind = ''CronJob'',
              ref_name = ''nightly''\<rparr>], labels = None\<rparr>,
              job_status = Some \<lparr>failed = None\<rparr>\<rparr>]),
              list_namespaced_pod = (\<lambda>ns. Inr [\<lparr>pod_metadata = Some \<lparr>meta_name = ''nightly-1-abcde'',
              meta_namespace = ''batch'', owner_references = None, labels = Some [(''job-name'',
              ''nightly-1'')]\<rparr>,
              pod_status = Some \<lparr>phase = Some ''Succeeded''\<rparr>\<rparr>]),
              now_isoformat = ''2024-05-01T03:00:00''\<rparr>
          \<lparr>cj_metadata = Some \<lparr>meta_name = ''nightly'', meta_namespace = ''batch'',
              owner_references = None, labels = None\<rparr>,
              cj_spec = Some \<lparr>suspend = Some True\<rparr>,
              cj_status = Some \<lparr>last_successful_time = Some ''2024-05-01T02:00:00''\<rparr>\<rparr> = Inr (Some m) \<and>
       map_of m ''desired_replicas'' = Some (PInt 0) \<and>
       map_of m ''available_replicas'' = Some (PInt 0)) \<and>
   (\<exists>m. cronjob_body (init_scraper ''key'' [\<lparr>item_kind = Some ''CronJob'',
       item_namespace = ''batch'', item_name = ''nightly''\<rparr>])
          \<lparr>list_deployment_for_all_namespaces = Inr [],
              list_replica_set_for_all_namespaces = Inr [],
              list_daemon_set_for_all_namespaces = Inr [],
              list_stateful_set_for_all_namespaces = Inr [],
              list_cron_job_for_all_namespaces = Inr [\<lparr>cj_metadata = Some \<lparr>meta_name = ''nightly'',
              meta_namespace = ''batch'', owner_references = None, labels = None\<rparr>,
              cj_spec = Some \<lparr>suspend = Some False\<rparr>,
              cj_status = Some \<lparr>last_successful_time = Some ''2024-05-01T02:00:00''\<rparr>\<rparr>],
              list_namespaced_job = (\<lambda>ns. Inr [\<lparr>job_metadata = Some \<lparr>meta_name = ''nightly-1'',
              meta_namespace = ''batch'', owner_references = Some [\<lparr>ref_kind = ''CronJob'',
              ref_name = ''nightly''\<rparr>], labels = None\<rparr>,
              job_status = Some \<lparr>failed = None\<rparr>\<rparr>]),
              list_namespaced_pod = (\<lambda>ns. Inr [\<lparr>pod_metadata = Some \<lparr>meta_name = ''nightly-1-abcde'',
              meta_namespace = ''batch'', owner_references = None, labels = Some [(''job-name'',
              ''nightly-1'')]\<rparr>,
              pod_status = Some \<lparr>phase = Some ''Succeeded''\<rparr>\<rparr>,
              \<lparr>pod_metadata = Some \<lparr>meta_name = ''nightly-1-fghij'',
              meta_namespace = ''batch'', owner_references = None, labels = Some [(''job-name'',
              ''nightly-1'')]\<rparr>,
              pod_status = Some \<lparr>phase = Some ''Failed''\<rparr>\<rparr>]),
              now_isoformat = ''2024-05-01T03:00:00''\<rparr>
          \<lparr>cj_metadata = Some \<lparr>meta_name = ''nightly'', meta_namespace = ''batch'',
              owner_references = None, labels = None\<rparr>,
              cj_spec = Some \<lparr>suspend = Some False\<rparr>,
              cj_status = Some \<lparr>last_successful_time = Some ''2024-05-01T02:00:00''\<rparr>\<rparr> = Inr (Some m) \<and>
       map_of m ''desired_replicas'' = Some (PInt 1) \<and>
       map_of m ''available_replicas'' = Some (PInt 0))"
proof -
  let ?md = "\<lparr>meta_name = ''nightly'', meta_namespace = ''batch'', owner_references = None,
      labels = None\<rparr>"
  let ?cj = "\<lparr>cj_metadata = Some \<lparr>meta_name = ''nightly'',
      meta_namespace = ''batch'', owner_references = None, labels = None\<rparr>,
      cj_spec = Some \<lparr>suspend = Some False\<rparr>,
      cj_status = Some \<lparr>last_successful_time = Some ''2024-05-01T02:00:00''\<rparr>\<rparr>"
  let ?cjs = "\<lparr>cj_metadata = Some \<lparr>meta_name = ''nightly'',
      meta_namespace = ''batch'', owner_references = None, labels = None\<rparr>,
      cj_spec = Some \<lparr>suspend = Some True\<rparr>,
      cj_status = Some \<lparr>last_successful_time = Some ''2024-05-01T02:00:00''\<rparr>\<rparr>"
  let ?k = "\<lparr>list_deployment_for_all_namespaces = Inr [],
      list_replica_set_for_all_namespaces = Inr [], list_daemon_set_for_all_namespaces = Inr [],
      list_stateful_set_for_all_namespaces = Inr [],
      list_cron_job_for_all_namespaces = Inr [\<lparr>cj_metadata = Some \<lparr>meta_name = ''nightly'',
      meta_namespace = ''batch'', owner_references = None, labels = None\<rparr>,
      cj_spec = Some \<lparr>suspend = Some False\<rparr>,
      cj_status = Some \<lparr>last_successful_time = Some ''2024-05-01T02:00:00''\<rparr>\<rparr>],
      list_namespaced_job = (\<lambda>ns. Inr [\<lparr>job_metadata = Some \<lparr>meta_name = ''nightly-1'',
      meta_namespace = ''batch'', owner_references = Some [\<lparr>ref_kind = ''CronJob'',
      ref_name = ''nightly''\<rparr>], labels = None\<rparr>,
      job_status = Some \<lparr>failed = None\<rparr>\<rparr>]),
      list_namespaced_pod = (\<lambda>ns. Inr [\<lparr>pod_metadata = Some \<lparr>meta_name = ''nightly-1-abcde'',
      meta_namespace = ''batch'', owner_references = None, labels = Some [(''job-name'',
      ''nightly-1'')]\<rparr>,
      pod_status = Some \<lparr>phase = Some ''Succeeded''\<rparr>\<rparr>]),
      now_isoformat = ''2024-05-01T03:00:00''\<rparr>"
  let ?ks = "\<lparr>list_deployment_for_all_namespaces = Inr [],
      list_replica_set_for_all_namespaces = Inr [], list_daemon_set_for_all_namespaces = Inr [],
      list_stateful_set_for_all_namespaces = Inr [],
      list_cron_job_for_all_namespaces = Inr [\<lparr>cj_metadata = Some \<lparr>meta_name = ''nightly'',
      meta_namespace = ''batch'', owner_references = None, labels = None\<rparr>,
      cj_spec = Some \<lparr>suspend = Some True\<rparr>,
      cj_status = Some \<lparr>last_successful_time = Some ''2024-05-01T02:00:00''\<rparr>\<rparr>],
      list_namespaced_job = (\<lambda>ns. Inr [\<lparr>job_metadata = Some \<lparr>meta_name = ''nightly-1'',
      meta_namespace = ''batch'', owner_references = Some [\<lparr>ref_kind = ''CronJob'',
      ref_name = ''nightly''\<rparr>], labels = None\<rparr>,
      job_status = Some \<lparr>failed = None\<rparr>\<rparr>]),
      list_namespaced_pod = (\<lambda>ns. Inr [\<lparr>pod_metadata = Some \<lparr>meta_name = ''nightly-1-abcde'',
      meta_namespace = ''batch'', owner_references = None, labels = Some [(''job-name'',
      ''nightly-1'')]\<rparr>,
      pod_status = Some \<lparr>phase = Some ''Succeeded''\<rparr>\<rparr>]),
      now_isoformat = ''2024-05-01T03:00:00''\<rparr>"
  let ?kf = "\<lparr>list_deployment_for_all_namespaces = Inr [],
      list_replica_set_for_all_namespaces = Inr [], list_daemon_set_for_all_namespaces = Inr [],
      list_stateful_set_for_all_namespaces = Inr [],
      list_cron_job_for_all_namespaces = Inr [\<lparr>cj_metadata = Some \<lparr>meta_name = ''nightly'',
      meta_namespace = ''batch'', owner_references = None, labels = None\<rparr>,
      cj_spec = Some \<lparr>suspend = Some False\<rparr>,
      cj_status = Some \<lparr>last_successful_time = Some ''2024-05-01T02:00:00''\<rparr>\<rparr>],
      list_namespaced_job = (\<lambda>ns. Inr [\<lparr>job_metadata = Some \<lparr>meta_name = ''nightly-1'',
      meta_namespace = ''batch'', owner_references = Some [\<lparr>ref_kind = ''CronJob'',
      ref_name = ''nightly''\<rparr>], labels = None\<rparr>,
      job_status = Some \<lparr>failed = None\<rparr>\<rparr>]),
      list_namespaced_pod = (\<lambda>ns. Inr [\<lparr>pod_metadata = Some \<lparr>meta_name = ''nightly-1-abcde'',
      meta_namespace = ''batch'', owner_references = None, labels = Some [(''job-name'',
      ''nightly-1'')]\<rparr>,
      pod_status = Some \<lparr>phase = Some ''Succeeded''\<rparr>\<rparr>,
      \<lparr>pod_metadata = Some \<lparr>meta_name = ''nightly-1-fghij'',
      meta_namespace = ''batch'', owner_references = None, labels = Some [(''job-name'',
      ''nightly-1'')]\<rparr>, pod_status = Some \<lparr>phase = Some ''Failed''\<rparr>\<rparr>]),
      now_isoformat = ''2024-05-01T03:00:00''\<rparr>"
  let ?jobs = "[\<lparr>job_metadata = Some \<lparr>meta_name = ''nightly-1'',
      meta_namespace = ''batch'', owner_references = Some [\<lparr>ref_kind = ''CronJob'',
      ref_name = ''nightly''\<rparr>], labels = None\<rparr>,
      job_status = Some \<lparr>failed = None\<rparr>\<rparr>]"
  let ?pods = "[\<lparr>pod_metadata = Some \<lparr>meta_name = ''nightly-1-abcde'',
      meta_namespace = ''batch'', owner_references = None, labels = Some [(''job-name'',
      ''nightly-1'')]\<rparr>,
      pod_status = Some \<lparr>phase = Some ''Succeeded''\<rparr>\<rparr>]"
  let ?podsf = "[\<lparr>pod_metadata = Some \<lparr>meta_name = ''nightly-1-abcde'',
      meta_namespace = ''batch'', owner_references = None, labels = Some [(''job-name'',
      ''nightly-1'')]\<rparr>,
      pod_status = Some \<lparr>phase = Some ''Succeeded''\<rparr>\<rparr>,
      \<lparr>pod_metadata = Some \<lparr>meta_name = ''nightly-1-fghij'',
      meta_namespace = ''batch'', owner_references = None, labels = Some [(''job-name'',
      ''nightly-1'')]\<rparr>, pod_status = Some \<lparr>phase = Some ''Failed''\<rparr>\<rparr>]"
  have w: "is_watched (init_scraper ''key'' [\<lparr>item_kind = Some ''CronJob'',
      item_namespace = ''batch'',
      item_name = ''nightly''\<rparr>]) ''cronjob'' (meta_namespace ?md) (meta_name ?md)"
    using example_watched by simp
  have r: "\<forall>p \<in> set ?pods. \<not> pod_unreadable (meta_name ?md) ?jobs p"
    by (simp add: cron_eval)
  have rf: "\<forall>p \<in> set ?podsf. \<not> pod_unreadable (meta_name ?md) ?jobs p"
    by (simp add: cron_eval)
  have h: "spec_healthy ?cj (meta_name ?md) ?jobs ?pods" "\<not> spec_suspended ?cj"
    by (simp_all add: cron_eval example_phases)
  have hs: "\<not> spec_healthy ?cjs (meta_name ?md) ?jobs ?pods" "spec_suspended ?cjs"
    by (simp_all add: cron_eval example_phases)
  have hf: "\<not> spec_healthy ?cj (meta_name ?md) ?jobs ?podsf"
    by (simp add: cron_eval example_phases)
  have a: "\<exists>m. cronjob_body (init_scraper ''key'' [\<lparr>item_kind = Some ''CronJob'',
      item_namespace = ''batch'', item_name = ''nightly''\<rparr>]) ?k ?cj = Inr (Some m) \<and>
       map_of m ''desired_replicas'' = Some (PInt 1) \<and>
       map_of m ''available_replicas'' = Some (PInt 1)"
    using cronjob_health_rule [of ?cj ?md "(init_scraper ''key'' [\<lparr>item_kind = Some ''CronJob'',
        item_namespace = ''batch'',
        item_name = ''nightly''\<rparr>])" "\<lparr>suspend = Some False\<rparr>" ?k ?jobs ?pods,
        OF _ w _ _ _ r] h
    by simp
  have b: "\<exists>m. cronjob_body (init_scraper ''key'' [\<lparr>item_kind = Some ''CronJob'',
      item_namespace = ''batch'', item_name = ''nightly''\<rparr>]) ?ks ?cjs = Inr (Some m) \<and>
       map_of m ''desired_replicas'' = Some (PInt 0) \<and>
       map_of m ''available_replicas'' = Some (PInt 0)"
    using cronjob_health_rule [of ?cjs ?md "(init_scraper ''key'' [\<lparr>item_kind = Some ''CronJob'',
        item_namespace = ''batch'',
        item_name = ''nightly''\<rparr>])" "\<lparr>suspend = Some True\<rparr>" ?ks ?jobs ?pods,
        OF _ w _ _ _ r] hs
    by simp
  have c: "\<exists>m. cronjob_body (init_scraper ''key'' [\<lparr>item_kind = Some ''CronJob'',
      item_namespace = ''batch'', item_name = ''nightly''\<rparr>]) ?kf ?cj = Inr (Some m) \<and>
       map_of m ''desired_replicas'' = Some (PInt 1) \<and>
       map_of m ''available_replicas'' = Some (PInt 0)"
    using cronjob_health_rule [of ?cj ?md "(init_scraper ''key'' [\<lparr>item_kind = Some ''CronJob'',
        item_namespace = ''batch'',
        item_name = ''nightly''\<rparr>])" "\<lparr>suspend = Some False\<rparr>" ?kf ?jobs ?podsf,
        OF _ w _ _ _ rf] h(2) hf
    by simp
  from a b c show ?thesis by (intro conjI)
qed

text \<open>
  C6. The collector returns a list whatever happens. A watched schedule whose spec is
  unset raises before either sub-lookup is made. A watched schedule whose spec is set
  always yields its metric, whatever the two sub-lookups answer. When listing the
  executions raises, both tallies are zero and the schedule is healthy exactly when it
  is not suspended and has a last successful time. When listing the pods raises, the pod
  tally is zero and the schedule is healthy exactly when, besides, no owned execution
  reports failures. When the pod loop raises at a pod (its metadata is unset, or it
  belongs to an owned execution and its status is unset), the tally of the pods before
  it is kept and the pods after it are not counted.
\<close>

theorem cronjob_sublookup_errors:
  assumes "cj_metadata cj = Some md"
    and "is_watched self ''cronjob'' (meta_namespace md) (meta_name md)"
  shows "(\<exists>ms. get_cronjob_metrics self k8s = Inr ms) \<and>
         (cj_spec cj = None \<longrightarrow> cronjob_body self k8s cj = Inl ValueError) \<and>
         (cj_spec cj \<noteq> None \<longrightarrow>
           (\<exists>m. cronjob_body self k8s cj = Inr (Some m)) \<and>
           (\<forall>e. list_namespaced_job k8s (meta_namespace md) = Inl e \<longrightarrow>
              (\<exists>m. cronjob_body self k8s cj = Inr (Some m) \<and>
                 map_of m ''failed_jobs'' = Some (PInt 0) \<and>
                 map_of m ''failed_pods'' = Some (PInt 0) \<and>
                 map_of m ''available_replicas'' =
                   Some (PInt (if \<not> spec_suspended cj \<and> spec_has_succeeded cj then 1 else 0)))) \<and>
           (\<forall>jobs e. list_namespaced_job k8s (meta_namespace md) = Inr jobs \<and>
              list_namespaced_pod k8s (meta_namespace md) = Inl e \<longrightarrow>
              (\<exists>m. cronjob_body self k8s cj = Inr (Some m) \<and>
                 map_of m ''failed_pods'' = Some (PInt 0) \<and>
                 map_of m ''available_replicas'' =
                   Some (PInt (if \<not> spec_suspended cj \<and> spec_has_succeeded cj \<and>
                                  failed_executions (meta_name md) jobs = [] then 1 else 0)))) \<and>
           (\<forall>jobs ps bad rest. list_namespaced_job k8s (meta_namespace md) = Inr jobs \<and>
              list_namespaced_pod k8s (meta_namespace md) = Inr (ps @ bad # rest) \<and>
              (\<forall>p \<in> set ps. \<not> pod_unreadable (meta_name md) jobs p) \<and>
              pod_unreadable (meta_name md) jobs bad \<longrightarrow>
              (\<exists>m. cronjob_body self k8s cj = Inr (Some m) \<and>
                 map_of m ''available_replicas'' =
                   Some (PInt (if spec_healthy cj (meta_name md) jobs ps then 1 else 0)))))"
proof -
  have 0: "\<exists>ms. get_cronjob_metrics self k8s = Inr ms"
    by (simp add: get_cronjob_metrics_def collect_def split: prod.splits)
  have n: "cronjob_body self k8s cj = Inl ValueError" if "cj_spec cj = None"
    using cronjob_body_unset_spec [OF assms that] .
  have s: "(\<exists>m. cronjob_body self k8s cj = Inr (Some m)) \<and>
           (\<forall>e. list_namespaced_job k8s (meta_namespace md) = Inl e \<longrightarrow>
              (\<exists>m. cronjob_body self k8s cj = Inr (Some m) \<and>
                 map_of m ''failed_jobs'' = Some (PInt 0) \<and>
                 map_of m ''failed_pods'' = Some (PInt 0) \<and>
                 map_of m ''available_replicas'' =
                   Some (PInt (if \<not> spec_suspended cj \<and> spec_has_succeeded cj then 1 else 0)))) \<and>
           (\<forall>jobs e. list_namespaced_job k8s (meta_namespace md) = Inr jobs \<and>
              list_namespaced_pod k8s (meta_namespace md) = Inl e \<longrightarrow>
              (\<exists>m. cronjob_body self k8s cj = Inr (Some m) \<and>
                 map_of m ''failed_pods'' = Some (PInt 0) \<and>
                 map_of m ''available_replicas'' =
                   Some (PInt (if \<not> spec_suspended cj \<and> spec_has_succeeded cj \<and>
                                  failed_executions (meta_name md) jobs = [] then 1 else 0)))) \<and>
           (\<forall>jobs ps bad rest. list_namespaced_job k8s (meta_namespace md) = Inr jobs \<and>
              list_namespaced_pod k8s (meta_namespace md) = Inr (ps @ bad # rest) \<and>
              (\<forall>p \<in> set ps. \<not> pod_unreadable (meta_name md) jobs p) \<and>
              pod_unreadable (meta_name md) jobs bad \<longrightarrow>
              (\<exists>m. cronjob_body self k8s cj = Inr (Some m) \<and>
                 map_of m ''available_replicas'' =
                   Some (PInt (if spec_healthy cj (meta_name md) jobs ps then 1 else 0))))"
    if "cj_spec cj \<noteq> None"
  proof -
    from that obtain sp where sp: "cj_spec cj = Some sp" by blast
    note b = cronjob_body_watched [OF assms sp, of k8s]
    from b obtain m where m: "cronjob_body self k8s cj = Inr (Some m)"
      "map_of m ''failed_jobs'' = Some (PInt (fst (check_jobs k8s (meta_namespace md) (meta_name md))))"
      "map_of m ''failed_pods'' =
             Some (PInt (check_pods k8s (meta_namespace md)
                      (snd (check_jobs k8s (meta_namespace md) (meta_name md)))))"
      "map_of m ''available_replicas'' =
             Some (PInt (if \<not> spec_suspended cj \<and> spec_has_succeeded cj \<and>
                            fst (check_jobs k8s (meta_namespace md) (meta_name md)) = 0 \<and>
                            check_pods k8s (meta_namespace md)
                              (snd (check_jobs k8s (meta_namespace md) (meta_name md))) = 0
                         then 1 else 0))"
      by blast
    have 1: "\<exists>m. cronjob_body self k8s cj = Inr (Some m)"
      using m(1) by blast
    have 3: "\<exists>m. cronjob_body self k8s cj = Inr (Some m) \<and>
                 map_of m ''failed_jobs'' = Some (PInt 0) \<and>
                 map_of m ''failed_pods'' = Some (PInt 0) \<and>
                 map_of m ''available_replicas'' =
                   Some (PInt (if \<not> spec_suspended cj \<and> spec_has_succeeded cj then 1 else 0))"
      if "list_namespaced_job k8s (meta_namespace md) = Inl e" for e
      using m unfolding check_jobs_error [OF that]
      by (intro exI [of _ m]) (simp add: check_pods_def)
    have 4: "\<exists>m. cronjob_body self k8s cj = Inr (Some m) \<and>
                 map_of m ''failed_pods'' = Some (PInt 0) \<and>
                 map_of m ''available_replicas'' =
                   Some (PInt (if \<not> spec_suspended cj \<and> spec_has_succeeded cj \<and>
                                  failed_executions (meta_name md) jobs = [] then 1 else 0))"
      if "list_namespaced_job k8s (meta_namespace md) = Inr jobs"
        and "list_namespaced_pod k8s (meta_namespace md) = Inl e" for jobs e
      using m unfolding check_jobs_ok(1) [OF that(1)] check_pods_error [OF that(2)]
      by (intro exI [of _ m]) simp
    have 5: "\<exists>m. cronjob_body self k8s cj = Inr (Some m) \<and>
                 map_of m ''available_replicas'' =
                   Some (PInt (if spec_healthy cj (meta_name md) jobs ps then 1 else 0))"
      if "list_namespaced_job k8s (meta_namespace md) = Inr jobs"
        and "list_namespaced_pod k8s (meta_namespace md) = Inr (ps @ bad # rest)"
        and "\<forall>p \<in> set ps. \<not> pod_unreadable (meta_name md) jobs p"
        and "pod_unreadable (meta_name md) jobs bad" for jobs ps bad rest
    proof -
      note j = check_jobs_ok [OF that(1), of "meta_name md"]
      have u: "bad # rest = [] \<or> pod_unreadable (meta_name md) jobs (hd (bad # rest))"
        using that(4) by simp
      note p = check_pods_stops [OF that(2) that(3) u j(2)]
      show ?thesis
        using m(1) m(4) unfolding j(1) p spec_healthy_def
        by (intro exI [of _ m]) simp
    qed
    from 1 3 4 5 show ?thesis by blast
  qed
  from 0 n s show ?thesis by blast
qed

theorem cronjob_sublookup_errors_witness:
  "(\<exists>m. cronjob_body (init_scraper ''key'' [\<lparr>item_kind = Some ''CronJob'',
      item_namespace = ''batch'', item_name = ''nightly''\<rparr>])
          \<lparr>list_deployment_for_all_namespaces = Inr [],
              list_replica_set_for_all_namespaces = Inr [],
              list_daemon_set_for_all_namespaces = Inr [],
              list_stateful_set_for_all_namespaces = Inr [],
              list_cron_job_for_all_namespaces = Inr [\<lparr>cj_metadata = Some \<lparr>meta_name = ''nightly'',
              meta_namespace = ''batch'', owner_references = None, labels = None\<rparr>,
              cj_spec = Some \<lparr>suspend = Some False\<rparr>,
              cj_status = Some \<lparr>last_successful_time = Some ''2024-05-01T02:00:00''\<rparr>\<rparr>],
              list_namespaced_job = (\<lambda>ns. Inl ApiException),
              list_namespaced_pod = (\<lambda>ns. Inr [\<lparr>pod_metadata = Some \<lparr>meta_name = ''nightly-1-fghij'',
              meta_namespace = ''batch'', owner_references = None, labels = Some [(''job-name'',
              ''nightly-1'')]\<rparr>,
              pod_status = Some \<lparr>phase = Some ''Failed''\<rparr>\<rparr>]),
              now_isoformat = ''2024-05-01T03:00:00''\<rparr>
          \<lparr>cj_metadata = Some \<lparr>meta_name = ''nightly'', meta_namespace = ''batch'',
              owner_references = None, labels = None\<rparr>,
              cj_spec = Some \<lparr>suspend = Some False\<rparr>,
              cj_status = Some \<lparr>last_successful_time = Some ''2024-05-01T02:00:00''\<rparr>\<rparr> = Inr (Some m) \<and>
       map_of m ''failed_jobs'' = Some (PInt 0) \<and> map_of m ''failed_pods'' = Some (PInt 0) \<and>
       map_of m ''available_replicas'' = Some (PInt 1)) \<and>
   (\<exists>m. cronjob_body (init_scraper ''key'' [\<lparr>item_kind = Some ''CronJob'',
       item_namespace = ''batch'', item_name = ''nightly''\<rparr>])
          \<lparr>list_deployment_for_all_namespaces = Inr [],
              list_replica_set_for_all_namespaces = Inr [],
              list_daemon_set_for_all_namespaces = Inr [],
              list_stateful_set_for_all_namespaces = Inr [],
              list_cron_job_for_all_namespaces = Inr [\<lparr>cj_metadata = Some \<lparr>meta_name = ''nightly'',
              meta_namespace = ''batch'', owner_references = None, labels = None\<rparr>,
              cj_spec = Some \<lparr>suspend = Some False\<rparr>,
              cj_status = Some \<lparr>last_successful_time = Some ''2024-05-01T02:00:00''\<rparr>\<rparr>],
              list_namespaced_job = (\<lambda>ns. Inr [\<lparr>job_metadata = Some \<lparr>meta_name = ''nightly-1'',
              meta_namespace = ''batch'', owner_references = Some [\<lparr>ref_kind = ''CronJob'',
              ref_name = ''nightly''\<rparr>], labels = None\<rparr>,
              job_status = Some \<lparr>failed = None\<rparr>\<rparr>]),
              list_namespaced_pod = (\<lambda>ns. Inl ApiException),
              now_isoformat = ''2024-05-01T03:00:00''\<rparr>
          \<lparr>cj_metadata = Some \<lparr>meta_name = ''nightly'', meta_namespace = ''batch'',
              owner_references = None, labels = None\<rparr>,
              cj_spec = Some \<lparr>suspend = Some False\<rparr>,
              cj_status = Some \<lparr>last_successful_time = Some ''2024-05-01T02:00:00''\<rparr>\<rparr> = Inr (Some m) \<and>
       map_of m ''failed_pods'' = Some (PInt 0) \<and>
       map_of m ''available_replicas'' = Some (PInt 1)) \<and>
   (\<exists>m. cronjob_body (init_scraper ''key'' [\<lparr>item_kind = Some ''CronJob'',
       item_namespace = ''batch'', item_name = ''nightly''\<rparr>])
          \<lparr>list_deployment_for_all_namespaces = Inr [],
              list_replica_set_for_all_namespaces = Inr [],
              list_daemon_set_for_all_namespaces = Inr [],
              list_stateful_set_for_all_namespaces = Inr [],
              list_cron_job_for_all_namespaces = Inr [\<lparr>cj_metadata = Some \<lparr>meta_name = ''nightly'',
              meta_namespace = ''batch'', owner_references = None, labels = None\<rparr>,
              cj_spec = Some \<lparr>suspend = Some False\<rparr>,
              cj_status = Some \<lparr>last_successful_time = Some ''2024-05-01T02:00:00''\<rparr>\<rparr>],
              list_namespaced_job = (\<lambda>ns. Inr [\<lparr>job_metadata = Some \<lparr>meta_name = ''nightly-1'',
              meta_namespace = ''batch'', owner_references = Some [\<lparr>ref_kind = ''CronJob'',
              ref_name = ''nightly''\<rparr>], labels = None\<rparr>,
              job_status = Some \<lparr>failed = None\<rparr>\<rparr>]),
              list_namespaced_pod = (\<lambda>ns. Inr [\<lparr>pod_metadata = Some \<lparr>meta_name = ''nightly-1-abcde'',
              meta_namespace = ''batch'', owner_references = None, labels = Some [(''job-name'',
              ''nightly-1'')]\<rparr>,
              pod_status = Some \<lparr>phase = Some ''Succeeded''\<rparr>\<rparr>,
              \<lparr>pod_metadata = Some \<lparr>meta_name = ''nightly-1-klmno'',
              meta_namespace = ''batch'', owner_references = None, labels = Some [(''job-name'',
              ''nightly-1'')]\<rparr>, pod_status = None\<rparr>,
              \<lparr>pod_metadata = Some \<lparr>meta_name = ''nightly-1-fghij'',
              meta_namespace = ''batch'', owner_references = None, labels = Some [(''job-name'',
              ''nightly-1'')]\<rparr>,
              pod_status = Some \<lparr>phase = Some ''Failed''\<rparr>\<rparr>]),
              now_isoformat = ''2024-05-01T03:00:00''\<rparr>
          \<lparr>cj_metadata = Some \<lparr>meta_name = ''nightly'', meta_namespace = ''batch'',
              owner_references = None, labels = None\<rparr>,
              cj_spec = Some \<lparr>suspend = Some False\<rparr>,
              cj_status = Some \<lparr>last_successful_time = Some ''2024-05-01T02:00:00''\<rparr>\<rparr> = Inr (Some m) \<and>
       map_of m ''available_replicas'' = Some (PInt 1))"
proof -
  let ?md = "\<lparr>meta_name = ''nightly'', meta_namespace = ''batch'', owner_references = None,
      labels = None\<rparr>"
  let ?cj = "\<lparr>cj_metadata = Some \<lparr>meta_name = ''nightly'',
      meta_namespace = ''batch'', owner_references = None, labels = None\<rparr>,
      cj_spec = Some \<lparr>suspend = Some False\<rparr>,
      cj_status = Some \<lparr>last_successful_time = Some ''2024-05-01T02:00:00''\<rparr>\<rparr>"
  let ?k2 = "\<lparr>list_deployment_for_all_namespaces = Inr [],
      list_replica_set_for_all_namespaces = Inr [], list_daemon_set_for_all_namespaces = Inr [],
      list_stateful_set_for_all_namespaces = Inr [],
      list_cron_job_for_all_namespaces = Inr [\<lparr>cj_metadata = Some \<lparr>meta_name = ''nightly'',
      meta_namespace = ''batch'', owner_references = None, labels = None\<rparr>,
      cj_spec = Some \<lparr>suspend = Some False\<rparr>,
      cj_status = Some \<lparr>last_successful_time = Some ''2024-05-01T02:00:00''\<rparr>\<rparr>],
      list_namespaced_job = (\<lambda>ns. Inl ApiException),
      list_namespaced_pod = (\<lambda>ns. Inr [\<lparr>pod_metadata = Some \<lparr>meta_name = ''nightly-1-fghij'',
      meta_namespace = ''batch'', owner_references = None, labels = Some [(''job-name'',
      ''nightly-1'')]\<rparr>, pod_status = Some \<lparr>phase = Some ''Failed''\<rparr>\<rparr>]),
      now_isoformat = ''2024-05-01T03:00:00''\<rparr>"
  let ?k3 = "\<lparr>list_deployment_for_all_namespaces = Inr [],
      list_replica_set_for_all_namespaces = Inr [], list_daemon_set_for_all_namespaces = Inr [],
      list_stateful_set_for_all_namespaces = Inr [],
      list_cron_job_for_all_namespaces = Inr [\<lparr>cj_metadata = Some \<lparr>meta_name = ''nightly'',
      meta_namespace = ''batch'', owner_references = None, labels = None\<rparr>,
      cj_spec = Some \<lparr>suspend = Some False\<rparr>,
      cj_status = Some \<lparr>last_successful_time = Some ''2024-05-01T02:00:00''\<rparr>\<rparr>],
      list_namespaced_job = (\<lambda>ns. Inr [\<lparr>job_metadata = Some \<lparr>meta_name = ''nightly-1'',
      meta_namespace = ''batch'', owner_references = Some [\<lparr>ref_kind = ''CronJob'',
      ref_name = ''nightly''\<rparr>], labels = None\<rparr>,
      job_status = Some \<lparr>failed = None\<rparr>\<rparr>]),
      list_namespaced_pod = (\<lambda>ns. Inl ApiException),
      now_isoformat = ''2024-05-01T03:00:00''\<rparr>"
  let ?k4 = "\<lparr>list_deployment_for_all_namespaces = Inr [],
      list_replica_set_for_all_namespaces = Inr [], list_daemon_set_for_all_namespaces = Inr [],
      list_stateful_set_for_all_namespaces = Inr [],
      list_cron_job_for_all_namespaces = Inr [\<lparr>cj_metadata = Some \<lparr>meta_name = ''nightly'',
      meta_namespace = ''batch'', owner_references = None, labels = None\<rparr>,
      cj_spec = Some \<lparr>suspend = Some False\<rparr>,
      cj_status = Some \<lparr>last_successful_time = Some ''2024-05-01T02:00:00''\<rparr>\<rparr>],
      list_namespaced_job = (\<lambda>ns. Inr [\<lparr>job_metadata = Some \<lparr>meta_name = ''nightly-1'',
      meta_namespace = ''batch'', owner_references = Some [\<lparr>ref_kind = ''CronJob'',
      ref_name = ''nightly''\<rparr>], labels = None\<rparr>,
      job_status = Some \<lparr>failed = None\<rparr>\<rparr>]),
      list_namespaced_pod = (\<lambda>ns. Inr [\<lparr>pod_metadata = Some \<lparr>meta_name = ''nightly-1-abcde'',
      meta_namespace = ''batch'', owner_references = None, labels = Some [(''job-name'',
      ''nightly-1'')]\<rparr>,
      pod_status = Some \<lparr>phase = Some ''Succeeded''\<rparr>\<rparr>,
      \<lparr>pod_metadata = Some \<lparr>meta_name = ''nightly-1-klmno'',
      meta_namespace = ''batch'', owner_references = None, labels = Some [(''job-name'',
      ''nightly-1'')]\<rparr>, pod_status = None\<rparr>,
      \<lparr>pod_metadata = Some \<lparr>meta_name = ''nightly-1-fghij'',
      meta_namespace = ''batch'', owner_references = None, labels = Some [(''job-name'',
      ''nightly-1'')]\<rparr>, pod_status = Some \<lparr>phase = Some ''Failed''\<rparr>\<rparr>]),
      now_isoformat = ''2024-05-01T03:00:00''\<rparr>"
  let ?jobs = "[\<lparr>job_metadata = Some \<lparr>meta_name = ''nightly-1'',
      meta_namespace = ''batch'', owner_references = Some [\<lparr>ref_kind = ''CronJob'',
      ref_name = ''nightly''\<rparr>], labels = None\<rparr>,
      job_status = Some \<lparr>failed = None\<rparr>\<rparr>]"
  let ?ps = "[\<lparr>pod_metadata = Some \<lparr>meta_name = ''nightly-1-abcde'',
      meta_namespace = ''batch'', owner_references = None, labels = Some [(''job-name'',
      ''nightly-1'')]\<rparr>,
      pod_status = Some \<lparr>phase = Some ''Succeeded''\<rparr>\<rparr>]"
  let ?bad = "\<lparr>pod_metadata = Some \<lparr>meta_name = ''nightly-1-klmno'',
      meta_namespace = ''batch'', owner_references = None, labels = Some [(''job-name'',
      ''nightly-1'')]\<rparr>, pod_status = None\<rparr>"
  let ?rest = "[\<lparr>pod_metadata = Some \<lparr>meta_name = ''nightly-1-fghij'',
      meta_namespace = ''batch'', owner_references = None, labels = Some [(''job-name'',
      ''nightly-1'')]\<rparr>, pod_status = Some \<lparr>phase = Some ''Failed''\<rparr>\<rparr>]"
  have 1: "cj_metadata ?cj = Some ?md" by simp
  have 2: "is_watched (init_scraper ''key'' [\<lparr>item_kind = Some ''CronJob'',
      item_namespace = ''batch'',
      item_name = ''nightly''\<rparr>]) ''cronjob'' (meta_namespace ?md) (meta_name ?md)"
    using example_watched by simp
  have sp: "cj_spec ?cj \<noteq> None" by simp
  have j2: "list_namespaced_job ?k2 (meta_namespace ?md) = Inl ApiException" by simp
  have j3: "list_namespaced_job ?k3 (meta_namespace ?md) = Inr ?jobs \<and>
            list_namespaced_pod ?k3 (meta_namespace ?md) = Inl ApiException" by simp
  have j4: "list_namespaced_job ?k4 (meta_namespace ?md) = Inr ?jobs \<and>
            list_namespaced_pod ?k4 (meta_namespace ?md) = Inr (?ps @ ?bad # ?rest) \<and>
            (\<forall>p \<in> set ?ps. \<not> pod_unreadable (meta_name ?md) ?jobs p) \<and>
            pod_unreadable (meta_name ?md) ?jobs ?bad"
    by (simp add: cron_eval)
  have s: "\<not> spec_suspended ?cj \<and> spec_has_succeeded ?cj"
    by (simp add: spec_suspended_def spec_has_succeeded_def)
  have f: "failed_executions (meta_name ?md) ?jobs = []"
    by (simp add: cron_eval)
  have h: "spec_healthy ?cj (meta_name ?md) ?jobs ?ps"
    by (simp add: cron_eval example_phases)
  note t2 = cronjob_sublookup_errors [OF 1 2, of ?k2, THEN conjunct2, THEN conjunct2, THEN mp, OF sp,
      THEN conjunct2, THEN conjunct1, rule_format, OF j2]
  note t3 = cronjob_sublookup_errors [OF 1 2, of ?k3, THEN conjunct2, THEN conjunct2, THEN mp, OF sp,
      THEN conjunct2, THEN conjunct2, THEN conjunct1, rule_format, OF j3]
  note t4 = cronjob_sublookup_errors [OF 1 2, of ?k4, THEN conjunct2, THEN conjunct2, THEN mp, OF sp,
      THEN conjunct2, THEN conjunct2, THEN conjunct2, rule_format, OF j4]
  from t2 s have a: "\<exists>m. cronjob_body (init_scraper ''key'' [\<lparr>item_kind = Some ''CronJob'',
      item_namespace = ''batch'', item_name = ''nightly''\<rparr>]) ?k2 ?cj = Inr (Some m) \<and>
       map_of m ''failed_jobs'' = Some (PInt 0) \<and> map_of m ''failed_pods'' = Some (PInt 0) \<and>
       map_of m ''available_replicas'' = Some (PInt 1)"
    by simp
  from t3 s f have b: "\<exists>m. cronjob_body (init_scraper ''key'' [\<lparr>item_kind = Some ''CronJob'',
      item_namespace = ''batch'', item_name = ''nightly''\<rparr>]) ?k3 ?cj = Inr (Some m) \<and>
       map_of m ''failed_pods'' = Some (PInt 0) \<and>
       map_of m ''available_replicas'' = Some (PInt 1)"
    by simp
  from t4 h have c: "\<exists>m. cronjob_body (init_scraper ''key'' [\<lparr>item_kind = Some ''CronJob'',
      item_namespace = ''batch'', item_name = ''nightly''\<rparr>]) ?k4 ?cj = Inr (Some m) \<and>
       map_of m ''available_replicas'' = Some (PInt 1)"
    by simp
  from a b c show ?thesis by (intro conjI)
qed

section \<open>Collectors\<close>

lemma collect_loop_ok:
  "\<forall>x \<in> set xs. \<exists>r. body x = Inr r \<Longrightarrow>
   collect_loop body xs acc = (acc @ concat (map (\<lambda>x. produced (body x)) xs), None)"
proof (induction xs arbitrary: acc)
  case Nil
  then show ?case by simp
next
  case (Cons x xs)
  from Cons.prems obtain r where r: "body x = Inr r" by auto
  from Cons.prems have "\<forall>x \<in> set xs. \<exists>r. body x = Inr r" by simp
  note ih = Cons.IH [OF this]
  show ?case
    by (cases r) (simp_all add: r ih produced_def)
qed

lemma collect_loop_raises:
  "\<forall>x \<in> set xs. \<exists>r. body x = Inr r \<Longrightarrow> body x = Inl e \<Longrightarrow>
   collect_loop body (xs @ x # rest) acc = (acc @ concat (map (\<lambda>x. produced (body x)) xs), Some e)"
proof (induction xs arbitrary: acc)
  case Nil
  then show ?case by simp
next
  case (Cons y ys)
  from Cons.prems obtain r where r: "body y = Inr r" by auto
  from Cons.prems have "\<forall>x \<in> set ys. \<exists>r. body x = Inr r" by simp
  note ih = Cons.IH [OF this Cons.prems(2)]
  show ?case
    by (cases r) (simp_all add: r ih produced_def)
qed

lemma collect_ok:
  "listing = Inr xs \<Longrightarrow> \<forall>x \<in> set xs. \<exists>r. body x = Inr r \<Longrightarrow>
   collect listing body = Inr (concat (map (\<lambda>x. produced (body x)) xs))"
  by (simp add: collect_def try_collect_def collect_loop_ok)

lemma collect_total: "\<exists>ms. collect listing body = Inr ms"
  by (simp add: collect_def split: prod.splits)

lemma replicaset_body_complete:
  assumes "complete_workload rs"
  shows "replicaset_body self now rs =
     Inr (if (is_watched self ''replicaset'' (workload_namespace rs) (workload_name rs) \<or>
              workload_namespace rs \<in> watched_namespaces self) \<and> workload_desired rs \<noteq> 0
          then Some
            [(''name'', PStr (workload_name rs)),
             (''namespace'', PStr (workload_namespace rs)),
             (''type'', PStr ''replicaset''),
             (''desired_replicas'', PInt (workload_desired rs)),
             (''available_replicas'',
                 PInt (case w_status rs of None \<Rightarrow> 0 | Some st \<Rightarrow> or0 (available_replicas st))),
             (''ready_replicas'',
                 PInt (case w_status rs of None \<Rightarrow> 0 | Some st \<Rightarrow> or0 (ready_replicas st))),
             (''timestamp'', PStr now)]
          else None)"
  using assms
  by (auto simp: complete_workload_def replicaset_body_def workload_name_def workload_namespace_def
      workload_desired_def)

text \<open>
  C5, as the code has it. The loop reads the status of a replica set before it tests
  whether the desired count is zero, and an exception ends the loop. Here the first
  replica set is scaled to zero and has no status: it is not skipped, reading its status
  raises, and the second replica set, which passes the filter and desires three
  replicas, gets no metric.
\<close>

theorem replicaset_after_unset_status_gets_no_metric:
  "get_replicaset_metrics (init_scraper ''key'' [\<lparr>item_kind = Some ''Deployment'',
      item_namespace = ''prod'', item_name = ''web''\<rparr>])
     \<lparr>list_deployment_for_all_namespaces = Inr [],
         list_replica_set_for_all_namespaces = Inr [\<lparr>w_metadata = Some \<lparr>meta_name = ''web-5d4c3b'',
         meta_namespace = ''prod'', owner_references = None, labels = None\<rparr>,
         w_spec = Some \<lparr>replicas = Some 0\<rparr>, w_status = None\<rparr>,
         \<lparr>w_metadata = Some \<lparr>meta_name = ''web-7f8b9c'', meta_namespace = ''prod'',
         owner_references = None, labels = None\<rparr>,
         w_spec = Some \<lparr>replicas = Some 3\<rparr>,
         w_status = Some \<lparr>available_replicas = Some 3, ready_replicas = Some 3,
         current_replicas = None, updated_replicas = None\<rparr>\<rparr>],
         list_daemon_set_for_all_namespaces = Inr [],
         list_stateful_set_for_all_namespaces = Inr [], list_cron_job_for_all_namespaces = Inr [],
         list_namespaced_job = (\<lambda>ns. Inr []), list_namespaced_pod = (\<lambda>ns. Inr []),
         now_isoformat = ''2024-05-01T03:00:00''\<rparr> = Inr [] \<and>
   workload_namespace \<lparr>w_metadata = Some \<lparr>meta_name = ''web-7f8b9c'',
       meta_namespace = ''prod'', owner_references = None, labels = None\<rparr>,
       w_spec = Some \<lparr>replicas = Some 3\<rparr>,
       w_status = Some \<lparr>available_replicas = Some 3, ready_replicas = Some 3,
       current_replicas = None, updated_replicas = None\<rparr>\<rparr>
     \<in> watched_namespaces (init_scraper ''key'' [\<lparr>item_kind = Some ''Deployment'',
         item_namespace = ''prod'', item_name = ''web''\<rparr>]) \<and>
   0 < workload_desired \<lparr>w_metadata = Some \<lparr>meta_name = ''web-7f8b9c'',
       meta_namespace = ''prod'', owner_references = None, labels = None\<rparr>,
       w_spec = Some \<lparr>replicas = Some 3\<rparr>,
       w_status = Some \<lparr>available_replicas = Some 3, ready_replicas = Some 3,
       current_replicas = None, updated_replicas = None\<rparr>\<rparr>"
proof -
  let ?s = "(init_scraper ''key'' [\<lparr>item_kind = Some ''Deployment'',
      item_namespace = ''prod'', item_name = ''web''\<rparr>])"
  have w: "''prod'' \<in> watched_namespaces ?s" by (simp add: init_scraper_def)
  have "get_replicaset_metrics ?s
     \<lparr>list_deployment_for_all_namespaces = Inr [],
         list_replica_set_for_all_namespaces = Inr [\<lparr>w_metadata = Some \<lparr>meta_name = ''web-5d4c3b'',
         meta_namespace = ''prod'', owner_references = None, labels = None\<rparr>,
         w_spec = Some \<lparr>replicas = Some 0\<rparr>, w_status = None\<rparr>,
         \<lparr>w_metadata = Some \<lparr>meta_name = ''web-7f8b9c'', meta_namespace = ''prod'',
         owner_references = None, labels = None\<rparr>,
         w_spec = Some \<lparr>replicas = Some 3\<rparr>,
         w_status = Some \<lparr>available_replicas = Some 3, ready_replicas = Some 3,
         current_replicas = None, updated_replicas = None\<rparr>\<rparr>],
         list_daemon_set_for_all_namespaces = Inr [],
         list_stateful_set_for_all_namespaces = Inr [], list_cron_job_for_all_namespaces = Inr [],
         list_namespaced_job = (\<lambda>ns. Inr []), list_namespaced_pod = (\<lambda>ns. Inr []),
         now_isoformat = ''2024-05-01T03:00:00''\<rparr> = Inr []"
    by (simp add: get_replicaset_metrics_def collect_def try_collect_def replicaset_body_def w)
  then show ?thesis
    using w by (simp add: workload_namespace_def workload_desired_def or0_def)
qed

text \<open>
  C5, amended. When the replica sets of the snapshot are listed and each has metadata,
  spec and status, the collector returns, in order, what each replica set contributes,
  and a replica set contributes a metric exactly when it passes the filter
  (\<open>is_watched ''replicaset''\<close> or its namespace is among the watched namespaces) and its
  desired replica count is not zero, that is, greater than zero for a count that is not
  negative. The metric carries the replica set's name, namespace and desired count, so
  no metric of the collector has \<open>desired_replicas = 0\<close>.
\<close>

theorem replicaset_filter:
  assumes "list_replica_set_for_all_namespaces k8s = Inr items"
    and "\<forall>rs \<in> set items. complete_workload rs"
  shows "get_replicaset_metrics self k8s =
           Inr (concat (map (\<lambda>rs. produced (replicaset_body self (now_isoformat k8s) rs)) items)) \<and>
         (\<forall>rs \<in> set items.
            (produced (replicaset_body self (now_isoformat k8s) rs) \<noteq> []) =
              ((is_watched self ''replicaset'' (workload_namespace rs) (workload_name rs) \<or>
                workload_namespace rs \<in> watched_namespaces self) \<and> workload_desired rs \<noteq> 0) \<and>
            (0 \<le> workload_desired rs \<longrightarrow>
               (produced (replicaset_body self (now_isoformat k8s) rs) \<noteq> []) =
                 ((is_watched self ''replicaset'' (workload_namespace rs) (workload_name rs) \<or>
                   workload_namespace rs \<in> watched_namespaces self) \<and> 0 < workload_desired rs)) \<and>
            (\<forall>m \<in> set (produced (replicaset_body self (now_isoformat k8s) rs)).
               map_of m ''name'' = Some (PStr (workload_name rs)) \<and>
               map_of m ''namespace'' = Some (PStr (workload_namespace rs)) \<and>
               map_of m ''type'' = Some (PStr ''replicaset'') \<and>
               map_of m ''desired_replicas'' = Some (PInt (workload_desired rs)) \<and>
               workload_desired rs \<noteq> 0))"
proof -
  have ok: "\<forall>rs \<in> set items. \<exists>r. replicaset_body self (now_isoformat k8s) rs = Inr r"
    using assms(2) replicaset_body_complete by blast
  have 1: "get_replicaset_metrics self k8s =
           Inr (concat (map (\<lambda>rs. produced (replicaset_body self (now_isoformat k8s) rs)) items))"
    unfolding get_replicaset_metrics_def by (rule collect_ok [OF assms(1) ok])
  have 2: "(produced (replicaset_body self (now_isoformat k8s) rs) \<noteq> []) =
              ((is_watched self ''replicaset'' (workload_namespace rs) (workload_name rs) \<or>
                workload_namespace rs \<in> watched_namespaces self) \<and> workload_desired rs \<noteq> 0)"
    if "rs \<in> set items" for rs
    using assms(2) that by (simp add: replicaset_body_complete produced_def)
  have 3: "map_of m ''name'' = Some (PStr (workload_name rs)) \<and>
               map_of m ''namespace'' = Some (PStr (workload_namespace rs)) \<and>
               map_of m ''type'' = Some (PStr ''replicaset'') \<and>
               map_of m ''desired_replicas'' = Some (PInt (workload_desired rs)) \<and>
               workload_desired rs \<noteq> 0"
    if "rs \<in> set items" "m \<in> set (produced (replicaset_body self (now_isoformat k8s) rs))" for rs m
    using assms(2) that by (auto simp: replicaset_body_complete produced_def split: if_splits)
  have 4: "(produced (replicaset_body self (now_isoformat k8s) rs) \<noteq> []) =
                 ((is_watched self ''replicaset'' (workload_namespace rs) (workload_name rs) \<or>
                   workload_namespace rs \<in> watched_namespaces self) \<and> 0 < workload_desired rs)"
    if "rs \<in> set items" "0 \<le> workload_desired rs" for rs
    using 2 [OF that(1)] that(2) by auto
  from 1 2 3 4 show ?thesis by blast
qed

theorem replicaset_filter_witness:
  "get_replicaset_metrics (init_scraper ''key'' [\<lparr>item_kind = Some ''Deployment'',
      item_namespace = ''prod'', item_name = ''web''\<rparr>])
     \<lparr>list_deployment_for_all_namespaces = Inr [],
         list_replica_set_for_all_namespaces = Inr [\<lparr>w_metadata = Some \<lparr>meta_name = ''web-7f8b9c'',
         meta_namespace = ''prod'', owner_references = None, labels = None\<rparr>,
         w_spec = Some \<lparr>replicas = Some 3\<rparr>,
         w_status = Some \<lparr>available_replicas = Some 3, ready_replicas = Some 3,
         current_replicas = None, updated_replicas = None\<rparr>\<rparr>,
         \<lparr>w_metadata = Some \<lparr>meta_name = ''web-5d4c3b'', meta_namespace = ''prod'',
         owner_references = None, labels = None\<rparr>,
         w_spec = Some \<lparr>replicas = Some 0\<rparr>,
         w_status = Some \<lparr>available_replicas = None, ready_replicas = None,
         current_replicas = None, updated_replicas = None\<rparr>\<rparr>],
         list_daemon_set_for_all_namespaces = Inr [],
         list_stateful_set_for_all_namespaces = Inr [], list_cron_job_for_all_namespaces = Inr [],
         list_namespaced_job = (\<lambda>ns. Inr []), list_namespaced_pod = (\<lambda>ns. Inr []),
         now_isoformat = ''2024-05-01T03:00:00''\<rparr> =
   Inr [[(''name'', PStr ''web-7f8b9c''), (''namespace'', PStr ''prod''), (''type'', PStr ''replicaset''),
         (''desired_replicas'', PInt 3), (''available_replicas'', PInt 3), (''ready_replicas'', PInt 3),
         (''timestamp'', PStr ''2024-05-01T03:00:00'')]]"
proof -
  let ?s = "(init_scraper ''key'' [\<lparr>item_kind = Some ''Deployment'',
      item_namespace = ''prod'', item_name = ''web''\<rparr>])"
  let ?k = "\<lparr>list_deployment_for_all_namespaces = Inr [],
      list_replica_set_for_all_namespaces = Inr [\<lparr>w_metadata = Some \<lparr>meta_name = ''web-7f8b9c'',
      meta_namespace = ''prod'', owner_references = None, labels = None\<rparr>,
      w_spec = Some \<lparr>replicas = Some 3\<rparr>,
      w_status = Some \<lparr>available_replicas = Some 3, ready_replicas = Some 3,
      current_replicas = None, updated_replicas = None\<rparr>\<rparr>,
      \<lparr>w_metadata = Some \<lparr>meta_name = ''web-5d4c3b'', meta_namespace = ''prod'',
      owner_references = None, labels = None\<rparr>,
      w_spec = Some \<lparr>replicas = Some 0\<rparr>,
      w_status = Some \<lparr>available_replicas = None, ready_replicas = None,
      current_replicas = None, updated_replicas = None\<rparr>\<rparr>],
      list_daemon_set_for_all_namespaces = Inr [], list_stateful_set_for_all_namespaces = Inr [],
      list_cron_job_for_all_namespaces = Inr [], list_namespaced_job = (\<lambda>ns. Inr []),
      list_namespaced_pod = (\<lambda>ns. Inr []), now_isoformat = ''2024-05-01T03:00:00''\<rparr>"
  let ?items = "[\<lparr>w_metadata = Some \<lparr>meta_name = ''web-7f8b9c'',
      meta_namespace = ''prod'', owner_references = None, labels = None\<rparr>,
      w_spec = Some \<lparr>replicas = Some 3\<rparr>,
      w_status = Some \<lparr>available_replicas = Some 3, ready_replicas = Some 3,
      current_replicas = None, updated_replicas = None\<rparr>\<rparr>,
      \<lparr>w_metadata = Some \<lparr>meta_name = ''web-5d4c3b'', meta_namespace = ''prod'',
      owner_references = None, labels = None\<rparr>,
      w_spec = Some \<lparr>replicas = Some 0\<rparr>,
      w_status = Some \<lparr>available_replicas = None, ready_replicas = None,
      current_replicas = None, updated_replicas = None\<rparr>\<rparr>]"
  have 1: "list_replica_set_for_all_namespaces ?k = Inr ?items" by simp
  have 2: "\<forall>rs \<in> set ?items. complete_workload rs" by (simp add: complete_workload_def)
  have w: "''prod'' \<in> watched_namespaces ?s" by (simp add: init_scraper_def)
  note t = replicaset_filter [OF 1 2, of ?s, THEN conjunct1]
  show ?thesis
    unfolding t
    by (simp add: replicaset_body_complete [OF 2 [rule_format]] complete_workload_def produced_def w
        workload_name_def workload_namespace_def workload_desired_def or0_def)
qed

lemma collect_raises:
  "listing = Inr (xs @ x # rest) \<Longrightarrow> \<forall>x \<in> set xs. \<exists>r. body x = Inr r \<Longrightarrow> body x = Inl e \<Longrightarrow>
   collect listing body = Inr (concat (map (\<lambda>x. produced (body x)) xs))"
  by (simp add: collect_def try_collect_def collect_loop_raises)

lemma collect_listing_fails: "listing = Inl e \<Longrightarrow> collect listing body = Inr []"
  by (simp add: collect_def try_collect_def)

lemma example_deployment_watched:
  "is_watched (init_scraper key [\<lparr>item_kind = Some ''Deployment'',
      item_namespace = ''prod'', item_name = ''web''\<rparr>])
     ''deployment'' ''prod'' ''web''"
proof -
  have k: "kind_of_item \<lparr>item_kind = Some ''Deployment'', item_namespace = ''prod'',
      item_name = ''web''\<rparr>
             = ''deployment''"
    by (simp add: kind_of_item_def py_lower_def lower_char_def)
  have l: "py_lower ''deployment'' = ''deployment''"
    by (simp add: py_lower_def lower_char_def)
  show ?thesis
    by (simp add: is_watched_def init_pairs_lookup k l)
qed

text \<open>
  C7, as the code has it. A collector returns the list \<^verbatim>\<open>metrics\<close> as it stands when
  the exception is caught. When the second of two watched Deployments has no status,
  reading it raises inside the loop, and the collector returns the metric of the first
  Deployment, not an empty list.
\<close>

theorem collector_keeps_earlier_metrics:
  "snd (try_collect
      (list_deployment_for_all_namespaces
         \<lparr>list_deployment_for_all_namespaces = Inr [\<lparr>w_metadata = Some \<lparr>meta_name = ''web'',
             meta_namespace = ''prod'', owner_references = None, labels = None\<rparr>,
             w_spec = Some \<lparr>replicas = Some 3\<rparr>,
             w_status = Some \<lparr>available_replicas = Some 0, ready_replicas = Some 0,
             current_replicas = None, updated_replicas = None\<rparr>\<rparr>,
             \<lparr>w_metadata = Some \<lparr>meta_name = ''web'', meta_namespace = ''prod'',
             owner_references = None, labels = None\<rparr>,
             w_spec = Some \<lparr>replicas = Some 2\<rparr>, w_status = None\<rparr>],
             list_replica_set_for_all_namespaces = Inr [],
             list_daemon_set_for_all_namespaces = Inr [],
             list_stateful_set_for_all_namespaces = Inr [],
             list_cron_job_for_all_namespaces = Inr [],
             list_namespaced_job = (\<lambda>ns. Inr []),
             list_namespaced_pod = (\<lambda>ns. Inr []),
             now_isoformat = ''2024-05-01T03:00:00''\<rparr>)
      (deployment_body (init_scraper ''key'' [\<lparr>item_kind = Some ''Deployment'',
          item_namespace = ''prod'',
          item_name = ''web''\<rparr>]) ''2024-05-01T03:00:00'')) = Some AttributeError \<and>
   get_deployment_metrics (init_scraper ''key'' [\<lparr>item_kind = Some ''Deployment'',
       item_namespace = ''prod'', item_name = ''web''\<rparr>])
      \<lparr>list_deployment_for_all_namespaces = Inr [\<lparr>w_metadata = Some \<lparr>meta_name = ''web'',
          meta_namespace = ''prod'', owner_references = None, labels = None\<rparr>,
          w_spec = Some \<lparr>replicas = Some 3\<rparr>,
          w_status = Some \<lparr>available_replicas = Some 0, ready_replicas = Some 0,
          current_replicas = None, updated_replicas = None\<rparr>\<rparr>,
          \<lparr>w_metadata = Some \<lparr>meta_name = ''web'', meta_namespace = ''prod'',
          owner_references = None, labels = None\<rparr>,
          w_spec = Some \<lparr>replicas = Some 2\<rparr>, w_status = None\<rparr>],
          list_replica_set_for_all_namespaces = Inr [],
          list_daemon_set_for_all_namespaces = Inr [],
          list_stateful_set_for_all_namespaces = Inr [], list_cron_job_for_all_namespaces = Inr [],
          list_namespaced_job = (\<lambda>ns. Inr []), list_namespaced_pod = (\<lambda>ns. Inr []),
          now_isoformat = ''2024-05-01T03:00:00''\<rparr> =
     Inr [[(''name'', PStr ''web''), (''namespace'', PStr ''prod''), (''type'',
         PStr ''deployment''), (''desired_replicas'', PInt 3), (''available_replicas'', PInt 0),
         (''ready_replicas'', PInt 0), (''timestamp'', PStr ''2024-05-01T03:00:00'')]] \<and>
   get_deployment_metrics (init_scraper ''key'' [\<lparr>item_kind = Some ''Deployment'',
       item_namespace = ''prod'', item_name = ''web''\<rparr>])
      \<lparr>list_deployment_for_all_namespaces = Inr [\<lparr>w_metadata = Some \<lparr>meta_name = ''web'',
          meta_namespace = ''prod'', owner_references = None, labels = None\<rparr>,
          w_spec = Some \<lparr>replicas = Some 3\<rparr>,
          w_status = Some \<lparr>available_replicas = Some 0, ready_replicas = Some 0,
          current_replicas = None, updated_replicas = None\<rparr>\<rparr>,
          \<lparr>w_metadata = Some \<lparr>meta_name = ''web'', meta_namespace = ''prod'',
          owner_references = None, labels = None\<rparr>,
          w_spec = Some \<lparr>replicas = Some 2\<rparr>, w_status = None\<rparr>],
          list_replica_set_for_all_namespaces = Inr [],
          list_daemon_set_for_all_namespaces = Inr [],
          list_stateful_set_for_all_namespaces = Inr [], list_cron_job_for_all_namespaces = Inr [],
          list_namespaced_job = (\<lambda>ns. Inr []), list_namespaced_pod = (\<lambda>ns. Inr []),
          now_isoformat = ''2024-05-01T03:00:00''\<rparr> \<noteq> Inr []"
proof -
  have w: "is_watched (init_scraper ''key'' [\<lparr>item_kind = Some ''Deployment'',
      item_namespace = ''prod'', item_name = ''web''\<rparr>]) ''deployment'' ''prod'' ''web''"
    by (rule example_deployment_watched)
  show ?thesis
    by (simp add: get_deployment_metrics_def collect_def try_collect_def deployment_body_def w or0_def)
qed

text \<open>
  C7, amended. No collector raises: each returns a list. A collector whose list query
  raises returns the empty list. A collector whose loop raises at an item returns the
  metrics of the items before it. When the DaemonSet query raises, the metrics of the
  run are those of the Deployment, ReplicaSet, StatefulSet and CronJob collectors, and
  the run evaluates them.
\<close>

theorem collectors_contain_errors:
  "(\<exists>ms. get_deployment_metrics self k8s = Inr ms) \<and>
   (\<exists>ms. get_replicaset_metrics self k8s = Inr ms) \<and>
   (\<exists>ms. get_daemonset_metrics self k8s = Inr ms) \<and>
   (\<exists>ms. get_statefulset_metrics self k8s = Inr ms) \<and>
   (\<exists>ms. get_cronjob_metrics self k8s = Inr ms) \<and>
   (\<forall>e. list_deployment_for_all_namespaces k8s = Inl e \<longrightarrow> get_deployment_metrics self k8s = Inr []) \<and>
   (\<forall>e. list_replica_set_for_all_namespaces k8s = Inl e \<longrightarrow> get_replicaset_metrics self k8s = Inr []) \<and>
   (\<forall>e. list_daemon_set_for_all_namespaces k8s = Inl e \<longrightarrow> get_daemonset_metrics self k8s = Inr []) \<and>
   (\<forall>e. list_stateful_set_for_all_namespaces k8s = Inl e \<longrightarrow> get_statefulset_metrics self k8s = Inr []) \<and>
   (\<forall>e. list_cron_job_for_all_namespaces k8s = Inl e \<longrightarrow> get_cronjob_metrics self k8s = Inr []) \<and>
   (\<forall>xs x rest e. listing = Inr (xs @ x # rest) \<and> (\<forall>y \<in> set xs. \<exists>r. body y = Inr r) \<and> body x = Inl e \<longrightarrow>
      collect listing body = Inr (concat (map (\<lambda>y. produced (body y)) xs))) \<and>
   (\<forall>e. list_daemon_set_for_all_namespaces k8s = Inl e \<longrightarrow>
      (\<exists>d r s c.
         get_deployment_metrics self k8s = Inr d \<and> get_replicaset_metrics self k8s = Inr r \<and>
         get_statefulset_metrics self k8s = Inr s \<and> get_cronjob_metrics self k8s = Inr c \<and>
         collect_all self k8s = Inr (d @ r @ s @ c) \<and>
         run self k8s post = evaluate_and_notify self post (d @ r @ s @ c)))"
proof -
  obtain d where d: "get_deployment_metrics self k8s = Inr d"
    unfolding get_deployment_metrics_def using collect_total by blast
  obtain r where r: "get_replicaset_metrics self k8s = Inr r"
    unfolding get_replicaset_metrics_def using collect_total by blast
  obtain a where a: "get_daemonset_metrics self k8s = Inr a"
    unfolding get_daemonset_metrics_def using collect_total by blast
  obtain s where s: "get_statefulset_metrics self k8s = Inr s"
    unfolding get_statefulset_metrics_def using collect_total by blast
  obtain c where c: "get_cronjob_metrics self k8s = Inr c"
    unfolding get_cronjob_metrics_def using collect_total by blast
  have q: "list_deployment_for_all_namespaces k8s = Inl e \<Longrightarrow> get_deployment_metrics self k8s = Inr []"
    "list_replica_set_for_all_namespaces k8s = Inl e \<Longrightarrow> get_replicaset_metrics self k8s = Inr []"
    "list_daemon_set_for_all_namespaces k8s = Inl e \<Longrightarrow> get_daemonset_metrics self k8s = Inr []"
    "list_stateful_set_for_all_namespaces k8s = Inl e \<Longrightarrow> get_statefulset_metrics self k8s = Inr []"
    "list_cron_job_for_all_namespaces k8s = Inl e \<Longrightarrow> get_cronjob_metrics self k8s = Inr []" for e
    by (simp_all add: get_deployment_metrics_def get_replicaset_metrics_def get_daemonset_metrics_def
        get_statefulset_metrics_def get_cronjob_metrics_def collect_listing_fails)
  have l: "collect listing body = Inr (concat (map (\<lambda>y. produced (body y)) xs))"
    if "listing = Inr (xs @ x # rest)" "\<forall>y \<in> set xs. \<exists>r. body y = Inr r" "body x = Inl e"
    for xs x rest e
    using that by (rule collect_raises)
  have all: "collect_all self k8s = Inr (d @ r @ a @ s @ c)"
    by (simp add: collect_all_def then_do_def d r a s c)
  have z: "\<exists>d r s c.
         get_deployment_metrics self k8s = Inr d \<and> get_replicaset_metrics self k8s = Inr r \<and>
         get_statefulset_metrics self k8s = Inr s \<and> get_cronjob_metrics self k8s = Inr c \<and>
         collect_all self k8s = Inr (d @ r @ s @ c) \<and>
         run self k8s post = evaluate_and_notify self post (d @ r @ s @ c)"
    if "list_daemon_set_for_all_namespaces k8s = Inl e" for e
  proof -
    from q(3) [OF that] a have "a = []" by simp
    with all have "collect_all self k8s = Inr (d @ r @ s @ c)" by simp
    moreover from this have "run self k8s post = evaluate_and_notify self post (d @ r @ s @ c)"
      by (simp add: run_def)
    ultimately show ?thesis using d r s c by blast
  qed
  show ?thesis
    using d r a s c q l z by blast
qed

theorem collectors_contain_errors_witness:
  "list_daemon_set_for_all_namespaces
      \<lparr>list_deployment_for_all_namespaces = Inr [\<lparr>w_metadata = Some \<lparr>meta_name = ''web'',
          meta_namespace = ''prod'', owner_references = None, labels = None\<rparr>,
          w_spec = Some \<lparr>replicas = Some 3\<rparr>,
          w_status = Some \<lparr>available_replicas = Some 0, ready_replicas = Some 0,
          current_replicas = None, updated_replicas = None\<rparr>\<rparr>],
          list_replica_set_for_all_namespaces = Inr [],
          list_daemon_set_for_all_namespaces = Inl ApiException,
          list_stateful_set_for_all_namespaces = Inr [], list_cron_job_for_all_namespaces = Inr [],
          list_namespaced_job = (\<lambda>ns. Inr []), list_namespaced_pod = (\<lambda>ns. Inr []),
          now_isoformat = ''2024-05-01T03:00:00''\<rparr> = Inl ApiException \<and>
   get_daemonset_metrics (init_scraper ''key'' [\<lparr>item_kind = Some ''Deployment'',
       item_namespace = ''prod'', item_name = ''web''\<rparr>])
      \<lparr>list_deployment_for_all_namespaces = Inr [\<lparr>w_metadata = Some \<lparr>meta_name = ''web'',
          meta_namespace = ''prod'', owner_references = None, labels = None\<rparr>,
          w_spec = Some \<lparr>replicas = Some 3\<rparr>,
          w_status = Some \<lparr>available_replicas = Some 0, ready_replicas = Some 0,
          current_replicas = None, updated_replicas = None\<rparr>\<rparr>],
          list_replica_set_for_all_namespaces = Inr [],
          list_daemon_set_for_all_namespaces = Inl ApiException,
          list_stateful_set_for_all_namespaces = Inr [], list_cron_job_for_all_namespaces = Inr [],
          list_namespaced_job = (\<lambda>ns. Inr []), list_namespaced_pod = (\<lambda>ns. Inr []),
          now_isoformat = ''2024-05-01T03:00:00''\<rparr> = Inr [] \<and>
   events_of (outbox (fst (snd (run (init_scraper ''key'' [\<lparr>item_kind = Some ''Deployment'',
       item_namespace = ''prod'', item_name = ''web''\<rparr>])
      \<lparr>list_deployment_for_all_namespaces = Inr [\<lparr>w_metadata = Some \<lparr>meta_name = ''web'',
          meta_namespace = ''prod'', owner_references = None, labels = None\<rparr>,
          w_spec = Some \<lparr>replicas = Some 3\<rparr>,
          w_status = Some \<lparr>available_replicas = Some 0, ready_replicas = Some 0,
          current_replicas = None, updated_replicas = None\<rparr>\<rparr>],
          list_replica_set_for_all_namespaces = Inr [],
          list_daemon_set_for_all_namespaces = Inl ApiException,
          list_stateful_set_for_all_namespaces = Inr [], list_cron_job_for_all_namespaces = Inr [],
          list_namespaced_job = (\<lambda>ns. Inr []), list_namespaced_pod = (\<lambda>ns. Inr []),
          now_isoformat = ''2024-05-01T03:00:00''\<rparr> accepting)))) =
     [(''trigger'', ''k8s-zero-replicas-prod/web'')]"
proof -
  let ?s = "(init_scraper ''key'' [\<lparr>item_kind = Some ''Deployment'',
      item_namespace = ''prod'', item_name = ''web''\<rparr>])"
  let ?k = "\<lparr>list_deployment_for_all_namespaces = Inr [\<lparr>w_metadata = Some \<lparr>meta_name = ''web'',
      meta_namespace = ''prod'', owner_references = None, labels = None\<rparr>,
      w_spec = Some \<lparr>replicas = Some 3\<rparr>,
      w_status = Some \<lparr>available_replicas = Some 0, ready_replicas = Some 0,
      current_replicas = None, updated_replicas = None\<rparr>\<rparr>],
      list_replica_set_for_all_namespaces = Inr [],
      list_daemon_set_for_all_namespaces = Inl ApiException,
      list_stateful_set_for_all_namespaces = Inr [], list_cron_job_for_all_namespaces = Inr [],
      list_namespaced_job = (\<lambda>ns. Inr []), list_namespaced_pod = (\<lambda>ns. Inr []),
      now_isoformat = ''2024-05-01T03:00:00''\<rparr>"
  let ?m = "[(''name'', PStr ''web''), (''namespace'', PStr ''prod''), (''type'',
      PStr ''deployment''), (''desired_replicas'', PInt 3), (''available_replicas'', PInt 0),
      (''ready_replicas'', PInt 0), (''timestamp'', PStr ''2024-05-01T03:00:00'')]"
  have f: "list_daemon_set_for_all_namespaces ?k = Inl ApiException" by simp
  have w: "is_watched ?s ''deployment'' ''prod'' ''web''"
    by (rule example_deployment_watched)
  note t = collectors_contain_errors [of ?s ?k _ _ accepting]
  note t8 = t [THEN conjunct2, THEN conjunct2, THEN conjunct2, THEN conjunct2, THEN conjunct2,
      THEN conjunct2, THEN conjunct2, THEN conjunct1, rule_format, OF f]
  note t12 = t [THEN conjunct2, THEN conjunct2, THEN conjunct2, THEN conjunct2, THEN conjunct2,
      THEN conjunct2, THEN conjunct2, THEN conjunct2, THEN conjunct2, THEN conjunct2, THEN conjunct2,
      rule_format, OF f]
  have a: "get_daemonset_metrics ?s ?k = Inr []" by (rule t8)
  from t12 obtain d r s c where
    g: "get_deployment_metrics ?s ?k = Inr d" "get_replicaset_metrics ?s ?k = Inr r"
       "get_statefulset_metrics ?s ?k = Inr s" "get_cronjob_metrics ?s ?k = Inr c"
       "run ?s ?k accepting = evaluate_and_notify ?s accepting (d @ r @ s @ c)"
    by (elim exE conjE)
  have "get_deployment_metrics ?s ?k = Inr [?m]"
    by (simp add: get_deployment_metrics_def collect_def try_collect_def deployment_body_def w or0_def)
  with g(1) have d: "d = [?m]" by simp
  have "get_replicaset_metrics ?s ?k = Inr []" "get_statefulset_metrics ?s ?k = Inr []"
    "get_cronjob_metrics ?s ?k = Inr []"
    by (simp_all add: get_replicaset_metrics_def get_statefulset_metrics_def get_cronjob_metrics_def
        collect_def try_collect_def)
  with g(2,3,4) have e: "r = []" "s = []" "c = []" by simp_all
  have h: "\<forall>m \<in> set [?m]. is_metric_with_gaps m"
    by (simp add: metric_eval)
  have n: "remove_replicaset_hash ''web'' = ''web''"
    by (simp add: normalize_eval)
  have "events_of (outbox (fst (snd (run ?s ?k accepting)))) =
     [(''trigger'', ''k8s-zero-replicas-prod/web'')]"
    unfolding g(5) d e append_Nil2 evaluate_gaps(3) [OF h]
    by (simp add: metric_eval n)
  with f a show ?thesis by (intro conjI)
qed

end
